theory Spec2Isabelle
  imports Main "HOL-Library.Word"
begin

unbundle bit_operations_syntax

section \<open>The UART driver of the PY32F4xx HAL (py32f4xx_hal_uart.c)\<close>

text \<open>
  The driver is embedded function by function.  A C function that mutates the handle
  becomes a function from the handle to the new handle (and the returned status).
  The build configuration is the one of py32f4xx_hal_conf.h:
  \<^verbatim>\<open>USE_HAL_UART_REGISTER_CALLBACKS\<close> is 0, \<^verbatim>\<open>USE_FULL_ASSERT\<close> is undefined
  (so \<^verbatim>\<open>assert_param\<close> expands to nothing) and \<^verbatim>\<open>USE_RTOS\<close> is 0.
\<close>

subsection \<open>Registers\<close>

text \<open>
  Modelled from the spec: the register bit masks (\<^verbatim>\<open>USART_SR_*\<close>, \<^verbatim>\<open>USART_CR1_*\<close>,
  \<^verbatim>\<open>USART_CR2_*\<close>, \<^verbatim>\<open>USART_CR3_*\<close>) and the register macros (\<^verbatim>\<open>SET_BIT\<close>,
  \<^verbatim>\<open>CLEAR_BIT\<close>, \<^verbatim>\<open>READ_BIT\<close>, \<^verbatim>\<open>MODIFY_REG\<close>, \<^verbatim>\<open>HAL_IS_BIT_SET\<close>) are declared
  in the device and HAL headers, which are not among the sources.  The spec treats the
  bit-field layout abstractly, as named control and status bits; accordingly a register
  value is the set of the named bits that are 1 in it, a mask is the set of the bits it
  selects, and \<^verbatim>\<open>|\<close>, \<^verbatim>\<open>&\<close>, \<^verbatim>\<open>& ~\<close> are union, intersection and difference.
\<close>

datatype sr_bit = SR_PE | SR_FE | SR_NE | SR_ORE | SR_IDLE | SR_RXNE | SR_TC | SR_TXE
  | SR_LBD | SR_CTS

datatype cr1_bit = CR1_SBK | CR1_RWU | CR1_RE | CR1_TE | CR1_IDLEIE | CR1_RXNEIE
  | CR1_TCIE | CR1_TXEIE | CR1_PEIE | CR1_PS | CR1_PCE | CR1_WAKE | CR1_M | CR1_UE

datatype cr2_bit = CR2_ADD0 | CR2_ADD1 | CR2_ADD2 | CR2_ADD3 | CR2_LBDL | CR2_LBDIE
  | CR2_LBCL | CR2_CPHA | CR2_CPOL | CR2_CLKEN | CR2_STOP0 | CR2_STOP1 | CR2_LINEN

datatype cr3_bit = CR3_EIE | CR3_IREN | CR3_IRLP | CR3_HDSEL | CR3_NACK | CR3_SCEN
  | CR3_DMAR | CR3_DMAT | CR3_RTSE | CR3_CTSE | CR3_CTSIE | CR3_OVER8 | CR3_ABREN
  | CR3_ABRMOD0 | CR3_ABRMOD1

abbreviation USART_SR_PE :: "sr_bit set" where "USART_SR_PE \<equiv> {SR_PE}"
abbreviation USART_SR_FE :: "sr_bit set" where "USART_SR_FE \<equiv> {SR_FE}"
abbreviation USART_SR_NE :: "sr_bit set" where "USART_SR_NE \<equiv> {SR_NE}"
abbreviation USART_SR_ORE :: "sr_bit set" where "USART_SR_ORE \<equiv> {SR_ORE}"
abbreviation USART_SR_IDLE :: "sr_bit set" where "USART_SR_IDLE \<equiv> {SR_IDLE}"
abbreviation USART_SR_RXNE :: "sr_bit set" where "USART_SR_RXNE \<equiv> {SR_RXNE}"
abbreviation USART_SR_TC :: "sr_bit set" where "USART_SR_TC \<equiv> {SR_TC}"
abbreviation USART_SR_TXE :: "sr_bit set" where "USART_SR_TXE \<equiv> {SR_TXE}"

abbreviation UART_FLAG_TXE :: "sr_bit set" where "UART_FLAG_TXE \<equiv> USART_SR_TXE"
abbreviation UART_FLAG_TC :: "sr_bit set" where "UART_FLAG_TC \<equiv> USART_SR_TC"
abbreviation UART_FLAG_RXNE :: "sr_bit set" where "UART_FLAG_RXNE \<equiv> USART_SR_RXNE"

abbreviation USART_CR1_RE :: "cr1_bit set" where "USART_CR1_RE \<equiv> {CR1_RE}"
abbreviation USART_CR1_TE :: "cr1_bit set" where "USART_CR1_TE \<equiv> {CR1_TE}"
abbreviation USART_CR1_IDLEIE :: "cr1_bit set" where "USART_CR1_IDLEIE \<equiv> {CR1_IDLEIE}"
abbreviation USART_CR1_RXNEIE :: "cr1_bit set" where "USART_CR1_RXNEIE \<equiv> {CR1_RXNEIE}"
abbreviation USART_CR1_TCIE :: "cr1_bit set" where "USART_CR1_TCIE \<equiv> {CR1_TCIE}"
abbreviation USART_CR1_TXEIE :: "cr1_bit set" where "USART_CR1_TXEIE \<equiv> {CR1_TXEIE}"
abbreviation USART_CR1_PEIE :: "cr1_bit set" where "USART_CR1_PEIE \<equiv> {CR1_PEIE}"
abbreviation USART_CR1_PS :: "cr1_bit set" where "USART_CR1_PS \<equiv> {CR1_PS}"
abbreviation USART_CR1_PCE :: "cr1_bit set" where "USART_CR1_PCE \<equiv> {CR1_PCE}"
abbreviation USART_CR1_WAKE :: "cr1_bit set" where "USART_CR1_WAKE \<equiv> {CR1_WAKE}"
abbreviation USART_CR1_M :: "cr1_bit set" where "USART_CR1_M \<equiv> {CR1_M}"
abbreviation USART_CR1_UE :: "cr1_bit set" where "USART_CR1_UE \<equiv> {CR1_UE}"

abbreviation USART_CR2_ADD :: "cr2_bit set" where
  "USART_CR2_ADD \<equiv> {CR2_ADD0, CR2_ADD1, CR2_ADD2, CR2_ADD3}"
abbreviation USART_CR2_LBDL :: "cr2_bit set" where "USART_CR2_LBDL \<equiv> {CR2_LBDL}"
abbreviation USART_CR2_CLKEN :: "cr2_bit set" where "USART_CR2_CLKEN \<equiv> {CR2_CLKEN}"
abbreviation USART_CR2_STOP :: "cr2_bit set" where "USART_CR2_STOP \<equiv> {CR2_STOP0, CR2_STOP1}"
abbreviation USART_CR2_LINEN :: "cr2_bit set" where "USART_CR2_LINEN \<equiv> {CR2_LINEN}"

abbreviation USART_CR3_EIE :: "cr3_bit set" where "USART_CR3_EIE \<equiv> {CR3_EIE}"
abbreviation USART_CR3_IREN :: "cr3_bit set" where "USART_CR3_IREN \<equiv> {CR3_IREN}"
abbreviation USART_CR3_HDSEL :: "cr3_bit set" where "USART_CR3_HDSEL \<equiv> {CR3_HDSEL}"
abbreviation USART_CR3_SCEN :: "cr3_bit set" where "USART_CR3_SCEN \<equiv> {CR3_SCEN}"
abbreviation USART_CR3_DMAR :: "cr3_bit set" where "USART_CR3_DMAR \<equiv> {CR3_DMAR}"
abbreviation USART_CR3_DMAT :: "cr3_bit set" where "USART_CR3_DMAT \<equiv> {CR3_DMAT}"
abbreviation USART_CR3_RTSE :: "cr3_bit set" where "USART_CR3_RTSE \<equiv> {CR3_RTSE}"
abbreviation USART_CR3_CTSE :: "cr3_bit set" where "USART_CR3_CTSE \<equiv> {CR3_CTSE}"
abbreviation USART_CR3_OVER8 :: "cr3_bit set" where "USART_CR3_OVER8 \<equiv> {CR3_OVER8}"
abbreviation USART_CR3_ABREN :: "cr3_bit set" where "USART_CR3_ABREN \<equiv> {CR3_ABREN}"
abbreviation USART_CR3_ABRMOD :: "cr3_bit set" where
  "USART_CR3_ABRMOD \<equiv> {CR3_ABRMOD0, CR3_ABRMOD1}"

definition SET_BIT :: "'a set \<Rightarrow> 'a set \<Rightarrow> 'a set" where
  "SET_BIT reg bits = reg \<union> bits"

definition CLEAR_BIT :: "'a set \<Rightarrow> 'a set \<Rightarrow> 'a set" where
  "CLEAR_BIT reg bits = reg - bits"

definition READ_BIT :: "'a set \<Rightarrow> 'a set \<Rightarrow> 'a set" where
  "READ_BIT reg bits = reg \<inter> bits"

definition MODIFY_REG :: "'a set \<Rightarrow> 'a set \<Rightarrow> 'a set \<Rightarrow> 'a set" where
  "MODIFY_REG reg clearmask setmask = (reg - clearmask) \<union> setmask"

definition HAL_IS_BIT_SET :: "'a set \<Rightarrow> 'a set \<Rightarrow> bool" where
  "HAL_IS_BIT_SET reg bits = (reg \<inter> bits = bits)"

declare SET_BIT_def [simp] CLEAR_BIT_def [simp] READ_BIT_def [simp]
  MODIFY_REG_def [simp] HAL_IS_BIT_SET_def [simp]

text \<open>
  \<^verbatim>\<open>USART_TypeDef\<close>: the registers of one peripheral instance.  \<open>DR\<close> holds what a
  read of the data register returns (the received unit); \<open>DR_address\<close> is the address
  of the data register, \<^verbatim>\<open>&huart->Instance->DR\<close>.
\<close>

record USART_TypeDef =
  DR_address :: "32 word"
  SR :: "sr_bit set"
  DR :: "32 word"
  BRR :: "32 word"
  CR1 :: "cr1_bit set"
  CR2 :: "cr2_bit set"
  CR3 :: "cr3_bit set"

subsection \<open>Status, state and error types\<close>

datatype HAL_StatusTypeDef = HAL_OK | HAL_ERROR | HAL_BUSY | HAL_TIMEOUT

datatype HAL_LockTypeDef = HAL_UNLOCKED | HAL_LOCKED

datatype FlagStatus = RESET | SET

datatype HAL_UART_StateTypeDef =
    HAL_UART_STATE_RESET
  | HAL_UART_STATE_READY
  | HAL_UART_STATE_BUSY
  | HAL_UART_STATE_BUSY_TX
  | HAL_UART_STATE_BUSY_RX
  | HAL_UART_STATE_BUSY_TX_RX
  | HAL_UART_STATE_TIMEOUT
  | HAL_UART_STATE_ERROR

text \<open>
  Modelled from the spec: the \<^verbatim>\<open>HAL_UART_ERROR_*\<close> codes are declared in the UART
  header, which is not among the sources.  The spec describes \<open>errorCode\<close> as a bitmask
  accumulating the error kinds, so the code is the set of the kinds recorded and
  \<^verbatim>\<open>HAL_UART_ERROR_NONE\<close> is the empty set.
\<close>

datatype uart_error = ERR_PE | ERR_NE | ERR_FE | ERR_ORE | ERR_DMA

abbreviation HAL_UART_ERROR_NONE :: "uart_error set" where "HAL_UART_ERROR_NONE \<equiv> {}"
abbreviation HAL_UART_ERROR_PE :: "uart_error set" where "HAL_UART_ERROR_PE \<equiv> {ERR_PE}"
abbreviation HAL_UART_ERROR_NE :: "uart_error set" where "HAL_UART_ERROR_NE \<equiv> {ERR_NE}"
abbreviation HAL_UART_ERROR_FE :: "uart_error set" where "HAL_UART_ERROR_FE \<equiv> {ERR_FE}"
abbreviation HAL_UART_ERROR_ORE :: "uart_error set" where "HAL_UART_ERROR_ORE \<equiv> {ERR_ORE}"
abbreviation HAL_UART_ERROR_DMA :: "uart_error set" where "HAL_UART_ERROR_DMA \<equiv> {ERR_DMA}"

subsection \<open>The DMA channel handle (py32f4xx_hal_dma.h)\<close>

datatype HAL_DMA_StateTypeDef =
    HAL_DMA_STATE_RESET
  | HAL_DMA_STATE_READY
  | HAL_DMA_STATE_BUSY
  | HAL_DMA_STATE_TIMEOUT

definition HAL_DMA_ERROR_NONE :: "32 word" where "HAL_DMA_ERROR_NONE = 0x00000000"
definition HAL_DMA_ERROR_NO_XFER :: "32 word" where "HAL_DMA_ERROR_NO_XFER = 0x00000004"
definition HAL_DMA_ERROR_TIMEOUT :: "32 word" where "HAL_DMA_ERROR_TIMEOUT = 0x00000020"

text \<open>
  The functions of this driver that are stored in the callback fields of a DMA handle.
  A null function pointer is \<open>None\<close>.
\<close>

datatype dma_callback =
    CB_UART_DMATransmitCplt
  | CB_UART_DMAReceiveCplt
  | CB_UART_DMATxHalfCplt
  | CB_UART_DMARxHalfCplt
  | CB_UART_DMAError
  | CB_UART_DMAAbortOnError
  | CB_UART_DMATxAbortCallback
  | CB_UART_DMARxAbortCallback
  | CB_UART_DMATxOnlyAbortCallback
  | CB_UART_DMARxOnlyAbortCallback

text \<open>
  \<^verbatim>\<open>DMA_HandleTypeDef\<close>, with the fields the UART driver reads or writes.
  \<open>CCR_CIRC\<close> is \<^verbatim>\<open>hdma->Instance->CCR & DMA_CCR_CIRC\<close>.  The last five fields
  belong to the model of the DMA engine below: the programmed transfer, whether an
  asynchronous abort has been scheduled and not yet completed, and whether the hardware
  fails to stop the channel within the time a synchronous abort waits.
\<close>

record DMA_HandleTypeDef =
  CCR_CIRC :: bool
  DMA_State :: HAL_DMA_StateTypeDef
  XferCpltCallback :: "dma_callback option"
  XferHalfCpltCallback :: "dma_callback option"
  XferErrorCallback :: "dma_callback option"
  XferAbortCallback :: "dma_callback option"
  DMA_ErrorCode :: "32 word"
  SrcAddress :: "32 word"
  DstAddress :: "32 word"
  DataLength :: "16 word"
  AbortScheduled :: bool
  AbortTimesOut :: bool

subsection \<open>The UART handle\<close>

record UART_InitTypeDef =
  BaudRate :: "32 word"
  WordLength :: "cr1_bit set"
  StopBits :: "cr2_bit set"
  Parity :: "cr1_bit set"
  Mode :: "cr1_bit set"
  HwFlowCtl :: "cr3_bit set"
  OverSampling :: "cr3_bit set"

abbreviation UART_WORDLENGTH_8B :: "cr1_bit set" where "UART_WORDLENGTH_8B \<equiv> {}"
abbreviation UART_WORDLENGTH_9B :: "cr1_bit set" where "UART_WORDLENGTH_9B \<equiv> USART_CR1_M"
abbreviation UART_PARITY_NONE :: "cr1_bit set" where "UART_PARITY_NONE \<equiv> {}"
abbreviation UART_STOPBITS_1 :: "cr2_bit set" where "UART_STOPBITS_1 \<equiv> {}"
abbreviation UART_OVERSAMPLING_16 :: "cr3_bit set" where "UART_OVERSAMPLING_16 \<equiv> {}"
abbreviation UART_OVERSAMPLING_8 :: "cr3_bit set" where "UART_OVERSAMPLING_8 \<equiv> USART_CR3_OVER8"

datatype adv_feature = ADVFEATURE_AUTOBAUDRATE

abbreviation UART_ADVFEATURE_NO_INIT :: "adv_feature set" where
  "UART_ADVFEATURE_NO_INIT \<equiv> {}"
abbreviation UART_ADVFEATURE_AUTOBAUDRATE_INIT :: "adv_feature set" where
  "UART_ADVFEATURE_AUTOBAUDRATE_INIT \<equiv> {ADVFEATURE_AUTOBAUDRATE}"
abbreviation UART_ADVFEATURE_AUTOBAUDRATE_ENABLE :: "cr3_bit set" where
  "UART_ADVFEATURE_AUTOBAUDRATE_ENABLE \<equiv> USART_CR3_ABREN"

record UART_AdvFeatureInitTypeDef =
  AdvFeatureInit :: "adv_feature set"
  AutoBaudRateEnable :: "cr3_bit set"
  AutoBaudRateMode :: "cr3_bit set"

text \<open>
  The user callbacks are the weak functions of the driver, which do nothing.  To state
  which of them a function invokes, and in what condition of the handle, each invocation
  is recorded in the \<open>trace\<close> of the handle together with a snapshot of the handle.
\<close>

datatype user_callback =
    HAL_UART_TxCpltCallback
  | HAL_UART_TxHalfCpltCallback
  | HAL_UART_RxCpltCallback
  | HAL_UART_RxHalfCpltCallback
  | HAL_UART_ErrorCallback
  | HAL_UART_AbortCpltCallback
  | HAL_UART_AbortTransmitCpltCallback
  | HAL_UART_AbortReceiveCpltCallback
  | HAL_UART_IdleFrameDetectCpltCallback

record snapshot =
  at_gState :: HAL_UART_StateTypeDef
  at_RxState :: HAL_UART_StateTypeDef
  at_ErrorCode :: "uart_error set"
  at_TxXferCount :: "16 word"
  at_RxXferCount :: "16 word"

text \<open>
  \<^verbatim>\<open>UART_HandleTypeDef\<close>.  Pointers are 32-bit addresses, the null pointer is 0.
  The two DMA handles the fields \<open>hdmatx\<close> and \<open>hdmarx\<close> point to are kept in the
  handle (\<open>None\<close> is the null pointer): they are two different channels and
  their \<^verbatim>\<open>Parent\<close> is this handle.  Three fields are not in the C structure: \<open>mem\<close>
  is the byte-addressed memory the buffer pointers point into, \<open>sent\<close> lists the values
  written to the data register, and \<open>trace\<close> lists the user callbacks invoked.
\<close>

record UART_HandleTypeDef =
  Instance :: USART_TypeDef
  Init :: UART_InitTypeDef
  AdvancedInit :: UART_AdvFeatureInitTypeDef
  pTxBuffPtr :: "32 word"
  TxXferSize :: "16 word"
  TxXferCount :: "16 word"
  pRxBuffPtr :: "32 word"
  RxXferSize :: "16 word"
  RxXferCount :: "16 word"
  hdmatx :: "DMA_HandleTypeDef option"
  hdmarx :: "DMA_HandleTypeDef option"
  Lock :: HAL_LockTypeDef
  gState :: HAL_UART_StateTypeDef
  RxState :: HAL_UART_StateTypeDef
  ErrorCode :: "uart_error set"
  mem :: "32 word \<Rightarrow> 8 word"
  sent :: "32 word list"
  trace :: "(user_callback \<times> snapshot) list"

definition snap :: "UART_HandleTypeDef \<Rightarrow> snapshot" where
  "snap h = \<lparr>at_gState = gState h, at_RxState = RxState h, at_ErrorCode = ErrorCode h,
     at_TxXferCount = TxXferCount h, at_RxXferCount = RxXferCount h\<rparr>"

definition invoke :: "user_callback \<Rightarrow> UART_HandleTypeDef \<Rightarrow> UART_HandleTypeDef" where
  "invoke cb h = h\<lparr>trace := trace h @ [(cb, snap h)]\<rparr>"

subsection \<open>Register access through the handle\<close>

definition write_SR :: "UART_HandleTypeDef \<Rightarrow> sr_bit set \<Rightarrow> UART_HandleTypeDef" where
  "write_SR huart v = huart\<lparr>Instance := (Instance huart)\<lparr>SR := v\<rparr>\<rparr>"

definition write_CR1 :: "UART_HandleTypeDef \<Rightarrow> cr1_bit set \<Rightarrow> UART_HandleTypeDef" where
  "write_CR1 huart v = huart\<lparr>Instance := (Instance huart)\<lparr>CR1 := v\<rparr>\<rparr>"

definition write_CR2 :: "UART_HandleTypeDef \<Rightarrow> cr2_bit set \<Rightarrow> UART_HandleTypeDef" where
  "write_CR2 huart v = huart\<lparr>Instance := (Instance huart)\<lparr>CR2 := v\<rparr>\<rparr>"

definition write_CR3 :: "UART_HandleTypeDef \<Rightarrow> cr3_bit set \<Rightarrow> UART_HandleTypeDef" where
  "write_CR3 huart v = huart\<lparr>Instance := (Instance huart)\<lparr>CR3 := v\<rparr>\<rparr>"

definition write_BRR :: "UART_HandleTypeDef \<Rightarrow> 32 word \<Rightarrow> UART_HandleTypeDef" where
  "write_BRR huart v = huart\<lparr>Instance := (Instance huart)\<lparr>BRR := v\<rparr>\<rparr>"

text \<open>A write to the data register hands one unit to the transmitter.\<close>

definition write_DR :: "UART_HandleTypeDef \<Rightarrow> 32 word \<Rightarrow> UART_HandleTypeDef" where
  "write_DR huart v = huart\<lparr>sent := sent huart @ [v]\<rparr>"

declare write_SR_def [simp] write_CR1_def [simp] write_CR2_def [simp] write_CR3_def [simp]
  write_BRR_def [simp] write_DR_def [simp]

text \<open>
  Modelled from the spec: the interrupt macros \<^verbatim>\<open>__HAL_UART_ENABLE_IT\<close> and
  \<^verbatim>\<open>__HAL_UART_DISABLE_IT\<close>, the flag macros \<^verbatim>\<open>__HAL_UART_GET_FLAG\<close>,
  \<^verbatim>\<open>__HAL_UART_CLEAR_FLAG\<close>, \<^verbatim>\<open>__HAL_UART_CLEAR_OREFLAG\<close>, \<^verbatim>\<open>__HAL_UART_CLEAR_IDLEFLAG\<close>
  and \<^verbatim>\<open>__HAL_UART_ENABLE\<close>, \<^verbatim>\<open>__HAL_UART_DISABLE\<close> are declared in the UART
  header, which is not among the sources.  An interrupt source is the enable bit the spec
  and the comments of the driver name for it: the parity, transmit-register-empty,
  transmission-complete, data-available and idle sources are bits of CR1, the line-error
  source (frame, noise, overrun) is \<open>EIE\<close> of CR3.  Clearing a flag removes it
  from the status register.
\<close>

datatype uart_it = UART_IT_PE | UART_IT_TXE | UART_IT_TC | UART_IT_RXNE | UART_IT_IDLE
  | UART_IT_ERR

fun HAL_UART_ENABLE_IT :: "UART_HandleTypeDef \<Rightarrow> uart_it \<Rightarrow> UART_HandleTypeDef" where
  "HAL_UART_ENABLE_IT huart UART_IT_PE =
     write_CR1 huart (SET_BIT (CR1 (Instance huart)) USART_CR1_PEIE)"
| "HAL_UART_ENABLE_IT huart UART_IT_TXE =
     write_CR1 huart (SET_BIT (CR1 (Instance huart)) USART_CR1_TXEIE)"
| "HAL_UART_ENABLE_IT huart UART_IT_TC =
     write_CR1 huart (SET_BIT (CR1 (Instance huart)) USART_CR1_TCIE)"
| "HAL_UART_ENABLE_IT huart UART_IT_RXNE =
     write_CR1 huart (SET_BIT (CR1 (Instance huart)) USART_CR1_RXNEIE)"
| "HAL_UART_ENABLE_IT huart UART_IT_IDLE =
     write_CR1 huart (SET_BIT (CR1 (Instance huart)) USART_CR1_IDLEIE)"
| "HAL_UART_ENABLE_IT huart UART_IT_ERR =
     write_CR3 huart (SET_BIT (CR3 (Instance huart)) USART_CR3_EIE)"

fun HAL_UART_DISABLE_IT :: "UART_HandleTypeDef \<Rightarrow> uart_it \<Rightarrow> UART_HandleTypeDef" where
  "HAL_UART_DISABLE_IT huart UART_IT_PE =
     write_CR1 huart (CLEAR_BIT (CR1 (Instance huart)) USART_CR1_PEIE)"
| "HAL_UART_DISABLE_IT huart UART_IT_TXE =
     write_CR1 huart (CLEAR_BIT (CR1 (Instance huart)) USART_CR1_TXEIE)"
| "HAL_UART_DISABLE_IT huart UART_IT_TC =
     write_CR1 huart (CLEAR_BIT (CR1 (Instance huart)) USART_CR1_TCIE)"
| "HAL_UART_DISABLE_IT huart UART_IT_RXNE =
     write_CR1 huart (CLEAR_BIT (CR1 (Instance huart)) USART_CR1_RXNEIE)"
| "HAL_UART_DISABLE_IT huart UART_IT_IDLE =
     write_CR1 huart (CLEAR_BIT (CR1 (Instance huart)) USART_CR1_IDLEIE)"
| "HAL_UART_DISABLE_IT huart UART_IT_ERR =
     write_CR3 huart (CLEAR_BIT (CR3 (Instance huart)) USART_CR3_EIE)"

definition HAL_UART_GET_FLAG :: "UART_HandleTypeDef \<Rightarrow> sr_bit set \<Rightarrow> bool" where
  "HAL_UART_GET_FLAG huart flag = (SR (Instance huart) \<inter> flag = flag)"

definition HAL_UART_CLEAR_FLAG :: "UART_HandleTypeDef \<Rightarrow> sr_bit set \<Rightarrow> UART_HandleTypeDef" where
  "HAL_UART_CLEAR_FLAG huart flag = write_SR huart (SR (Instance huart) - flag)"

definition HAL_UART_CLEAR_OREFLAG :: "UART_HandleTypeDef \<Rightarrow> UART_HandleTypeDef" where
  "HAL_UART_CLEAR_OREFLAG huart = write_SR huart (SR (Instance huart) - USART_SR_ORE)"

definition HAL_UART_CLEAR_IDLEFLAG :: "UART_HandleTypeDef \<Rightarrow> UART_HandleTypeDef" where
  "HAL_UART_CLEAR_IDLEFLAG huart = write_SR huart (SR (Instance huart) - USART_SR_IDLE)"

definition HAL_UART_ENABLE :: "UART_HandleTypeDef \<Rightarrow> UART_HandleTypeDef" where
  "HAL_UART_ENABLE huart = write_CR1 huart (SET_BIT (CR1 (Instance huart)) USART_CR1_UE)"

definition HAL_UART_DISABLE :: "UART_HandleTypeDef \<Rightarrow> UART_HandleTypeDef" where
  "HAL_UART_DISABLE huart = write_CR1 huart (CLEAR_BIT (CR1 (Instance huart)) USART_CR1_UE)"

text \<open>
  Modelled from the spec: \<^verbatim>\<open>__HAL_LOCK\<close> and \<^verbatim>\<open>__HAL_UNLOCK\<close> are declared in
  py32f4xx_hal_def.h, which is not among the sources.  The spec describes the lock flag as
  a single-acquisition guard that rejects re-entry and does not block: a function that
  finds the handle locked returns Busy at once, otherwise it takes the lock.  The test is
  written out in each function that uses the macro; \<open>HAL_UNLOCK\<close> releases the lock.
\<close>

definition HAL_UNLOCK :: "UART_HandleTypeDef \<Rightarrow> UART_HandleTypeDef" where
  "HAL_UNLOCK huart = huart\<lparr>Lock := HAL_UNLOCKED\<rparr>"

definition HAL_MAX_DELAY :: "32 word" where
  "HAL_MAX_DELAY = 0xFFFFFFFF"

subsection \<open>The DMA engine\<close>

text \<open>
  Modelled from the spec: the DMA driver (py32f4xx_hal_dma.c) is not among the sources;
  only its header is.  The spec gives the contract the UART driver uses: start a transfer
  that completes later through the registered callbacks, abort a channel synchronously,
  abort it asynchronously (which schedules the abort-complete callback), and read the
  error code of a channel.  A channel that serves no transfer cannot be aborted: the call
  fails with \<^verbatim>\<open>HAL_DMA_ERROR_NO_XFER\<close>.
\<close>

definition HAL_DMA_Start_IT ::
  "DMA_HandleTypeDef \<Rightarrow> 32 word \<Rightarrow> 32 word \<Rightarrow> 16 word \<Rightarrow> HAL_StatusTypeDef \<times> DMA_HandleTypeDef" where
  "HAL_DMA_Start_IT hdma src dst len =
     (if DMA_State hdma = HAL_DMA_STATE_READY
      then (HAL_OK, hdma\<lparr>DMA_State := HAL_DMA_STATE_BUSY, DMA_ErrorCode := HAL_DMA_ERROR_NONE,
              SrcAddress := src, DstAddress := dst, DataLength := len\<rparr>)
      else (HAL_BUSY, hdma))"

definition HAL_DMA_Abort :: "DMA_HandleTypeDef \<Rightarrow> HAL_StatusTypeDef \<times> DMA_HandleTypeDef" where
  "HAL_DMA_Abort hdma =
     (if DMA_State hdma \<noteq> HAL_DMA_STATE_BUSY
      then (HAL_ERROR, hdma\<lparr>DMA_ErrorCode := HAL_DMA_ERROR_NO_XFER\<rparr>)
      else if AbortTimesOut hdma
      then (HAL_ERROR, hdma\<lparr>DMA_State := HAL_DMA_STATE_TIMEOUT,
              DMA_ErrorCode := HAL_DMA_ERROR_TIMEOUT\<rparr>)
      else (HAL_OK, hdma\<lparr>DMA_State := HAL_DMA_STATE_READY\<rparr>))"

definition HAL_DMA_Abort_IT :: "DMA_HandleTypeDef \<Rightarrow> HAL_StatusTypeDef \<times> DMA_HandleTypeDef" where
  "HAL_DMA_Abort_IT hdma =
     (if DMA_State hdma \<noteq> HAL_DMA_STATE_BUSY
      then (HAL_ERROR, hdma\<lparr>DMA_ErrorCode := HAL_DMA_ERROR_NO_XFER\<rparr>)
      else (HAL_OK, hdma\<lparr>AbortScheduled := True\<rparr>))"

definition HAL_DMA_GetError :: "DMA_HandleTypeDef \<Rightarrow> 32 word" where
  "HAL_DMA_GetError hdma = DMA_ErrorCode hdma"

subsection \<open>Memory\<close>

text \<open>
  A 9-bit unit without parity is read and written through a \<^verbatim>\<open>uint16_t\<close> pointer: two
  bytes, the low byte first (the core is little-endian).
\<close>

definition load16 :: "(32 word \<Rightarrow> 8 word) \<Rightarrow> 32 word \<Rightarrow> 16 word" where
  "load16 m p = word_cat (m (p + 1)) (m p)"

definition store16 :: "(32 word \<Rightarrow> 8 word) \<Rightarrow> 32 word \<Rightarrow> 16 word \<Rightarrow> (32 word \<Rightarrow> 8 word)" where
  "store16 m p v = (m(p := ucast v))(p + 1 := ucast (drop_bit 8 v))"

subsection \<open>Private functions: ending a transfer, the interrupt-mode unit handlers\<close>

definition UART_EndTxTransfer :: "UART_HandleTypeDef \<Rightarrow> UART_HandleTypeDef" where
  "UART_EndTxTransfer huart =
     (let huart = write_CR1 huart
            (CLEAR_BIT (CR1 (Instance huart)) (USART_CR1_TXEIE \<union> USART_CR1_TCIE))
      in huart\<lparr>gState := HAL_UART_STATE_READY\<rparr>)"

definition UART_EndRxTransfer :: "UART_HandleTypeDef \<Rightarrow> UART_HandleTypeDef" where
  "UART_EndRxTransfer huart =
     (let huart = write_CR1 huart
            (CLEAR_BIT (CR1 (Instance huart)) (USART_CR1_RXNEIE \<union> USART_CR1_PEIE));
          huart = write_CR3 huart (CLEAR_BIT (CR3 (Instance huart)) USART_CR3_EIE)
      in huart\<lparr>RxState := HAL_UART_STATE_READY\<rparr>)"

definition UART_Transmit_IT :: "UART_HandleTypeDef \<Rightarrow> HAL_StatusTypeDef \<times> UART_HandleTypeDef" where
  "UART_Transmit_IT huart =
     (if gState huart = HAL_UART_STATE_BUSY_TX then
        let huart =
              (if WordLength (Init huart) = UART_WORDLENGTH_9B
                  \<and> Parity (Init huart) = UART_PARITY_NONE
               then
                 let huart = write_DR huart
                       (ucast (load16 (mem huart) (pTxBuffPtr huart) AND 0x01FF))
                 in huart\<lparr>pTxBuffPtr := pTxBuffPtr huart + 2\<rparr>
               else
                 let huart = write_DR huart (ucast (mem huart (pTxBuffPtr huart) AND 0xFF))
                 in huart\<lparr>pTxBuffPtr := pTxBuffPtr huart + 1\<rparr>);
            huart = huart\<lparr>TxXferCount := TxXferCount huart - 1\<rparr>
        in if TxXferCount huart = 0
           then (HAL_OK, HAL_UART_ENABLE_IT (HAL_UART_DISABLE_IT huart UART_IT_TXE) UART_IT_TC)
           else (HAL_OK, huart)
      else (HAL_BUSY, huart))"

definition UART_EndTransmit_IT :: "UART_HandleTypeDef \<Rightarrow> HAL_StatusTypeDef \<times> UART_HandleTypeDef" where
  "UART_EndTransmit_IT huart =
     (let huart = HAL_UART_DISABLE_IT huart UART_IT_TC;
          huart = huart\<lparr>gState := HAL_UART_STATE_READY\<rparr>
      in (HAL_OK, invoke HAL_UART_TxCpltCallback huart))"

definition UART_Receive_IT :: "UART_HandleTypeDef \<Rightarrow> HAL_StatusTypeDef \<times> UART_HandleTypeDef" where
  "UART_Receive_IT huart =
     (if RxState huart = HAL_UART_STATE_BUSY_RX then
        let huart =
              (if WordLength (Init huart) = UART_WORDLENGTH_9B
                  \<and> Parity (Init huart) = UART_PARITY_NONE
               then
                 let huart = huart\<lparr>mem := store16 (mem huart) (pRxBuffPtr huart)
                       (ucast (DR (Instance huart) AND 0x01FF))\<rparr>
                 in huart\<lparr>pRxBuffPtr := pRxBuffPtr huart + 2\<rparr>
               else
                 let huart = huart\<lparr>mem := (mem huart)
                       (pRxBuffPtr huart := ucast (DR (Instance huart) AND 0x00FF))\<rparr>
                 in huart\<lparr>pRxBuffPtr := pRxBuffPtr huart + 1\<rparr>);
            huart = huart\<lparr>RxXferCount := RxXferCount huart - 1\<rparr>
        in if RxXferCount huart = 0
           then
             let huart = HAL_UART_DISABLE_IT huart UART_IT_RXNE;
                 huart = HAL_UART_DISABLE_IT huart UART_IT_PE;
                 huart = HAL_UART_DISABLE_IT huart UART_IT_ERR;
                 huart = huart\<lparr>RxState := HAL_UART_STATE_READY\<rparr>
             in (HAL_OK, invoke HAL_UART_RxCpltCallback huart)
           else (HAL_OK, huart)
      else (HAL_BUSY, huart))"

subsection \<open>The DMA completion bridge\<close>

text \<open>
  Each callback receives the DMA handle that invokes it and reaches the UART handle
  through \<^verbatim>\<open>hdma->Parent\<close>; here it receives the UART handle, and the invoking DMA
  handle where it reads it.  The two abort callbacks of the combined abort write through
  \<^verbatim>\<open>huart->hdmatx\<close> and \<^verbatim>\<open>huart->hdmarx\<close> without a null test: the result is
  \<open>None\<close> where that pointer is null.
\<close>

definition UART_DMATransmitCplt :: "DMA_HandleTypeDef \<Rightarrow> UART_HandleTypeDef \<Rightarrow> UART_HandleTypeDef" where
  "UART_DMATransmitCplt hdma huart =
     (if \<not> CCR_CIRC hdma then
        let huart = huart\<lparr>TxXferCount := 0\<rparr>;
            huart = write_CR3 huart (CLEAR_BIT (CR3 (Instance huart)) USART_CR3_DMAT)
        in write_CR1 huart (SET_BIT (CR1 (Instance huart)) USART_CR1_TCIE)
      else invoke HAL_UART_TxCpltCallback huart)"

definition UART_DMATxHalfCplt :: "UART_HandleTypeDef \<Rightarrow> UART_HandleTypeDef" where
  "UART_DMATxHalfCplt huart = invoke HAL_UART_TxHalfCpltCallback huart"

definition UART_DMAReceiveCplt :: "DMA_HandleTypeDef \<Rightarrow> UART_HandleTypeDef \<Rightarrow> UART_HandleTypeDef" where
  "UART_DMAReceiveCplt hdma huart =
     (let huart =
            (if \<not> CCR_CIRC hdma then
               let huart = huart\<lparr>RxXferCount := 0\<rparr>;
                   huart = write_CR1 huart (CLEAR_BIT (CR1 (Instance huart)) USART_CR1_PEIE);
                   huart = write_CR3 huart (CLEAR_BIT (CR3 (Instance huart)) USART_CR3_EIE);
                   huart = write_CR3 huart (CLEAR_BIT (CR3 (Instance huart)) USART_CR3_DMAR)
               in huart\<lparr>RxState := HAL_UART_STATE_READY\<rparr>
             else huart)
      in invoke HAL_UART_RxCpltCallback huart)"

definition UART_DMARxHalfCplt :: "UART_HandleTypeDef \<Rightarrow> UART_HandleTypeDef" where
  "UART_DMARxHalfCplt huart = invoke HAL_UART_RxHalfCpltCallback huart"

definition UART_DMAError :: "UART_HandleTypeDef \<Rightarrow> UART_HandleTypeDef" where
  "UART_DMAError huart =
     (let dmarequest = HAL_IS_BIT_SET (CR3 (Instance huart)) USART_CR3_DMAT;
          huart = (if gState huart = HAL_UART_STATE_BUSY_TX \<and> dmarequest
                   then UART_EndTxTransfer (huart\<lparr>TxXferCount := 0\<rparr>) else huart);
          dmarequest = HAL_IS_BIT_SET (CR3 (Instance huart)) USART_CR3_DMAR;
          huart = (if RxState huart = HAL_UART_STATE_BUSY_RX \<and> dmarequest
                   then UART_EndRxTransfer (huart\<lparr>RxXferCount := 0\<rparr>) else huart);
          huart = huart\<lparr>ErrorCode := ErrorCode huart \<union> HAL_UART_ERROR_DMA\<rparr>
      in invoke HAL_UART_ErrorCallback huart)"

definition UART_DMAAbortOnError :: "UART_HandleTypeDef \<Rightarrow> UART_HandleTypeDef" where
  "UART_DMAAbortOnError huart =
     (let huart = huart\<lparr>RxXferCount := 0\<rparr>;
          huart = huart\<lparr>TxXferCount := 0\<rparr>
      in invoke HAL_UART_ErrorCallback huart)"

definition UART_DMATxAbortCallback :: "UART_HandleTypeDef \<Rightarrow> UART_HandleTypeDef option" where
  "UART_DMATxAbortCallback huart =
     (case hdmatx huart of
        None \<Rightarrow> None
      | Some tx \<Rightarrow>
          let huart = huart\<lparr>hdmatx := Some (tx\<lparr>XferAbortCallback := None\<rparr>)\<rparr>
          in if (case hdmarx huart of None \<Rightarrow> False
                 | Some rx \<Rightarrow> XferAbortCallback rx \<noteq> None)
             then Some huart
             else
               let huart = huart\<lparr>TxXferCount := 0\<rparr>;
                   huart = huart\<lparr>RxXferCount := 0\<rparr>;
                   huart = huart\<lparr>ErrorCode := HAL_UART_ERROR_NONE\<rparr>;
                   huart = huart\<lparr>gState := HAL_UART_STATE_READY\<rparr>;
                   huart = huart\<lparr>RxState := HAL_UART_STATE_READY\<rparr>
               in Some (invoke HAL_UART_AbortCpltCallback huart))"

definition UART_DMARxAbortCallback :: "UART_HandleTypeDef \<Rightarrow> UART_HandleTypeDef option" where
  "UART_DMARxAbortCallback huart =
     (case hdmarx huart of
        None \<Rightarrow> None
      | Some rx \<Rightarrow>
          let huart = huart\<lparr>hdmarx := Some (rx\<lparr>XferAbortCallback := None\<rparr>)\<rparr>
          in if (case hdmatx huart of None \<Rightarrow> False
                 | Some tx \<Rightarrow> XferAbortCallback tx \<noteq> None)
             then Some huart
             else
               let huart = huart\<lparr>TxXferCount := 0\<rparr>;
                   huart = huart\<lparr>RxXferCount := 0\<rparr>;
                   huart = huart\<lparr>ErrorCode := HAL_UART_ERROR_NONE\<rparr>;
                   huart = huart\<lparr>gState := HAL_UART_STATE_READY\<rparr>;
                   huart = huart\<lparr>RxState := HAL_UART_STATE_READY\<rparr>
               in Some (invoke HAL_UART_AbortCpltCallback huart))"

definition UART_DMATxOnlyAbortCallback :: "UART_HandleTypeDef \<Rightarrow> UART_HandleTypeDef" where
  "UART_DMATxOnlyAbortCallback huart =
     (let huart = huart\<lparr>TxXferCount := 0\<rparr>;
          huart = huart\<lparr>gState := HAL_UART_STATE_READY\<rparr>
      in invoke HAL_UART_AbortTransmitCpltCallback huart)"

definition UART_DMARxOnlyAbortCallback :: "UART_HandleTypeDef \<Rightarrow> UART_HandleTypeDef" where
  "UART_DMARxOnlyAbortCallback huart =
     (let huart = huart\<lparr>RxXferCount := 0\<rparr>;
          huart = huart\<lparr>RxState := HAL_UART_STATE_READY\<rparr>
      in invoke HAL_UART_AbortReceiveCpltCallback huart)"

text \<open>Calling a stored callback: the function the pointer names, on the invoking DMA handle.\<close>

fun call_dma_callback ::
  "dma_callback \<Rightarrow> DMA_HandleTypeDef \<Rightarrow> UART_HandleTypeDef \<Rightarrow> UART_HandleTypeDef option" where
  "call_dma_callback CB_UART_DMATransmitCplt hdma huart = Some (UART_DMATransmitCplt hdma huart)"
| "call_dma_callback CB_UART_DMAReceiveCplt hdma huart = Some (UART_DMAReceiveCplt hdma huart)"
| "call_dma_callback CB_UART_DMATxHalfCplt hdma huart = Some (UART_DMATxHalfCplt huart)"
| "call_dma_callback CB_UART_DMARxHalfCplt hdma huart = Some (UART_DMARxHalfCplt huart)"
| "call_dma_callback CB_UART_DMAError hdma huart = Some (UART_DMAError huart)"
| "call_dma_callback CB_UART_DMAAbortOnError hdma huart = Some (UART_DMAAbortOnError huart)"
| "call_dma_callback CB_UART_DMATxAbortCallback hdma huart = UART_DMATxAbortCallback huart"
| "call_dma_callback CB_UART_DMARxAbortCallback hdma huart = UART_DMARxAbortCallback huart"
| "call_dma_callback CB_UART_DMATxOnlyAbortCallback hdma huart =
     Some (UART_DMATxOnlyAbortCallback huart)"
| "call_dma_callback CB_UART_DMARxOnlyAbortCallback hdma huart =
     Some (UART_DMARxOnlyAbortCallback huart)"

text \<open>
  Modelled from the spec: the completion of an asynchronous abort, which belongs to the
  DMA driver that is not among the sources.  The spec says that the asynchronous abort
  schedules the abort-complete callback: when the engine has stopped the channel, the
  channel is ready again and its \<^verbatim>\<open>XferAbortCallback\<close> is called if it is not null.
  Without a scheduled abort on the channel nothing happens.
\<close>

datatype dma_channel = TxChannel | RxChannel

definition DMA_AbortCplt :: "dma_channel \<Rightarrow> UART_HandleTypeDef \<Rightarrow> UART_HandleTypeDef option" where
  "DMA_AbortCplt ch huart =
     (case (case ch of TxChannel \<Rightarrow> hdmatx huart | RxChannel \<Rightarrow> hdmarx huart) of
        None \<Rightarrow> Some huart
      | Some hdma \<Rightarrow>
          if AbortScheduled hdma then
            let hdma = hdma\<lparr>AbortScheduled := False, DMA_State := HAL_DMA_STATE_READY\<rparr>;
                huart = (case ch of TxChannel \<Rightarrow> huart\<lparr>hdmatx := Some hdma\<rparr>
                         | RxChannel \<Rightarrow> huart\<lparr>hdmarx := Some hdma\<rparr>)
            in (case XferAbortCallback hdma of
                  None \<Rightarrow> Some huart
                | Some cb \<Rightarrow> call_dma_callback cb hdma huart)
          else Some huart)"

subsection \<open>Polling with a timeout\<close>

text \<open>
  The blocking functions poll the status register while the hardware and the tick counter
  move on.  What the hardware shows at each poll is given from outside, as the list of the
  observations of the successive polls: the status register, the data register and the
  value \<^verbatim>\<open>HAL_GetTick()\<close> returns at that moment.  A function that is still polling
  when the observations end has not returned: its result is \<open>None\<close>.
\<close>

record hw_obs =
  obs_SR :: "sr_bit set"
  obs_DR :: "32 word"
  obs_tick :: "32 word"

definition hw_step :: "hw_obs \<Rightarrow> UART_HandleTypeDef \<Rightarrow> UART_HandleTypeDef" where
  "hw_step e huart = huart\<lparr>Instance := (Instance huart)\<lparr>SR := obs_SR e, DR := obs_DR e\<rparr>\<rparr>"

fun UART_WaitOnFlagUntilTimeout ::
  "UART_HandleTypeDef \<Rightarrow> sr_bit set \<Rightarrow> FlagStatus \<Rightarrow> 32 word \<Rightarrow> 32 word \<Rightarrow> hw_obs list
     \<Rightarrow> (HAL_StatusTypeDef \<times> UART_HandleTypeDef \<times> hw_obs list) option" where
  "UART_WaitOnFlagUntilTimeout huart Flag Status Tickstart Timeout [] = None"
| "UART_WaitOnFlagUntilTimeout huart Flag Status Tickstart Timeout (e # polls) =
     (let huart = hw_step e huart in
      if (if HAL_UART_GET_FLAG huart Flag then SET else RESET) = Status then
        if Timeout \<noteq> HAL_MAX_DELAY \<and> (Timeout = 0 \<or> obs_tick e - Tickstart > Timeout)
        then
          let huart = write_CR1 huart (CLEAR_BIT (CR1 (Instance huart))
                        (USART_CR1_RXNEIE \<union> USART_CR1_PEIE \<union> USART_CR1_TXEIE));
              huart = write_CR3 huart (CLEAR_BIT (CR3 (Instance huart)) USART_CR3_EIE);
              huart = huart\<lparr>gState := HAL_UART_STATE_READY\<rparr>;
              huart = huart\<lparr>RxState := HAL_UART_STATE_READY\<rparr>;
              huart = HAL_UNLOCK huart
          in Some (HAL_TIMEOUT, huart, polls)
        else UART_WaitOnFlagUntilTimeout huart Flag Status Tickstart Timeout polls
      else Some (HAL_OK, huart, polls))"

lemma UART_WaitOnFlagUntilTimeout_consumes:
  "UART_WaitOnFlagUntilTimeout huart Flag Status Tickstart Timeout polls = Some (st, huart', polls')
   \<Longrightarrow> length polls' < length polls"
proof (induction polls arbitrary: huart)
  case Nil
  then show ?case by simp
next
  case (Cons e polls)
  then show ?case
    by (fastforce simp: Let_def split: if_splits)
qed

subsection \<open>Blocking transfers\<close>

text \<open>
  The transmit loop of \<^verbatim>\<open>HAL_UART_Transmit\<close> with what follows it: one unit is written
  for each successful wait on TXE, then the function waits for TC.  \<open>pdata8bits\<close> and
  \<open>pdata16bits\<close> are the two local pointers, of which one is null.
\<close>

function HAL_UART_Transmit_loop ::
  "UART_HandleTypeDef \<Rightarrow> 32 word \<Rightarrow> 32 word \<Rightarrow> 32 word \<Rightarrow> 32 word \<Rightarrow> hw_obs list
     \<Rightarrow> (HAL_StatusTypeDef \<times> UART_HandleTypeDef \<times> hw_obs list) option" where
  "HAL_UART_Transmit_loop huart pdata8bits pdata16bits tickstart Timeout polls =
     (if TxXferCount huart > 0 then
        (case UART_WaitOnFlagUntilTimeout huart UART_FLAG_TXE RESET tickstart Timeout polls of
           None \<Rightarrow> None
         | Some (st, huart1, polls1) \<Rightarrow>
             if st \<noteq> HAL_OK then Some (HAL_TIMEOUT, huart1, polls1)
             else if pdata8bits = 0 then
               HAL_UART_Transmit_loop
                 ((write_DR huart1 (ucast (load16 (mem huart1) pdata16bits AND 0x01FF)))
                    \<lparr>TxXferCount := TxXferCount huart1 - 1\<rparr>)
                 pdata8bits (pdata16bits + 2) tickstart Timeout polls1
             else
               HAL_UART_Transmit_loop
                 ((write_DR huart1 (ucast (mem huart1 pdata8bits AND 0xFF)))
                    \<lparr>TxXferCount := TxXferCount huart1 - 1\<rparr>)
                 (pdata8bits + 1) pdata16bits tickstart Timeout polls1)
      else
        (case UART_WaitOnFlagUntilTimeout huart UART_FLAG_TC RESET tickstart Timeout polls of
           None \<Rightarrow> None
         | Some (st, huart1, polls1) \<Rightarrow>
             if st \<noteq> HAL_OK then Some (HAL_TIMEOUT, huart1, polls1)
             else
               let huart1 = huart1\<lparr>gState := HAL_UART_STATE_READY\<rparr>;
                   huart1 = HAL_UNLOCK huart1
               in Some (HAL_OK, huart1, polls1)))"
  by pat_completeness auto
termination
  by (relation "measure (\<lambda>(huart, p8, p16, t, T, polls). length polls)")
     (auto dest: UART_WaitOnFlagUntilTimeout_consumes)

declare HAL_UART_Transmit_loop.simps [simp del]

definition HAL_UART_Transmit ::
  "UART_HandleTypeDef \<Rightarrow> 32 word \<Rightarrow> 16 word \<Rightarrow> 32 word \<Rightarrow> 32 word \<Rightarrow> hw_obs list
     \<Rightarrow> (HAL_StatusTypeDef \<times> UART_HandleTypeDef \<times> hw_obs list) option" where
  "HAL_UART_Transmit huart pData Size Timeout tick polls =
     (if gState huart = HAL_UART_STATE_READY then
        if pData = 0 \<or> Size = 0 then Some (HAL_ERROR, huart, polls)
        else if WordLength (Init huart) = UART_WORDLENGTH_9B
                \<and> Parity (Init huart) = UART_PARITY_NONE \<and> pData AND 1 \<noteq> 0
        then Some (HAL_ERROR, huart, polls)
        else if Lock huart = HAL_LOCKED then Some (HAL_BUSY, huart, polls)
        else
          let huart = huart\<lparr>Lock := HAL_LOCKED\<rparr>;
              huart = huart\<lparr>ErrorCode := HAL_UART_ERROR_NONE\<rparr>;
              huart = huart\<lparr>gState := HAL_UART_STATE_BUSY_TX\<rparr>;
              tickstart = tick;
              huart = huart\<lparr>TxXferSize := Size\<rparr>;
              huart = huart\<lparr>TxXferCount := Size\<rparr>
          in if WordLength (Init huart) = UART_WORDLENGTH_9B
                \<and> Parity (Init huart) = UART_PARITY_NONE
             then HAL_UART_Transmit_loop huart 0 pData tickstart Timeout polls
             else HAL_UART_Transmit_loop huart pData 0 tickstart Timeout polls
      else Some (HAL_BUSY, huart, polls))"

text \<open>The receive loop of \<^verbatim>\<open>HAL_UART_Receive\<close> with what follows it.\<close>

function HAL_UART_Receive_loop ::
  "UART_HandleTypeDef \<Rightarrow> 32 word \<Rightarrow> 32 word \<Rightarrow> 32 word \<Rightarrow> 32 word \<Rightarrow> hw_obs list
     \<Rightarrow> (HAL_StatusTypeDef \<times> UART_HandleTypeDef \<times> hw_obs list) option" where
  "HAL_UART_Receive_loop huart pdata8bits pdata16bits tickstart Timeout polls =
     (if RxXferCount huart > 0 then
        (case UART_WaitOnFlagUntilTimeout huart UART_FLAG_RXNE RESET tickstart Timeout polls of
           None \<Rightarrow> None
         | Some (st, huart1, polls1) \<Rightarrow>
             if st \<noteq> HAL_OK then Some (HAL_TIMEOUT, huart1, polls1)
             else if pdata8bits = 0 then
               HAL_UART_Receive_loop
                 (huart1\<lparr>mem := store16 (mem huart1) pdata16bits
                             (ucast (DR (Instance huart1) AND 0x1FF)),
                         RxXferCount := RxXferCount huart1 - 1\<rparr>)
                 pdata8bits (pdata16bits + 2) tickstart Timeout polls1
             else
               HAL_UART_Receive_loop
                 (huart1\<lparr>mem := (mem huart1)(pdata8bits := ucast (DR (Instance huart1) AND 0xFF)),
                         RxXferCount := RxXferCount huart1 - 1\<rparr>)
                 (pdata8bits + 1) pdata16bits tickstart Timeout polls1)
      else
        (let huart = huart\<lparr>RxState := HAL_UART_STATE_READY\<rparr>;
             huart = HAL_UNLOCK huart
         in Some (HAL_OK, huart, polls)))"
  by pat_completeness auto
termination
  by (relation "measure (\<lambda>(huart, p8, p16, t, T, polls). length polls)")
     (auto dest: UART_WaitOnFlagUntilTimeout_consumes)

declare HAL_UART_Receive_loop.simps [simp del]

definition HAL_UART_Receive ::
  "UART_HandleTypeDef \<Rightarrow> 32 word \<Rightarrow> 16 word \<Rightarrow> 32 word \<Rightarrow> 32 word \<Rightarrow> hw_obs list
     \<Rightarrow> (HAL_StatusTypeDef \<times> UART_HandleTypeDef \<times> hw_obs list) option" where
  "HAL_UART_Receive huart pData Size Timeout tick polls =
     (if RxState huart = HAL_UART_STATE_READY then
        if pData = 0 \<or> Size = 0 then Some (HAL_ERROR, huart, polls)
        else if WordLength (Init huart) = UART_WORDLENGTH_9B
                \<and> Parity (Init huart) = UART_PARITY_NONE \<and> pData AND 1 \<noteq> 0
        then Some (HAL_ERROR, huart, polls)
        else if Lock huart = HAL_LOCKED then Some (HAL_BUSY, huart, polls)
        else
          let huart = huart\<lparr>Lock := HAL_LOCKED\<rparr>;
              huart = huart\<lparr>ErrorCode := HAL_UART_ERROR_NONE\<rparr>;
              huart = huart\<lparr>RxState := HAL_UART_STATE_BUSY_RX\<rparr>;
              tickstart = tick;
              huart = huart\<lparr>RxXferSize := Size\<rparr>;
              huart = huart\<lparr>RxXferCount := Size\<rparr>
          in if WordLength (Init huart) = UART_WORDLENGTH_9B
                \<and> Parity (Init huart) = UART_PARITY_NONE
             then HAL_UART_Receive_loop huart 0 pData tickstart Timeout polls
             else HAL_UART_Receive_loop huart pData 0 tickstart Timeout polls
      else Some (HAL_BUSY, huart, polls))"

subsection \<open>Interrupt-mode and DMA-mode transfers\<close>

definition HAL_UART_Transmit_IT ::
  "UART_HandleTypeDef \<Rightarrow> 32 word \<Rightarrow> 16 word \<Rightarrow> HAL_StatusTypeDef \<times> UART_HandleTypeDef" where
  "HAL_UART_Transmit_IT huart pData Size =
     (if gState huart = HAL_UART_STATE_READY then
        if pData = 0 \<or> Size = 0 then (HAL_ERROR, huart)
        else if Lock huart = HAL_LOCKED then (HAL_BUSY, huart)
        else
          let huart = huart\<lparr>Lock := HAL_LOCKED\<rparr>;
              huart = huart\<lparr>pTxBuffPtr := pData\<rparr>;
              huart = huart\<lparr>TxXferSize := Size\<rparr>;
              huart = huart\<lparr>TxXferCount := Size\<rparr>;
              huart = huart\<lparr>ErrorCode := HAL_UART_ERROR_NONE\<rparr>;
              huart = huart\<lparr>gState := HAL_UART_STATE_BUSY_TX\<rparr>;
              huart = HAL_UNLOCK huart;
              huart = HAL_UART_ENABLE_IT huart UART_IT_TXE
          in (HAL_OK, huart)
      else (HAL_BUSY, huart))"

definition HAL_UART_Receive_IT ::
  "UART_HandleTypeDef \<Rightarrow> 32 word \<Rightarrow> 16 word \<Rightarrow> HAL_StatusTypeDef \<times> UART_HandleTypeDef" where
  "HAL_UART_Receive_IT huart pData Size =
     (if RxState huart = HAL_UART_STATE_READY then
        if pData = 0 \<or> Size = 0 then (HAL_ERROR, huart)
        else if Lock huart = HAL_LOCKED then (HAL_BUSY, huart)
        else
          let huart = huart\<lparr>Lock := HAL_LOCKED\<rparr>;
              huart = huart\<lparr>pRxBuffPtr := pData\<rparr>;
              huart = huart\<lparr>RxXferSize := Size\<rparr>;
              huart = huart\<lparr>RxXferCount := Size\<rparr>;
              huart = huart\<lparr>ErrorCode := HAL_UART_ERROR_NONE\<rparr>;
              huart = huart\<lparr>RxState := HAL_UART_STATE_BUSY_RX\<rparr>;
              huart = HAL_UNLOCK huart;
              huart = HAL_UART_ENABLE_IT huart UART_IT_PE;
              huart = HAL_UART_ENABLE_IT huart UART_IT_ERR;
              huart = HAL_UART_ENABLE_IT huart UART_IT_RXNE
          in (HAL_OK, huart)
      else (HAL_BUSY, huart))"

text \<open>
  The DMA-mode functions write through \<^verbatim>\<open>huart->hdmatx\<close> and \<^verbatim>\<open>huart->hdmarx\<close>
  without a null test: the result is \<open>None\<close> where the pointer is null.
\<close>

definition HAL_UART_Transmit_DMA ::
  "UART_HandleTypeDef \<Rightarrow> 32 word \<Rightarrow> 16 word \<Rightarrow> (HAL_StatusTypeDef \<times> UART_HandleTypeDef) option" where
  "HAL_UART_Transmit_DMA huart pData Size =
     (if gState huart = HAL_UART_STATE_READY then
        if pData = 0 \<or> Size = 0 then Some (HAL_ERROR, huart)
        else if Lock huart = HAL_LOCKED then Some (HAL_BUSY, huart)
        else
          let huart = huart\<lparr>Lock := HAL_LOCKED\<rparr>;
              huart = huart\<lparr>pTxBuffPtr := pData\<rparr>;
              huart = huart\<lparr>TxXferSize := Size\<rparr>;
              huart = huart\<lparr>TxXferCount := Size\<rparr>;
              huart = huart\<lparr>ErrorCode := HAL_UART_ERROR_NONE\<rparr>;
              huart = huart\<lparr>gState := HAL_UART_STATE_BUSY_TX\<rparr>
          in (case hdmatx huart of
                None \<Rightarrow> None
              | Some tx \<Rightarrow>
                  let tx = tx\<lparr>XferCpltCallback := Some CB_UART_DMATransmitCplt\<rparr>;
                      tx = tx\<lparr>XferHalfCpltCallback := Some CB_UART_DMATxHalfCplt\<rparr>;
                      tx = tx\<lparr>XferErrorCallback := Some CB_UART_DMAError\<rparr>;
                      tx = tx\<lparr>XferAbortCallback := None\<rparr>;
                      tx = snd (HAL_DMA_Start_IT tx pData (DR_address (Instance huart)) Size);
                      huart = huart\<lparr>hdmatx := Some tx\<rparr>;
                      huart = HAL_UART_CLEAR_FLAG huart UART_FLAG_TC;
                      huart = HAL_UNLOCK huart;
                      huart = write_CR3 huart (SET_BIT (CR3 (Instance huart)) USART_CR3_DMAT)
                  in Some (HAL_OK, huart))
      else Some (HAL_BUSY, huart))"

definition HAL_UART_Receive_DMA ::
  "UART_HandleTypeDef \<Rightarrow> 32 word \<Rightarrow> 16 word \<Rightarrow> (HAL_StatusTypeDef \<times> UART_HandleTypeDef) option" where
  "HAL_UART_Receive_DMA huart pData Size =
     (if RxState huart = HAL_UART_STATE_READY then
        if pData = 0 \<or> Size = 0 then Some (HAL_ERROR, huart)
        else if WordLength (Init huart) = UART_WORDLENGTH_9B
                \<and> Parity (Init huart) = UART_PARITY_NONE \<and> pData AND 1 \<noteq> 0
        then Some (HAL_ERROR, huart)
        else if Lock huart = HAL_LOCKED then Some (HAL_BUSY, huart)
        else
          let huart = huart\<lparr>Lock := HAL_LOCKED\<rparr>;
              huart = huart\<lparr>pRxBuffPtr := pData\<rparr>;
              huart = huart\<lparr>RxXferSize := Size\<rparr>;
              huart = huart\<lparr>ErrorCode := HAL_UART_ERROR_NONE\<rparr>;
              huart = huart\<lparr>RxState := HAL_UART_STATE_BUSY_RX\<rparr>
          in (case hdmarx huart of
                None \<Rightarrow> None
              | Some rx \<Rightarrow>
                  let rx = rx\<lparr>XferCpltCallback := Some CB_UART_DMAReceiveCplt\<rparr>;
                      rx = rx\<lparr>XferHalfCpltCallback := Some CB_UART_DMARxHalfCplt\<rparr>;
                      rx = rx\<lparr>XferErrorCallback := Some CB_UART_DMAError\<rparr>;
                      rx = rx\<lparr>XferAbortCallback := None\<rparr>;
                      rx = snd (HAL_DMA_Start_IT rx (DR_address (Instance huart))
                                  (pRxBuffPtr huart) Size);
                      huart = huart\<lparr>hdmarx := Some rx\<rparr>;
                      huart = HAL_UART_CLEAR_OREFLAG huart;
                      huart = HAL_UNLOCK huart;
                      huart = write_CR1 huart (SET_BIT (CR1 (Instance huart)) USART_CR1_PEIE);
                      huart = write_CR3 huart (SET_BIT (CR3 (Instance huart)) USART_CR3_EIE);
                      huart = write_CR3 huart (SET_BIT (CR3 (Instance huart)) USART_CR3_DMAR)
                  in Some (HAL_OK, huart))
      else Some (HAL_BUSY, huart))"

subsection \<open>Abort\<close>

text \<open>
  In the blocking aborts \<open>ret\<close> is the status of an early return, if one is taken.
\<close>

definition HAL_UART_Abort :: "UART_HandleTypeDef \<Rightarrow> HAL_StatusTypeDef \<times> UART_HandleTypeDef" where
  "HAL_UART_Abort huart =
     (let huart = write_CR1 huart (CLEAR_BIT (CR1 (Instance huart))
                    (USART_CR1_RXNEIE \<union> USART_CR1_PEIE \<union> USART_CR1_TXEIE \<union> USART_CR1_TCIE));
          huart = write_CR3 huart (CLEAR_BIT (CR3 (Instance huart)) USART_CR3_EIE);
          (ret, huart) =
            (if HAL_IS_BIT_SET (CR3 (Instance huart)) USART_CR3_DMAT then
               let huart = write_CR3 huart (CLEAR_BIT (CR3 (Instance huart)) USART_CR3_DMAT)
               in (case hdmatx huart of
                     None \<Rightarrow> (None, huart)
                   | Some tx \<Rightarrow>
                       let tx = tx\<lparr>XferAbortCallback := None\<rparr>;
                           (st, tx) = HAL_DMA_Abort tx;
                           huart = huart\<lparr>hdmatx := Some tx\<rparr>
                       in if st \<noteq> HAL_OK \<and> HAL_DMA_GetError tx = HAL_DMA_ERROR_TIMEOUT
                          then (Some HAL_TIMEOUT, huart\<lparr>ErrorCode := HAL_UART_ERROR_DMA\<rparr>)
                          else (None, huart))
             else (None, huart))
      in case ret of
           Some st \<Rightarrow> (st, huart)
         | None \<Rightarrow>
             let (ret, huart) =
                   (if HAL_IS_BIT_SET (CR3 (Instance huart)) USART_CR3_DMAR then
                      let huart = write_CR3 huart
                            (CLEAR_BIT (CR3 (Instance huart)) USART_CR3_DMAR)
                      in (case hdmarx huart of
                            None \<Rightarrow> (None, huart)
                          | Some rx \<Rightarrow>
                              let rx = rx\<lparr>XferAbortCallback := None\<rparr>;
                                  (st, rx) = HAL_DMA_Abort rx;
                                  huart = huart\<lparr>hdmarx := Some rx\<rparr>
                              in if st \<noteq> HAL_OK \<and> HAL_DMA_GetError rx = HAL_DMA_ERROR_TIMEOUT
                                 then (Some HAL_TIMEOUT, huart\<lparr>ErrorCode := HAL_UART_ERROR_DMA\<rparr>)
                                 else (None, huart))
                    else (None, huart))
             in case ret of
                  Some st \<Rightarrow> (st, huart)
                | None \<Rightarrow>
                    let huart = huart\<lparr>TxXferCount := 0\<rparr>;
                        huart = huart\<lparr>RxXferCount := 0\<rparr>;
                        huart = huart\<lparr>ErrorCode := HAL_UART_ERROR_NONE\<rparr>;
                        huart = huart\<lparr>RxState := HAL_UART_STATE_READY\<rparr>;
                        huart = huart\<lparr>gState := HAL_UART_STATE_READY\<rparr>
                    in (HAL_OK, huart))"

definition HAL_UART_AbortTransmit :: "UART_HandleTypeDef \<Rightarrow> HAL_StatusTypeDef \<times> UART_HandleTypeDef" where
  "HAL_UART_AbortTransmit huart =
     (let huart = write_CR1 huart (CLEAR_BIT (CR1 (Instance huart))
                    (USART_CR1_TXEIE \<union> USART_CR1_TCIE));
          (ret, huart) =
            (if HAL_IS_BIT_SET (CR3 (Instance huart)) USART_CR3_DMAT then
               let huart = write_CR3 huart (CLEAR_BIT (CR3 (Instance huart)) USART_CR3_DMAT)
               in (case hdmatx huart of
                     None \<Rightarrow> (None, huart)
                   | Some tx \<Rightarrow>
                       let tx = tx\<lparr>XferAbortCallback := None\<rparr>;
                           (st, tx) = HAL_DMA_Abort tx;
                           huart = huart\<lparr>hdmatx := Some tx\<rparr>
                       in if st \<noteq> HAL_OK \<and> HAL_DMA_GetError tx = HAL_DMA_ERROR_TIMEOUT
                          then (Some HAL_TIMEOUT, huart\<lparr>ErrorCode := HAL_UART_ERROR_DMA\<rparr>)
                          else (None, huart))
             else (None, huart))
      in case ret of
           Some st \<Rightarrow> (st, huart)
         | None \<Rightarrow>
             let huart = huart\<lparr>TxXferCount := 0\<rparr>;
                 huart = huart\<lparr>gState := HAL_UART_STATE_READY\<rparr>
             in (HAL_OK, huart))"

definition HAL_UART_AbortReceive :: "UART_HandleTypeDef \<Rightarrow> HAL_StatusTypeDef \<times> UART_HandleTypeDef" where
  "HAL_UART_AbortReceive huart =
     (let huart = write_CR1 huart (CLEAR_BIT (CR1 (Instance huart))
                    (USART_CR1_RXNEIE \<union> USART_CR1_PEIE));
          huart = write_CR3 huart (CLEAR_BIT (CR3 (Instance huart)) USART_CR3_EIE);
          (ret, huart) =
            (if HAL_IS_BIT_SET (CR3 (Instance huart)) USART_CR3_DMAR then
               let huart = write_CR3 huart (CLEAR_BIT (CR3 (Instance huart)) USART_CR3_DMAR)
               in (case hdmarx huart of
                     None \<Rightarrow> (None, huart)
                   | Some rx \<Rightarrow>
                       let rx = rx\<lparr>XferAbortCallback := None\<rparr>;
                           (st, rx) = HAL_DMA_Abort rx;
                           huart = huart\<lparr>hdmarx := Some rx\<rparr>
                       in if st \<noteq> HAL_OK \<and> HAL_DMA_GetError rx = HAL_DMA_ERROR_TIMEOUT
                          then (Some HAL_TIMEOUT, huart\<lparr>ErrorCode := HAL_UART_ERROR_DMA\<rparr>)
                          else (None, huart))
             else (None, huart))
      in case ret of
           Some st \<Rightarrow> (st, huart)
         | None \<Rightarrow>
             let huart = huart\<lparr>RxXferCount := 0\<rparr>;
                 huart = huart\<lparr>RxState := HAL_UART_STATE_READY\<rparr>
             in (HAL_OK, huart))"

definition HAL_UART_Abort_IT :: "UART_HandleTypeDef \<Rightarrow> HAL_StatusTypeDef \<times> UART_HandleTypeDef" where
  "HAL_UART_Abort_IT huart =
     (let AbortCplt = (0x01 :: 32 word);
          huart = write_CR1 huart (CLEAR_BIT (CR1 (Instance huart))
                    (USART_CR1_RXNEIE \<union> USART_CR1_PEIE \<union> USART_CR1_TXEIE \<union> USART_CR1_TCIE));
          huart = write_CR3 huart (CLEAR_BIT (CR3 (Instance huart)) USART_CR3_EIE);
          huart =
            (case hdmatx huart of
               None \<Rightarrow> huart
             | Some tx \<Rightarrow>
                 if HAL_IS_BIT_SET (CR3 (Instance huart)) USART_CR3_DMAT
                 then huart\<lparr>hdmatx := Some (tx\<lparr>XferAbortCallback := Some CB_UART_DMATxAbortCallback\<rparr>)\<rparr>
                 else huart\<lparr>hdmatx := Some (tx\<lparr>XferAbortCallback := None\<rparr>)\<rparr>);
          huart =
            (case hdmarx huart of
               None \<Rightarrow> huart
             | Some rx \<Rightarrow>
                 if HAL_IS_BIT_SET (CR3 (Instance huart)) USART_CR3_DMAR
                 then huart\<lparr>hdmarx := Some (rx\<lparr>XferAbortCallback := Some CB_UART_DMARxAbortCallback\<rparr>)\<rparr>
                 else huart\<lparr>hdmarx := Some (rx\<lparr>XferAbortCallback := None\<rparr>)\<rparr>);
          (AbortCplt, huart) =
            (if HAL_IS_BIT_SET (CR3 (Instance huart)) USART_CR3_DMAT then
               let huart = write_CR3 huart (CLEAR_BIT (CR3 (Instance huart)) USART_CR3_DMAT)
               in (case hdmatx huart of
                     None \<Rightarrow> (AbortCplt, huart)
                   | Some tx \<Rightarrow>
                       let (st, tx) = HAL_DMA_Abort_IT tx
                       in if st \<noteq> HAL_OK
                          then (AbortCplt, huart\<lparr>hdmatx := Some (tx\<lparr>XferAbortCallback := None\<rparr>)\<rparr>)
                          else (0x00, huart\<lparr>hdmatx := Some tx\<rparr>))
             else (AbortCplt, huart));
          (AbortCplt, huart) =
            (if HAL_IS_BIT_SET (CR3 (Instance huart)) USART_CR3_DMAR then
               let huart = write_CR3 huart (CLEAR_BIT (CR3 (Instance huart)) USART_CR3_DMAR)
               in (case hdmarx huart of
                     None \<Rightarrow> (AbortCplt, huart)
                   | Some rx \<Rightarrow>
                       let (st, rx) = HAL_DMA_Abort_IT rx
                       in if st \<noteq> HAL_OK
                          then (0x01, huart\<lparr>hdmarx := Some (rx\<lparr>XferAbortCallback := None\<rparr>)\<rparr>)
                          else (0x00, huart\<lparr>hdmarx := Some rx\<rparr>))
             else (AbortCplt, huart))
      in if AbortCplt = 0x01 then
           let huart = huart\<lparr>TxXferCount := 0\<rparr>;
               huart = huart\<lparr>RxXferCount := 0\<rparr>;
               huart = huart\<lparr>ErrorCode := HAL_UART_ERROR_NONE\<rparr>;
               huart = huart\<lparr>gState := HAL_UART_STATE_READY\<rparr>;
               huart = huart\<lparr>RxState := HAL_UART_STATE_READY\<rparr>
           in (HAL_OK, invoke HAL_UART_AbortCpltCallback huart)
         else (HAL_OK, huart))"

text \<open>
  In the single-direction asynchronous aborts a failed request calls
  \<^verbatim>\<open>XferAbortCallback\<close> at once; the pointer called is the one stored two lines above.
\<close>

definition HAL_UART_AbortTransmit_IT :: "UART_HandleTypeDef \<Rightarrow> HAL_StatusTypeDef \<times> UART_HandleTypeDef" where
  "HAL_UART_AbortTransmit_IT huart =
     (let huart = write_CR1 huart (CLEAR_BIT (CR1 (Instance huart))
                    (USART_CR1_TXEIE \<union> USART_CR1_TCIE))
      in if HAL_IS_BIT_SET (CR3 (Instance huart)) USART_CR3_DMAT then
           let huart = write_CR3 huart (CLEAR_BIT (CR3 (Instance huart)) USART_CR3_DMAT)
           in (case hdmatx huart of
                 Some tx \<Rightarrow>
                   let tx = tx\<lparr>XferAbortCallback := Some CB_UART_DMATxOnlyAbortCallback\<rparr>;
                       (st, tx) = HAL_DMA_Abort_IT tx;
                       huart = huart\<lparr>hdmatx := Some tx\<rparr>
                   in if st \<noteq> HAL_OK then (HAL_OK, UART_DMATxOnlyAbortCallback huart)
                      else (HAL_OK, huart)
               | None \<Rightarrow>
                   let huart = huart\<lparr>TxXferCount := 0\<rparr>;
                       huart = huart\<lparr>gState := HAL_UART_STATE_READY\<rparr>
                   in (HAL_OK, invoke HAL_UART_AbortTransmitCpltCallback huart))
         else
           let huart = huart\<lparr>TxXferCount := 0\<rparr>;
               huart = huart\<lparr>gState := HAL_UART_STATE_READY\<rparr>
           in (HAL_OK, invoke HAL_UART_AbortTransmitCpltCallback huart))"

definition HAL_UART_AbortReceive_IT :: "UART_HandleTypeDef \<Rightarrow> HAL_StatusTypeDef \<times> UART_HandleTypeDef" where
  "HAL_UART_AbortReceive_IT huart =
     (let huart = write_CR1 huart (CLEAR_BIT (CR1 (Instance huart))
                    (USART_CR1_RXNEIE \<union> USART_CR1_PEIE));
          huart = write_CR3 huart (CLEAR_BIT (CR3 (Instance huart)) USART_CR3_EIE)
      in if HAL_IS_BIT_SET (CR3 (Instance huart)) USART_CR3_DMAR then
           let huart = write_CR3 huart (CLEAR_BIT (CR3 (Instance huart)) USART_CR3_DMAR)
           in (case hdmarx huart of
                 Some rx \<Rightarrow>
                   let rx = rx\<lparr>XferAbortCallback := Some CB_UART_DMARxOnlyAbortCallback\<rparr>;
                       (st, rx) = HAL_DMA_Abort_IT rx;
                       huart = huart\<lparr>hdmarx := Some rx\<rparr>
                   in if st \<noteq> HAL_OK then (HAL_OK, UART_DMARxOnlyAbortCallback huart)
                      else (HAL_OK, huart)
               | None \<Rightarrow>
                   let huart = huart\<lparr>RxXferCount := 0\<rparr>;
                       huart = huart\<lparr>RxState := HAL_UART_STATE_READY\<rparr>
                   in (HAL_OK, invoke HAL_UART_AbortReceiveCpltCallback huart))
         else
           let huart = huart\<lparr>RxXferCount := 0\<rparr>;
               huart = huart\<lparr>RxState := HAL_UART_STATE_READY\<rparr>
           in (HAL_OK, invoke HAL_UART_AbortReceiveCpltCallback huart))"

subsection \<open>The interrupt handler\<close>

text \<open>
  \<^verbatim>\<open>HAL_UART_IRQHandler\<close>.  The three branches that return are the branches of the
  conditional; the idle-line branch does not return and is followed by the two transmit
  branches.  Where the asynchronous abort of the receive channel fails, the handler calls
  the abort callback it has just stored, \<^verbatim>\<open>UART_DMAAbortOnError\<close>.
\<close>

definition HAL_UART_IRQHandler :: "UART_HandleTypeDef \<Rightarrow> UART_HandleTypeDef" where
  "HAL_UART_IRQHandler huart =
     (let isrflags = SR (Instance huart);
          cr1its = CR1 (Instance huart);
          cr3its = CR3 (Instance huart);
          errorflags = isrflags \<inter> (USART_SR_PE \<union> USART_SR_FE \<union> USART_SR_ORE \<union> USART_SR_NE)
      in
      if errorflags = {} \<and> isrflags \<inter> USART_SR_RXNE \<noteq> {} \<and> cr1its \<inter> USART_CR1_RXNEIE \<noteq> {}
      then snd (UART_Receive_IT huart)
      else if errorflags \<noteq> {}
              \<and> (cr3its \<inter> USART_CR3_EIE \<noteq> {}
                   \<or> cr1its \<inter> (USART_CR1_RXNEIE \<union> USART_CR1_PEIE) \<noteq> {})
      then
        let huart = (if isrflags \<inter> USART_SR_PE \<noteq> {} \<and> cr1its \<inter> USART_CR1_PEIE \<noteq> {}
                     then huart\<lparr>ErrorCode := ErrorCode huart \<union> HAL_UART_ERROR_PE\<rparr> else huart);
            huart = (if isrflags \<inter> USART_SR_NE \<noteq> {} \<and> cr3its \<inter> USART_CR3_EIE \<noteq> {}
                     then huart\<lparr>ErrorCode := ErrorCode huart \<union> HAL_UART_ERROR_NE\<rparr> else huart);
            huart = (if isrflags \<inter> USART_SR_FE \<noteq> {} \<and> cr3its \<inter> USART_CR3_EIE \<noteq> {}
                     then huart\<lparr>ErrorCode := ErrorCode huart \<union> HAL_UART_ERROR_FE\<rparr> else huart);
            huart = (if isrflags \<inter> USART_SR_ORE \<noteq> {} \<and> cr3its \<inter> USART_CR3_EIE \<noteq> {}
                     then huart\<lparr>ErrorCode := ErrorCode huart \<union> HAL_UART_ERROR_ORE\<rparr> else huart)
        in
        if ErrorCode huart \<noteq> HAL_UART_ERROR_NONE then
          let huart = (if isrflags \<inter> USART_SR_RXNE \<noteq> {} \<and> cr1its \<inter> USART_CR1_RXNEIE \<noteq> {}
                       then snd (UART_Receive_IT huart) else huart);
              dmarequest = HAL_IS_BIT_SET (CR3 (Instance huart)) USART_CR3_DMAR
          in
          if ErrorCode huart \<inter> HAL_UART_ERROR_ORE \<noteq> {} \<or> dmarequest then
            let huart = UART_EndRxTransfer huart in
            if HAL_IS_BIT_SET (CR3 (Instance huart)) USART_CR3_DMAR then
              let huart = write_CR3 huart (CLEAR_BIT (CR3 (Instance huart)) USART_CR3_DMAR)
              in (case hdmarx huart of
                    Some rx \<Rightarrow>
                      let rx = rx\<lparr>XferAbortCallback := Some CB_UART_DMAAbortOnError\<rparr>;
                          (st, rx) = HAL_DMA_Abort_IT rx;
                          huart = huart\<lparr>hdmarx := Some rx\<rparr>
                      in if st \<noteq> HAL_OK then UART_DMAAbortOnError huart else huart
                  | None \<Rightarrow> invoke HAL_UART_ErrorCallback huart)
            else invoke HAL_UART_ErrorCallback huart
          else
            let huart = invoke HAL_UART_ErrorCallback huart
            in huart\<lparr>ErrorCode := HAL_UART_ERROR_NONE\<rparr>
        else huart
      else
        let huart = (if isrflags \<inter> USART_SR_IDLE \<noteq> {} \<and> cr1its \<inter> USART_CR1_IDLEIE \<noteq> {}
                     then invoke HAL_UART_IdleFrameDetectCpltCallback
                            (HAL_UART_CLEAR_IDLEFLAG huart)
                     else huart)
        in
        if isrflags \<inter> USART_SR_TXE \<noteq> {} \<and> cr1its \<inter> USART_CR1_TXEIE \<noteq> {}
        then snd (UART_Transmit_IT huart)
        else if isrflags \<inter> USART_SR_TC \<noteq> {} \<and> cr1its \<inter> USART_CR1_TCIE \<noteq> {}
        then snd (UART_EndTransmit_IT huart)
        else huart)"

subsection \<open>Initialization\<close>

text \<open>
  Modelled from the spec: the baud-rate divider is computed by the macros
  \<^verbatim>\<open>UART_BRR_SAMPLING8\<close> and \<^verbatim>\<open>UART_BRR_SAMPLING16\<close> from the frequency that
  \<^verbatim>\<open>HAL_RCC_GetPCLK1Freq\<close> or \<^verbatim>\<open>HAL_RCC_GetPCLK2Freq\<close> returns; neither the macros
  nor the clock driver are among the sources, and the spec leaves the baud-rate arithmetic
  out of its scope.  The divider is a parameter \<open>brr\<close>: the value written to BRR for a
  given configuration.  \<^verbatim>\<open>HAL_UART_MspInit\<close> is the weak function the application
  replaces to set up clocks and pins; it is the parameter \<open>MspInit\<close>.  The configuration
  values of \<^verbatim>\<open>UART_InitTypeDef\<close>, the break detection length, the node address and the
  wake-up method are written into registers with \<^verbatim>\<open>MODIFY_REG\<close> and \<^verbatim>\<open>SET_BIT\<close>: each
  is the set of the bits of its register that it has set.
\<close>

definition UART_SetConfig ::
  "(UART_InitTypeDef \<Rightarrow> 32 word) \<Rightarrow> UART_HandleTypeDef \<Rightarrow> UART_HandleTypeDef" where
  "UART_SetConfig brr huart =
     (let huart = write_CR2 huart
            (MODIFY_REG (CR2 (Instance huart)) USART_CR2_STOP (StopBits (Init huart)));
          tmpreg = WordLength (Init huart) \<union> Parity (Init huart) \<union> Mode (Init huart);
          huart = write_CR1 huart
            (MODIFY_REG (CR1 (Instance huart))
               (USART_CR1_M \<union> USART_CR1_PCE \<union> USART_CR1_PS \<union> USART_CR1_TE \<union> USART_CR1_RE)
               tmpreg);
          huart = write_CR3 huart
            (MODIFY_REG (CR3 (Instance huart)) (USART_CR3_RTSE \<union> USART_CR3_CTSE)
               (HwFlowCtl (Init huart)));
          huart = write_CR3 huart
            (MODIFY_REG (CR3 (Instance huart)) USART_CR3_OVER8 (OverSampling (Init huart)))
      in write_BRR huart (brr (Init huart)))"

definition UART_AdvFeatureConfig :: "UART_HandleTypeDef \<Rightarrow> UART_HandleTypeDef" where
  "UART_AdvFeatureConfig huart =
     (if HAL_IS_BIT_SET (AdvFeatureInit (AdvancedInit huart)) UART_ADVFEATURE_AUTOBAUDRATE_INIT
      then
        let huart = write_CR3 huart
              (MODIFY_REG (CR3 (Instance huart)) USART_CR3_ABREN
                 (AutoBaudRateEnable (AdvancedInit huart)))
        in if AutoBaudRateEnable (AdvancedInit huart) = UART_ADVFEATURE_AUTOBAUDRATE_ENABLE
           then write_CR3 huart
                  (MODIFY_REG (CR3 (Instance huart)) USART_CR3_ABRMOD
                     (AutoBaudRateMode (AdvancedInit huart)))
           else huart
      else huart)"

definition HAL_UART_Init ::
  "(UART_HandleTypeDef \<Rightarrow> UART_HandleTypeDef) \<Rightarrow> (UART_InitTypeDef \<Rightarrow> 32 word)
     \<Rightarrow> UART_HandleTypeDef option \<Rightarrow> HAL_StatusTypeDef \<times> UART_HandleTypeDef option" where
  "HAL_UART_Init MspInit brr p =
     (case p of
        None \<Rightarrow> (HAL_ERROR, None)
      | Some huart \<Rightarrow>
          let huart = (if gState huart = HAL_UART_STATE_RESET
                       then MspInit (huart\<lparr>Lock := HAL_UNLOCKED\<rparr>) else huart);
              huart = huart\<lparr>gState := HAL_UART_STATE_BUSY\<rparr>;
              huart = HAL_UART_DISABLE huart;
              huart = UART_SetConfig brr huart;
              huart = (if AdvFeatureInit (AdvancedInit huart) \<noteq> UART_ADVFEATURE_NO_INIT
                       then UART_AdvFeatureConfig huart else huart);
              huart = write_CR2 huart
                (CLEAR_BIT (CR2 (Instance huart)) (USART_CR2_LINEN \<union> USART_CR2_CLKEN));
              huart = write_CR3 huart
                (CLEAR_BIT (CR3 (Instance huart))
                   (USART_CR3_SCEN \<union> USART_CR3_HDSEL \<union> USART_CR3_IREN));
              huart = HAL_UART_ENABLE huart;
              huart = huart\<lparr>ErrorCode := HAL_UART_ERROR_NONE\<rparr>;
              huart = huart\<lparr>gState := HAL_UART_STATE_READY\<rparr>;
              huart = huart\<lparr>RxState := HAL_UART_STATE_READY\<rparr>
          in (HAL_OK, Some huart))"

definition HAL_HalfDuplex_Init ::
  "(UART_HandleTypeDef \<Rightarrow> UART_HandleTypeDef) \<Rightarrow> (UART_InitTypeDef \<Rightarrow> 32 word)
     \<Rightarrow> UART_HandleTypeDef option \<Rightarrow> HAL_StatusTypeDef \<times> UART_HandleTypeDef option" where
  "HAL_HalfDuplex_Init MspInit brr p =
     (case p of
        None \<Rightarrow> (HAL_ERROR, None)
      | Some huart \<Rightarrow>
          let huart = (if gState huart = HAL_UART_STATE_RESET
                       then MspInit (huart\<lparr>Lock := HAL_UNLOCKED\<rparr>) else huart);
              huart = huart\<lparr>gState := HAL_UART_STATE_BUSY\<rparr>;
              huart = HAL_UART_DISABLE huart;
              huart = UART_SetConfig brr huart;
              huart = write_CR2 huart
                (CLEAR_BIT (CR2 (Instance huart)) (USART_CR2_LINEN \<union> USART_CR2_CLKEN));
              huart = write_CR3 huart
                (CLEAR_BIT (CR3 (Instance huart)) (USART_CR3_IREN \<union> USART_CR3_SCEN));
              huart = write_CR3 huart (SET_BIT (CR3 (Instance huart)) USART_CR3_HDSEL);
              huart = HAL_UART_ENABLE huart;
              huart = huart\<lparr>ErrorCode := HAL_UART_ERROR_NONE\<rparr>;
              huart = huart\<lparr>gState := HAL_UART_STATE_READY\<rparr>;
              huart = huart\<lparr>RxState := HAL_UART_STATE_READY\<rparr>
          in (HAL_OK, Some huart))"

definition HAL_LIN_Init ::
  "(UART_HandleTypeDef \<Rightarrow> UART_HandleTypeDef) \<Rightarrow> (UART_InitTypeDef \<Rightarrow> 32 word)
     \<Rightarrow> UART_HandleTypeDef option \<Rightarrow> cr2_bit set
     \<Rightarrow> HAL_StatusTypeDef \<times> UART_HandleTypeDef option" where
  "HAL_LIN_Init MspInit brr p BreakDetectLength =
     (case p of
        None \<Rightarrow> (HAL_ERROR, None)
      | Some huart \<Rightarrow>
          let huart = (if gState huart = HAL_UART_STATE_RESET
                       then MspInit (huart\<lparr>Lock := HAL_UNLOCKED\<rparr>) else huart);
              huart = huart\<lparr>gState := HAL_UART_STATE_BUSY\<rparr>;
              huart = HAL_UART_DISABLE huart;
              huart = huart\<lparr>Init := (Init huart)\<lparr>OverSampling := UART_OVERSAMPLING_16\<rparr>\<rparr>;
              huart = huart\<lparr>Init := (Init huart)\<lparr>StopBits := UART_STOPBITS_1\<rparr>\<rparr>;
              huart = huart\<lparr>Init := (Init huart)\<lparr>WordLength := UART_WORDLENGTH_8B\<rparr>\<rparr>;
              huart = UART_SetConfig brr huart;
              huart = write_CR2 huart (CLEAR_BIT (CR2 (Instance huart)) USART_CR2_CLKEN);
              huart = write_CR3 huart
                (CLEAR_BIT (CR3 (Instance huart))
                   (USART_CR3_HDSEL \<union> USART_CR3_IREN \<union> USART_CR3_SCEN));
              huart = write_CR2 huart (SET_BIT (CR2 (Instance huart)) USART_CR2_LINEN);
              huart = write_CR2 huart (CLEAR_BIT (CR2 (Instance huart)) USART_CR2_LBDL);
              huart = write_CR2 huart (SET_BIT (CR2 (Instance huart)) BreakDetectLength);
              huart = HAL_UART_ENABLE huart;
              huart = huart\<lparr>ErrorCode := HAL_UART_ERROR_NONE\<rparr>;
              huart = huart\<lparr>gState := HAL_UART_STATE_READY\<rparr>;
              huart = huart\<lparr>RxState := HAL_UART_STATE_READY\<rparr>
          in (HAL_OK, Some huart))"

definition HAL_MultiProcessor_Init ::
  "(UART_HandleTypeDef \<Rightarrow> UART_HandleTypeDef) \<Rightarrow> (UART_InitTypeDef \<Rightarrow> 32 word)
     \<Rightarrow> UART_HandleTypeDef option \<Rightarrow> cr2_bit set \<Rightarrow> cr1_bit set
     \<Rightarrow> HAL_StatusTypeDef \<times> UART_HandleTypeDef option" where
  "HAL_MultiProcessor_Init MspInit brr p Address WakeUpMethod =
     (case p of
        None \<Rightarrow> (HAL_ERROR, None)
      | Some huart \<Rightarrow>
          let huart = (if gState huart = HAL_UART_STATE_RESET
                       then MspInit (huart\<lparr>Lock := HAL_UNLOCKED\<rparr>) else huart);
              huart = huart\<lparr>gState := HAL_UART_STATE_BUSY\<rparr>;
              huart = HAL_UART_DISABLE huart;
              huart = UART_SetConfig brr huart;
              huart = write_CR2 huart
                (CLEAR_BIT (CR2 (Instance huart)) (USART_CR2_LINEN \<union> USART_CR2_CLKEN));
              huart = write_CR3 huart
                (CLEAR_BIT (CR3 (Instance huart))
                   (USART_CR3_SCEN \<union> USART_CR3_HDSEL \<union> USART_CR3_IREN));
              huart = write_CR2 huart (CLEAR_BIT (CR2 (Instance huart)) USART_CR2_ADD);
              huart = write_CR2 huart (SET_BIT (CR2 (Instance huart)) Address);
              huart = write_CR1 huart (CLEAR_BIT (CR1 (Instance huart)) USART_CR1_WAKE);
              huart = write_CR1 huart (SET_BIT (CR1 (Instance huart)) WakeUpMethod);
              huart = HAL_UART_ENABLE huart;
              huart = huart\<lparr>ErrorCode := HAL_UART_ERROR_NONE\<rparr>;
              huart = huart\<lparr>gState := HAL_UART_STATE_READY\<rparr>;
              huart = huart\<lparr>RxState := HAL_UART_STATE_READY\<rparr>
          in (HAL_OK, Some huart))"

subsection \<open>Sample handles\<close>

text \<open>
  A handle as it is after initialization in 8-bit mode without parity: both directions
  Ready, no DMA channel bound, no interrupt source enabled, memory cleared.  The other
  samples are made from it.
\<close>

definition huart_ready :: UART_HandleTypeDef where
  "huart_ready =
     \<lparr>Instance = \<lparr>DR_address = 0x40013804, SR = {SR_TXE, SR_TC}, DR = 0, BRR = 0,
                   CR1 = {CR1_UE, CR1_TE, CR1_RE}, CR2 = {}, CR3 = {}\<rparr>,
      Init = \<lparr>BaudRate = 115200, WordLength = UART_WORDLENGTH_8B, StopBits = UART_STOPBITS_1,
               Parity = UART_PARITY_NONE, Mode = {CR1_TE, CR1_RE}, HwFlowCtl = {},
               OverSampling = UART_OVERSAMPLING_16\<rparr>,
      AdvancedInit = \<lparr>AdvFeatureInit = UART_ADVFEATURE_NO_INIT, AutoBaudRateEnable = {},
               AutoBaudRateMode = {}\<rparr>,
      pTxBuffPtr = 0, TxXferSize = 0, TxXferCount = 0,
      pRxBuffPtr = 0, RxXferSize = 0, RxXferCount = 0,
      hdmatx = None, hdmarx = None,
      Lock = HAL_UNLOCKED,
      gState = HAL_UART_STATE_READY, RxState = HAL_UART_STATE_READY,
      ErrorCode = HAL_UART_ERROR_NONE,
      mem = (\<lambda>a. 0), sent = [], trace = []\<rparr>"

text \<open>A DMA channel that serves a transfer.\<close>

definition dma_busy :: DMA_HandleTypeDef where
  "dma_busy =
     \<lparr>CCR_CIRC = False, DMA_State = HAL_DMA_STATE_BUSY,
      XferCpltCallback = None, XferHalfCpltCallback = None, XferErrorCallback = None,
      XferAbortCallback = None, DMA_ErrorCode = 0, SrcAddress = 0, DstAddress = 0,
      DataLength = 0, AbortScheduled = False, AbortTimesOut = False\<rparr>"

text \<open>A handle with an interrupt-mode transfer in progress in both directions.\<close>

definition huart_busy :: UART_HandleTypeDef where
  "huart_busy =
     huart_ready\<lparr>gState := HAL_UART_STATE_BUSY_TX, RxState := HAL_UART_STATE_BUSY_RX\<rparr>"

text \<open>A handle on which an overrun ended an interrupt-mode reception: Ready, error code Overrun.\<close>

definition huart_ready_after_overrun :: UART_HandleTypeDef where
  "huart_ready_after_overrun = huart_ready\<lparr>ErrorCode := HAL_UART_ERROR_ORE\<rparr>"

text \<open>A DMA channel that serves no transfer.\<close>

definition dma_idle :: DMA_HandleTypeDef where
  "dma_idle = dma_busy\<lparr>DMA_State := HAL_DMA_STATE_READY\<rparr>"

text \<open>A handle configured for 9-bit words without parity, with a DMA channel in each direction.\<close>

definition huart_9bit :: UART_HandleTypeDef where
  "huart_9bit = huart_ready\<lparr>Init := (Init huart_ready)\<lparr>WordLength := UART_WORDLENGTH_9B\<rparr>,
     hdmatx := Some dma_idle, hdmarx := Some dma_idle\<rparr>"

text \<open>A handle with an interrupt-mode reception of eight units in progress.\<close>

definition huart_rx_it :: UART_HandleTypeDef where
  "huart_rx_it =
     huart_ready\<lparr>Instance := (Instance huart_ready)
                    \<lparr>CR1 := {CR1_UE, CR1_TE, CR1_RE, CR1_RXNEIE, CR1_PEIE}, CR3 := {CR3_EIE}\<rparr>,
                  pRxBuffPtr := 0x20000100, RxXferSize := 8, RxXferCount := 8,
                  RxState := HAL_UART_STATE_BUSY_RX\<rparr>"

text \<open>
  A handle whose interrupt-mode transmission has written its last unit and waits for the
  transmission-complete interrupt.
\<close>

definition huart_tc_pending :: UART_HandleTypeDef where
  "huart_tc_pending =
     huart_ready\<lparr>Instance := (Instance huart_ready)
                    \<lparr>SR := {}, CR1 := {CR1_UE, CR1_TE, CR1_RE, CR1_TCIE}\<rparr>,
                  pTxBuffPtr := 0x20000108, TxXferSize := 8, TxXferCount := 0,
                  gState := HAL_UART_STATE_BUSY_TX\<rparr>"

text \<open>An observation with no status flag set, at tick 111.\<close>

definition late :: hw_obs where
  "late = \<lparr>obs_SR = {}, obs_DR = 0, obs_tick = 111\<rparr>"

text \<open>
  Two observations with the transmit data register empty and the transmission not
  complete, at tick 105 and at tick 111.
\<close>

definition in_time :: hw_obs where
  "in_time = \<lparr>obs_SR = {SR_TXE}, obs_DR = 0, obs_tick = 105\<rparr>"

definition late_TXE :: hw_obs where
  "late_TXE = \<lparr>obs_SR = {SR_TXE}, obs_DR = 0, obs_tick = 111\<rparr>"

text \<open>
  A handle with a DMA transmission and a DMA reception in progress, each on its own
  channel.
\<close>

definition huart_dma_both :: UART_HandleTypeDef where
  "huart_dma_both =
     huart_ready\<lparr>Instance := (Instance huart_ready)
                    \<lparr>CR1 := {CR1_UE, CR1_TE, CR1_RE, CR1_PEIE},
                     CR3 := {CR3_EIE, CR3_DMAT, CR3_DMAR}\<rparr>,
                  pTxBuffPtr := 0x20000000, TxXferSize := 16, TxXferCount := 16,
                  pRxBuffPtr := 0x20000100, RxXferSize := 16,
                  hdmatx := Some dma_busy, hdmarx := Some dma_busy,
                  gState := HAL_UART_STATE_BUSY_TX, RxState := HAL_UART_STATE_BUSY_RX,
                  ErrorCode := HAL_UART_ERROR_NE\<rparr>"

text \<open>
  The handle with the interrupt-mode reception in progress, at an interrupt that flags an
  overrun; an idle DMA channel is bound for reception.
\<close>

definition huart_overrun_it :: UART_HandleTypeDef where
  "huart_overrun_it =
     huart_rx_it\<lparr>Instance := (Instance huart_rx_it)\<lparr>SR := {SR_ORE}\<rparr>,
                  hdmarx := Some dma_idle\<rparr>"

text \<open>
  The same reception at an interrupt that flags a parity error together with a received
  unit: with one unit left to receive, and with eight.
\<close>

definition huart_parity_last :: UART_HandleTypeDef where
  "huart_parity_last =
     huart_rx_it\<lparr>Instance := (Instance huart_rx_it)\<lparr>SR := {SR_PE, SR_RXNE}, DR := 0x41\<rparr>,
                  RxXferCount := 1\<rparr>"

definition huart_parity_mid :: UART_HandleTypeDef where
  "huart_parity_mid =
     huart_rx_it\<lparr>Instance := (Instance huart_rx_it)\<lparr>SR := {SR_PE, SR_RXNE}, DR := 0x41\<rparr>\<rparr>"

text \<open>A handle with a DMA reception in progress, at an interrupt that flags a frame error.\<close>

definition huart_rx_dma :: UART_HandleTypeDef where
  "huart_rx_dma =
     huart_ready\<lparr>Instance := (Instance huart_ready)
                    \<lparr>SR := {SR_FE}, CR1 := {CR1_UE, CR1_TE, CR1_RE, CR1_PEIE},
                     CR3 := {CR3_EIE, CR3_DMAR}\<rparr>,
                  pRxBuffPtr := 0x20000100, RxXferSize := 8,
                  hdmarx := Some dma_busy,
                  RxState := HAL_UART_STATE_BUSY_RX\<rparr>"

subsection \<open>Notions used in the statements\<close>

text \<open>
  A poll whose observation is \<open>e\<close> exceeds the deadline of a wait that started at
  \<open>Tickstart\<close> with a finite \<open>Timeout\<close>.
\<close>

definition expired :: "32 word \<Rightarrow> 32 word \<Rightarrow> hw_obs \<Rightarrow> bool" where
  "expired Timeout Tickstart e =
     (Timeout \<noteq> HAL_MAX_DELAY \<and> (Timeout = 0 \<or> obs_tick e - Tickstart > Timeout))"

text \<open>
  What a timed-out wait leaves of the handle it was started on: both states Ready, the
  lock released, the TXE, RXNE and PE interrupt enables removed from CR1 and the error
  interrupt enable removed from CR3, the other enable bits as they were.
\<close>

definition timed_out :: "UART_HandleTypeDef \<Rightarrow> UART_HandleTypeDef \<Rightarrow> bool" where
  "timed_out huart huart' =
     (gState huart' = HAL_UART_STATE_READY \<and> RxState huart' = HAL_UART_STATE_READY
      \<and> Lock huart' = HAL_UNLOCKED
      \<and> CR1 (Instance huart') = CR1 (Instance huart) - {CR1_RXNEIE, CR1_PEIE, CR1_TXEIE}
      \<and> CR3 (Instance huart') = CR3 (Instance huart) - {CR3_EIE})"

text \<open>
  The flag a blocking Transmit of \<open>Size\<close> units polls for after it has made the polls
  \<open>pre\<close> without returning.  The loop of \<^verbatim>\<open>HAL_UART_Transmit\<close> waits for TXE once
  for each unit, and every poll that finds TXE set ends one such wait; after the last unit
  the function waits for TC.  So the awaited flag is TXE as long as fewer than \<open>Size\<close>
  polls have found TXE set, and TC from then on.
\<close>

definition awaited :: "16 word \<Rightarrow> hw_obs list \<Rightarrow> sr_bit" where
  "awaited Size pre =
     (if length (filter (\<lambda>x. SR_TXE \<in> obs_SR x) pre) < unat Size then SR_TXE else SR_TC)"

text \<open>
  The condition of the handle at the joint invocation of the abort-complete callback: both
  states Ready, no error, both counters zero.
\<close>

definition joined :: snapshot where
  "joined = \<lparr>at_gState = HAL_UART_STATE_READY, at_RxState = HAL_UART_STATE_READY,
     at_ErrorCode = HAL_UART_ERROR_NONE, at_TxXferCount = 0, at_RxXferCount = 0\<rparr>"

text \<open>
  The line errors the interrupt handler records at an interrupt: those whose flag is set
  in the status register while the interrupt source of the flag is enabled (PEIE for the
  parity error, EIE for the noise, frame and overrun errors).
\<close>

definition line_errors_detected :: "UART_HandleTypeDef \<Rightarrow> uart_error set" where
  "line_errors_detected huart =
     (if SR_PE \<in> SR (Instance huart) \<and> CR1_PEIE \<in> CR1 (Instance huart)
      then HAL_UART_ERROR_PE else {})
   \<union> (if SR_NE \<in> SR (Instance huart) \<and> CR3_EIE \<in> CR3 (Instance huart)
      then HAL_UART_ERROR_NE else {})
   \<union> (if SR_FE \<in> SR (Instance huart) \<and> CR3_EIE \<in> CR3 (Instance huart)
      then HAL_UART_ERROR_FE else {})
   \<union> (if SR_ORE \<in> SR (Instance huart) \<and> CR3_EIE \<in> CR3 (Instance huart)
      then HAL_UART_ERROR_ORE else {})"

text \<open>
  The handle after the first two steps of the error branch of the handler: the errors
  detected are added to the error code, then a received unit that is flagged and enabled
  is consumed by \<^verbatim>\<open>UART_Receive_IT\<close>.
\<close>

definition after_drain :: "UART_HandleTypeDef \<Rightarrow> UART_HandleTypeDef" where
  "after_drain huart =
     (let huart1 = huart\<lparr>ErrorCode := ErrorCode huart \<union> line_errors_detected huart\<rparr>
      in if SR_RXNE \<in> SR (Instance huart) \<and> CR1_RXNEIE \<in> CR1 (Instance huart)
         then snd (UART_Receive_IT huart1) else huart1)"

text \<open>
  The rest of the error branch, from the comment \<^verbatim>\<open>If Overrun error occurs, or if any
  error occurs in DMA mode reception, consider error as blocking\<close> on.
\<close>

definition error_tail :: "UART_HandleTypeDef \<Rightarrow> UART_HandleTypeDef" where
  "error_tail huart =
     (if ERR_ORE \<in> ErrorCode huart \<or> CR3_DMAR \<in> CR3 (Instance huart) then
        let huart = UART_EndRxTransfer huart in
        if CR3_DMAR \<in> CR3 (Instance huart) then
          let huart = write_CR3 huart (CR3 (Instance huart) - {CR3_DMAR})
          in (case hdmarx huart of
                Some rx \<Rightarrow>
                  let rx = rx\<lparr>XferAbortCallback := Some CB_UART_DMAAbortOnError\<rparr>;
                      (st, rx) = HAL_DMA_Abort_IT rx;
                      huart = huart\<lparr>hdmarx := Some rx\<rparr>
                  in if st \<noteq> HAL_OK then UART_DMAAbortOnError huart else huart
              | None \<Rightarrow> invoke HAL_UART_ErrorCallback huart)
        else invoke HAL_UART_ErrorCallback huart
      else (invoke HAL_UART_ErrorCallback huart)\<lparr>ErrorCode := HAL_UART_ERROR_NONE\<rparr>)"

section \<open>Properties of the transfer engine\<close>

subsection \<open>Starting a transfer\<close>

text \<open>
  C4.  Each of the six transfer-start operations (blocking, interrupt-mode and DMA-mode
  Transmit and Receive), called while the state of its direction (\<open>gState\<close> for Tx,
  \<open>RxState\<close> for Rx) is not Ready, returns Busy and leaves the handle as it was: every
  field, and so the buffer pointers, sizes, counters, both states, the error code and the
  trace of callbacks, is unchanged.
\<close>

theorem busy_start_rejected:
  "(gState huart \<noteq> HAL_UART_STATE_READY \<longrightarrow>
      HAL_UART_Transmit huart pData Size Timeout tick polls = Some (HAL_BUSY, huart, polls)
    \<and> HAL_UART_Transmit_IT huart pData Size = (HAL_BUSY, huart)
    \<and> HAL_UART_Transmit_DMA huart pData Size = Some (HAL_BUSY, huart))
 \<and> (RxState huart \<noteq> HAL_UART_STATE_READY \<longrightarrow>
      HAL_UART_Receive huart pData Size Timeout tick polls = Some (HAL_BUSY, huart, polls)
    \<and> HAL_UART_Receive_IT huart pData Size = (HAL_BUSY, huart)
    \<and> HAL_UART_Receive_DMA huart pData Size = Some (HAL_BUSY, huart))"
  by (simp add: HAL_UART_Transmit_def HAL_UART_Transmit_IT_def HAL_UART_Transmit_DMA_def
      HAL_UART_Receive_def HAL_UART_Receive_IT_def HAL_UART_Receive_DMA_def)

theorem busy_start_rejected_witness:
  "HAL_UART_Transmit huart_busy 0x20000000 4 100 0 [] = Some (HAL_BUSY, huart_busy, [])
   \<and> HAL_UART_Transmit_IT huart_busy 0x20000000 4 = (HAL_BUSY, huart_busy)
   \<and> HAL_UART_Transmit_DMA huart_busy 0x20000000 4 = Some (HAL_BUSY, huart_busy)
   \<and> HAL_UART_Receive huart_busy 0x20000000 4 100 0 [] = Some (HAL_BUSY, huart_busy, [])
   \<and> HAL_UART_Receive_IT huart_busy 0x20000000 4 = (HAL_BUSY, huart_busy)
   \<and> HAL_UART_Receive_DMA huart_busy 0x20000000 4 = Some (HAL_BUSY, huart_busy)
   \<and> trace huart_busy = []"
  using busy_start_rejected [of huart_busy "0x20000000" 4 100 0 "[]"]
  by (simp add: huart_busy_def huart_ready_def)

text \<open>
  C8.  Each of the six transfer-start operations, called while the state of its direction
  is Ready with a null data pointer or a zero length, returns Error at once and leaves
  the handle as it was: the state stays Ready, the buffer pointers, counters and error
  code are untouched, and no callback is recorded.
\<close>

theorem invalid_arguments_rejected:
  assumes "pData = 0 \<or> Size = 0"
  shows "(gState huart = HAL_UART_STATE_READY \<longrightarrow>
      HAL_UART_Transmit huart pData Size Timeout tick polls = Some (HAL_ERROR, huart, polls)
    \<and> HAL_UART_Transmit_IT huart pData Size = (HAL_ERROR, huart)
    \<and> HAL_UART_Transmit_DMA huart pData Size = Some (HAL_ERROR, huart))
 \<and> (RxState huart = HAL_UART_STATE_READY \<longrightarrow>
      HAL_UART_Receive huart pData Size Timeout tick polls = Some (HAL_ERROR, huart, polls)
    \<and> HAL_UART_Receive_IT huart pData Size = (HAL_ERROR, huart)
    \<and> HAL_UART_Receive_DMA huart pData Size = Some (HAL_ERROR, huart))"
  using assms
  by (simp add: HAL_UART_Transmit_def HAL_UART_Transmit_IT_def HAL_UART_Transmit_DMA_def
      HAL_UART_Receive_def HAL_UART_Receive_IT_def HAL_UART_Receive_DMA_def)

theorem invalid_arguments_rejected_witness:
  "HAL_UART_Transmit huart_ready 0 4 100 0 [] = Some (HAL_ERROR, huart_ready, [])
   \<and> HAL_UART_Transmit_IT huart_ready 0 4 = (HAL_ERROR, huart_ready)
   \<and> HAL_UART_Transmit_DMA huart_ready 0 4 = Some (HAL_ERROR, huart_ready)
   \<and> HAL_UART_Receive huart_ready 0 4 100 0 [] = Some (HAL_ERROR, huart_ready, [])
   \<and> HAL_UART_Receive_IT huart_ready 0 4 = (HAL_ERROR, huart_ready)
   \<and> HAL_UART_Receive_DMA huart_ready 0 4 = Some (HAL_ERROR, huart_ready)
   \<and> gState huart_ready = HAL_UART_STATE_READY \<and> RxState huart_ready = HAL_UART_STATE_READY"
  using invalid_arguments_rejected [of 0 4 huart_ready 100 0 "[]"]
  by (simp add: huart_ready_def)

subsection \<open>Initialization\<close>

text \<open>
  C7.  On a handle (a non-null pointer) each of the four initialization variants,
  \<^verbatim>\<open>HAL_UART_Init\<close>, \<^verbatim>\<open>HAL_HalfDuplex_Init\<close>, \<^verbatim>\<open>HAL_LIN_Init\<close> and
  \<^verbatim>\<open>HAL_MultiProcessor_Init\<close>, returns Ok and leaves \<open>gState\<close> and \<open>RxState\<close> Ready
  and the error code None, whatever the configuration and whatever the low-level
  initialization does; on a null pointer each returns Error and there is nothing it
  could change.
\<close>

theorem init_leaves_ready:
  "(\<exists>huart'. HAL_UART_Init MspInit brr (Some huart) = (HAL_OK, Some huart')
      \<and> gState huart' = HAL_UART_STATE_READY \<and> RxState huart' = HAL_UART_STATE_READY
      \<and> ErrorCode huart' = HAL_UART_ERROR_NONE)
\<and> (\<exists>huart'. HAL_HalfDuplex_Init MspInit brr (Some huart) = (HAL_OK, Some huart')
      \<and> gState huart' = HAL_UART_STATE_READY \<and> RxState huart' = HAL_UART_STATE_READY
      \<and> ErrorCode huart' = HAL_UART_ERROR_NONE)
\<and> (\<exists>huart'. HAL_LIN_Init MspInit brr (Some huart) BreakDetectLength = (HAL_OK, Some huart')
      \<and> gState huart' = HAL_UART_STATE_READY \<and> RxState huart' = HAL_UART_STATE_READY
      \<and> ErrorCode huart' = HAL_UART_ERROR_NONE)
\<and> (\<exists>huart'. HAL_MultiProcessor_Init MspInit brr (Some huart) Address WakeUpMethod
        = (HAL_OK, Some huart')
      \<and> gState huart' = HAL_UART_STATE_READY \<and> RxState huart' = HAL_UART_STATE_READY
      \<and> ErrorCode huart' = HAL_UART_ERROR_NONE)
\<and> HAL_UART_Init MspInit brr None = (HAL_ERROR, None)
\<and> HAL_HalfDuplex_Init MspInit brr None = (HAL_ERROR, None)
\<and> HAL_LIN_Init MspInit brr None BreakDetectLength = (HAL_ERROR, None)
\<and> HAL_MultiProcessor_Init MspInit brr None Address WakeUpMethod = (HAL_ERROR, None)"
  by (simp add: HAL_UART_Init_def HAL_HalfDuplex_Init_def HAL_LIN_Init_def
      HAL_MultiProcessor_Init_def Let_def)

subsection \<open>Alignment of the buffer for 9-bit units\<close>

text \<open>
  C9.  With a word length of 9 bits and no parity, \<^verbatim>\<open>HAL_UART_Transmit\<close>,
  \<^verbatim>\<open>HAL_UART_Receive\<close> and \<^verbatim>\<open>HAL_UART_Receive_DMA\<close> reject a data pointer with an
  odd address: they return Error and leave the handle as it was.
  \<^verbatim>\<open>HAL_UART_Transmit_IT\<close>, \<^verbatim>\<open>HAL_UART_Receive_IT\<close> and \<^verbatim>\<open>HAL_UART_Transmit_DMA\<close>
  make no such test: on an unlocked handle they accept the same pointer, return Ok and
  start the transfer on it, and the interrupt-mode unit handlers then read or write a
  16-bit unit at the odd address and advance the pointer by two.
\<close>

theorem alignment_check_9bit:
  assumes w9: "WordLength (Init huart) = UART_WORDLENGTH_9B"
    and np: "Parity (Init huart) = UART_PARITY_NONE"
    and odd: "pData AND 1 \<noteq> 0" and sz: "Size \<noteq> 0"
  shows "(gState huart = HAL_UART_STATE_READY \<longrightarrow>
       HAL_UART_Transmit huart pData Size Timeout tick polls = Some (HAL_ERROR, huart, polls))
   \<and> (RxState huart = HAL_UART_STATE_READY \<longrightarrow>
       HAL_UART_Receive huart pData Size Timeout tick polls = Some (HAL_ERROR, huart, polls)
     \<and> HAL_UART_Receive_DMA huart pData Size = Some (HAL_ERROR, huart))
   \<and> (gState huart = HAL_UART_STATE_READY \<and> Lock huart = HAL_UNLOCKED \<longrightarrow>
       (\<exists>h1 h2. HAL_UART_Transmit_IT huart pData Size = (HAL_OK, h1)
          \<and> pTxBuffPtr h1 = pData \<and> TxXferCount h1 = Size
          \<and> gState h1 = HAL_UART_STATE_BUSY_TX
          \<and> UART_Transmit_IT h1 = (HAL_OK, h2)
          \<and> sent h2 = sent huart @ [ucast (load16 (mem huart) pData AND 0x01FF)]
          \<and> pTxBuffPtr h2 = pData + 2 \<and> TxXferCount h2 = Size - 1))
   \<and> (RxState huart = HAL_UART_STATE_READY \<and> Lock huart = HAL_UNLOCKED \<longrightarrow>
       (\<exists>h1 h2. HAL_UART_Receive_IT huart pData Size = (HAL_OK, h1)
          \<and> pRxBuffPtr h1 = pData \<and> RxXferCount h1 = Size
          \<and> RxState h1 = HAL_UART_STATE_BUSY_RX
          \<and> UART_Receive_IT h1 = (HAL_OK, h2)
          \<and> mem h2 = store16 (mem huart) pData (ucast (DR (Instance huart) AND 0x01FF))
          \<and> pRxBuffPtr h2 = pData + 2 \<and> RxXferCount h2 = Size - 1))
   \<and> (gState huart = HAL_UART_STATE_READY \<and> Lock huart = HAL_UNLOCKED
        \<and> hdmatx huart = Some tx0 \<longrightarrow>
       (\<exists>h1 tx. HAL_UART_Transmit_DMA huart pData Size = Some (HAL_OK, h1)
          \<and> pTxBuffPtr h1 = pData \<and> TxXferCount h1 = Size
          \<and> gState h1 = HAL_UART_STATE_BUSY_TX
          \<and> CR3_DMAT \<in> CR3 (Instance h1)
          \<and> hdmatx h1 = Some tx
          \<and> XferCpltCallback tx = Some CB_UART_DMATransmitCplt
          \<and> (DMA_State tx0 = HAL_DMA_STATE_READY \<longrightarrow>
                DMA_State tx = HAL_DMA_STATE_BUSY \<and> SrcAddress tx = pData
              \<and> DstAddress tx = DR_address (Instance huart) \<and> DataLength tx = Size)))"
proof -
  have nz: "pData \<noteq> 0" using odd by auto
  have tx: "gState huart = HAL_UART_STATE_READY \<longrightarrow>
       HAL_UART_Transmit huart pData Size Timeout tick polls = Some (HAL_ERROR, huart, polls)"
    using w9 np odd by (simp add: HAL_UART_Transmit_def)
  have rx: "RxState huart = HAL_UART_STATE_READY \<longrightarrow>
       HAL_UART_Receive huart pData Size Timeout tick polls = Some (HAL_ERROR, huart, polls)
     \<and> HAL_UART_Receive_DMA huart pData Size = Some (HAL_ERROR, huart)"
    using w9 np odd by (simp add: HAL_UART_Receive_def HAL_UART_Receive_DMA_def)
  have txit: "gState huart = HAL_UART_STATE_READY \<and> Lock huart = HAL_UNLOCKED \<longrightarrow>
       (\<exists>h1 h2. HAL_UART_Transmit_IT huart pData Size = (HAL_OK, h1)
          \<and> pTxBuffPtr h1 = pData \<and> TxXferCount h1 = Size
          \<and> gState h1 = HAL_UART_STATE_BUSY_TX
          \<and> UART_Transmit_IT h1 = (HAL_OK, h2)
          \<and> sent h2 = sent huart @ [ucast (load16 (mem huart) pData AND 0x01FF)]
          \<and> pTxBuffPtr h2 = pData + 2 \<and> TxXferCount h2 = Size - 1)"
    using w9 np nz sz
    by (simp add: HAL_UART_Transmit_IT_def UART_Transmit_IT_def HAL_UNLOCK_def Let_def)
  have rxit: "RxState huart = HAL_UART_STATE_READY \<and> Lock huart = HAL_UNLOCKED \<longrightarrow>
       (\<exists>h1 h2. HAL_UART_Receive_IT huart pData Size = (HAL_OK, h1)
          \<and> pRxBuffPtr h1 = pData \<and> RxXferCount h1 = Size
          \<and> RxState h1 = HAL_UART_STATE_BUSY_RX
          \<and> UART_Receive_IT h1 = (HAL_OK, h2)
          \<and> mem h2 = store16 (mem huart) pData (ucast (DR (Instance huart) AND 0x01FF))
          \<and> pRxBuffPtr h2 = pData + 2 \<and> RxXferCount h2 = Size - 1)"
    using w9 np nz sz
    by (simp add: HAL_UART_Receive_IT_def UART_Receive_IT_def HAL_UNLOCK_def Let_def invoke_def)
  have txdma: "gState huart = HAL_UART_STATE_READY \<and> Lock huart = HAL_UNLOCKED
        \<and> hdmatx huart = Some tx0 \<longrightarrow>
       (\<exists>h1 tx. HAL_UART_Transmit_DMA huart pData Size = Some (HAL_OK, h1)
          \<and> pTxBuffPtr h1 = pData \<and> TxXferCount h1 = Size
          \<and> gState h1 = HAL_UART_STATE_BUSY_TX
          \<and> CR3_DMAT \<in> CR3 (Instance h1)
          \<and> hdmatx h1 = Some tx
          \<and> XferCpltCallback tx = Some CB_UART_DMATransmitCplt
          \<and> (DMA_State tx0 = HAL_DMA_STATE_READY \<longrightarrow>
                DMA_State tx = HAL_DMA_STATE_BUSY \<and> SrcAddress tx = pData
              \<and> DstAddress tx = DR_address (Instance huart) \<and> DataLength tx = Size))"
    using nz sz
    by (auto simp add: HAL_UART_Transmit_DMA_def HAL_UNLOCK_def Let_def HAL_UART_CLEAR_FLAG_def
        HAL_DMA_Start_IT_def)
  from tx rx txit rxit txdma show ?thesis by blast
qed

theorem alignment_check_9bit_witness:
  "HAL_UART_Transmit huart_9bit 0x20000001 4 100 0 [] = Some (HAL_ERROR, huart_9bit, [])
   \<and> HAL_UART_Receive huart_9bit 0x20000001 4 100 0 [] = Some (HAL_ERROR, huart_9bit, [])
   \<and> HAL_UART_Receive_DMA huart_9bit 0x20000001 4 = Some (HAL_ERROR, huart_9bit)
   \<and> fst (HAL_UART_Transmit_IT huart_9bit 0x20000001 4) = HAL_OK
   \<and> fst (HAL_UART_Receive_IT huart_9bit 0x20000001 4) = HAL_OK
   \<and> map_option fst (HAL_UART_Transmit_DMA huart_9bit 0x20000001 4) = Some HAL_OK"
  using alignment_check_9bit [where huart = huart_9bit and pData = "0x20000001" and Size = 4
      and Timeout = 100 and tick = 0 and polls = "[]" and ?tx0.0 = dma_idle]
  by (auto simp add: huart_9bit_def huart_ready_def)

subsection \<open>Blocking abort on a handle that is Ready\<close>

lemma gState_update_same: "gState h = s \<Longrightarrow> h\<lparr>gState := s\<rparr> = h"
  by (cases h) simp

lemma RxState_update_same: "RxState h = s \<Longrightarrow> h\<lparr>RxState := s\<rparr> = h"
  by (cases h) simp

text \<open>
  C6, as amended.  On a handle whose \<open>gState\<close> and \<open>RxState\<close> are Ready and whose
  DMA request bits are disabled, \<^verbatim>\<open>HAL_UART_Abort\<close> returns Ok, zeroes the two transfer
  counters, resets the error code to None, and clears the RXNE, PE, TXE and TC interrupt
  enables of CR1 and the error interrupt enable of CR3; both states stay Ready and every
  other field of the handle is as it was.
\<close>

theorem abort_when_ready:
  assumes "gState huart = HAL_UART_STATE_READY" and "RxState huart = HAL_UART_STATE_READY"
    and "CR3_DMAT \<notin> CR3 (Instance huart)" and "CR3_DMAR \<notin> CR3 (Instance huart)"
  shows "HAL_UART_Abort huart =
    (HAL_OK, huart\<lparr>Instance := (Instance huart)
                \<lparr>CR1 := CR1 (Instance huart) - {CR1_RXNEIE, CR1_PEIE, CR1_TXEIE, CR1_TCIE},
                 CR3 := CR3 (Instance huart) - {CR3_EIE}\<rparr>,
              TxXferCount := 0, RxXferCount := 0, ErrorCode := HAL_UART_ERROR_NONE\<rparr>)"
  using assms
  by (simp add: HAL_UART_Abort_def Let_def gState_update_same RxState_update_same
      insert_commute)

theorem abort_when_ready_witness:
  "HAL_UART_Abort huart_ready_after_overrun = (HAL_OK, huart_ready)"
  using abort_when_ready [of huart_ready_after_overrun]
  by (simp add: huart_ready_after_overrun_def huart_ready_def)

text \<open>
  The claim as stated says that the error code is left unchanged.  On a handle that is
  Ready in both directions with the error code Overrun, as an overrun in an
  interrupt-mode reception leaves it, the abort resets the error code to None.
\<close>

theorem abort_when_ready_counterexample:
  "gState huart_ready_after_overrun = HAL_UART_STATE_READY
   \<and> RxState huart_ready_after_overrun = HAL_UART_STATE_READY
   \<and> CR3_DMAT \<notin> CR3 (Instance huart_ready_after_overrun)
   \<and> CR3_DMAR \<notin> CR3 (Instance huart_ready_after_overrun)
   \<and> fst (HAL_UART_Abort huart_ready_after_overrun) = HAL_OK
   \<and> ErrorCode huart_ready_after_overrun = HAL_UART_ERROR_ORE
   \<and> ErrorCode (snd (HAL_UART_Abort huart_ready_after_overrun)) = HAL_UART_ERROR_NONE
   \<and> ErrorCode (snd (HAL_UART_Abort huart_ready_after_overrun))
        \<noteq> ErrorCode huart_ready_after_overrun"
  by (simp add: HAL_UART_Abort_def Let_def huart_ready_after_overrun_def huart_ready_def)

subsection \<open>Timeouts of the blocking transfers\<close>

lemma hw_step_twice [simp]: "hw_step e (hw_step e' huart) = hw_step e huart"
  by (simp add: hw_step_def)

lemma hw_step_fields [simp]:
  "CR1 (Instance (hw_step e huart)) = CR1 (Instance huart)"
  "CR3 (Instance (hw_step e huart)) = CR3 (Instance huart)"
  "SR (Instance (hw_step e huart)) = obs_SR e"
  "DR (Instance (hw_step e huart)) = obs_DR e"
  "gState (hw_step e huart) = gState huart"
  "RxState (hw_step e huart) = RxState huart"
  "TxXferCount (hw_step e huart) = TxXferCount huart"
  "RxXferCount (hw_step e huart) = RxXferCount huart"
  by (simp_all add: hw_step_def)

lemma wait_restart:
  "UART_WaitOnFlagUntilTimeout (hw_step e' huart) Flag Status Tickstart Timeout polls
   = UART_WaitOnFlagUntilTimeout huart Flag Status Tickstart Timeout polls"
  by (cases polls) simp_all

lemma wait_None_append:
  "UART_WaitOnFlagUntilTimeout huart Flag Status Tickstart Timeout pre = None \<Longrightarrow>
   UART_WaitOnFlagUntilTimeout huart Flag Status Tickstart Timeout (pre @ rest)
   = UART_WaitOnFlagUntilTimeout huart Flag Status Tickstart Timeout rest"
proof (induction pre arbitrary: huart)
  case Nil
  then show ?case by simp
next
  case (Cons e pre)
  from Cons.prems have
    rec: "UART_WaitOnFlagUntilTimeout (hw_step e huart) Flag Status Tickstart Timeout pre = None"
    and go: "(if HAL_UART_GET_FLAG (hw_step e huart) Flag then SET else RESET) = Status"
    and ne: "\<not> (Timeout \<noteq> HAL_MAX_DELAY \<and> (Timeout = 0 \<or> obs_tick e - Tickstart > Timeout))"
    by (auto simp: Let_def split: if_splits)
  from rec have "UART_WaitOnFlagUntilTimeout (hw_step e huart) Flag Status Tickstart Timeout (pre @ rest)
     = UART_WaitOnFlagUntilTimeout (hw_step e huart) Flag Status Tickstart Timeout rest"
    by (rule Cons.IH)
  with go ne show ?case
    by (auto simp add: Let_def wait_restart)
qed

lemma wait_Some_append:
  "UART_WaitOnFlagUntilTimeout huart Flag Status Tickstart Timeout pre = Some (st, huart', r) \<Longrightarrow>
   UART_WaitOnFlagUntilTimeout huart Flag Status Tickstart Timeout (pre @ rest)
   = Some (st, huart', r @ rest)"
proof (induction pre arbitrary: huart)
  case Nil
  then show ?case by simp
next
  case (Cons e pre)
  then show ?case
    by (auto simp: Let_def split: if_splits)
qed

lemma wait_expired:
  assumes "expired Timeout Tickstart e"
    and "(if Flag \<subseteq> obs_SR e then SET else RESET) = Status"
  shows "\<exists>huart'. UART_WaitOnFlagUntilTimeout huart Flag Status Tickstart Timeout (e # polls)
           = Some (HAL_TIMEOUT, huart', polls) \<and> timed_out huart huart'"
  using assms
  by (auto simp: expired_def timed_out_def Let_def HAL_UART_GET_FLAG_def HAL_UNLOCK_def
      Int_absorb1 split: if_splits)

lemma wait_result:
  "UART_WaitOnFlagUntilTimeout huart Flag Status Tickstart Timeout polls = Some (st, huart', polls')
   \<Longrightarrow> (st = HAL_OK \<and> (\<exists>e. huart' = hw_step e huart))
     \<or> (st = HAL_TIMEOUT \<and> timed_out huart huart')"
proof (induction polls arbitrary: huart)
  case Nil
  then show ?case by simp
next
  case (Cons e polls)
  show ?case
  proof (cases "(if HAL_UART_GET_FLAG (hw_step e huart) Flag then SET else RESET) = Status")
    case False
    with Cons.prems show ?thesis by (auto simp: Let_def)
  next
    case go: True
    show ?thesis
    proof (cases "Timeout \<noteq> HAL_MAX_DELAY \<and> (Timeout = 0 \<or> obs_tick e - Tickstart > Timeout)")
      case True
      with go Cons.prems show ?thesis
        by (auto simp: Let_def timed_out_def HAL_UNLOCK_def)
    next
      case False
      with go Cons.prems have
        "UART_WaitOnFlagUntilTimeout (hw_step e huart) Flag Status Tickstart Timeout polls
           = Some (st, huart', polls')"
        by (auto simp: Let_def)
      from Cons.IH [OF this] show ?thesis
        by (auto simp: timed_out_def)
    qed
  qed
qed

lemma timed_out_after_step:
  "CR1 (Instance h1) = CR1 (Instance huart) \<Longrightarrow> CR3 (Instance h1) = CR3 (Instance huart)
   \<Longrightarrow> timed_out h1 huart' \<Longrightarrow> timed_out huart huart'"
  by (simp add: timed_out_def)

lemma transmit_loop_timed_out:
  "HAL_UART_Transmit_loop huart p8 p16 t T polls = Some (HAL_TIMEOUT, huart', polls')
   \<Longrightarrow> timed_out huart huart'"
proof (induction huart p8 p16 t T polls rule: HAL_UART_Transmit_loop.induct)
  case (1 huart p8 p16 t T polls)
  note eq = HAL_UART_Transmit_loop.simps [of huart p8 p16 t T polls]
  show ?case
  proof (cases "TxXferCount huart > 0")
    case sending: True
    with "1.prems" eq obtain st h1 polls1 where
      w: "UART_WaitOnFlagUntilTimeout huart UART_FLAG_TXE RESET t T polls = Some (st, h1, polls1)"
      by (auto split: option.splits)
    from wait_result [OF w] show ?thesis
    proof
      assume ok: "st = HAL_OK \<and> (\<exists>e. h1 = hw_step e huart)"
      then obtain e where h1: "h1 = hw_step e huart" by blast
      show ?thesis
      proof (cases "p8 = 0")
        case True
        with "1.prems" eq sending w ok have
          "HAL_UART_Transmit_loop
             ((write_DR h1 (ucast (load16 (mem h1) p16 AND 0x01FF)))
                \<lparr>TxXferCount := TxXferCount h1 - 1\<rparr>) p8 (p16 + 2) t T polls1
           = Some (HAL_TIMEOUT, huart', polls')"
          by simp
        with "1.IH"(1) sending w ok True have
          "timed_out ((write_DR h1 (ucast (load16 (mem h1) p16 AND 0x01FF)))
                \<lparr>TxXferCount := TxXferCount h1 - 1\<rparr>) huart'"
          by simp
        then show ?thesis
          by (rule timed_out_after_step [rotated 2]) (simp_all add: h1)
      next
        case False
        with "1.prems" eq sending w ok have
          "HAL_UART_Transmit_loop
             ((write_DR h1 (ucast (mem h1 p8 AND 0xFF)))
                \<lparr>TxXferCount := TxXferCount h1 - 1\<rparr>) (p8 + 1) p16 t T polls1
           = Some (HAL_TIMEOUT, huart', polls')"
          by simp
        with "1.IH"(2) sending w ok False have
          "timed_out ((write_DR h1 (ucast (mem h1 p8 AND 0xFF)))
                \<lparr>TxXferCount := TxXferCount h1 - 1\<rparr>) huart'"
          by simp
        then show ?thesis
          by (rule timed_out_after_step [rotated 2]) (simp_all add: h1)
      qed
    next
      assume to: "st = HAL_TIMEOUT \<and> timed_out huart h1"
      with "1.prems" eq sending w show ?thesis by simp
    qed
  next
    case drained: False
    with "1.prems" eq obtain st h1 polls1 where
      w: "UART_WaitOnFlagUntilTimeout huart UART_FLAG_TC RESET t T polls = Some (st, h1, polls1)"
      by (auto split: option.splits)
    from wait_result [OF w] "1.prems" eq drained w show ?thesis
      by (auto simp: Let_def)
  qed
qed

lemma wait_None_flag_clear:
  "UART_WaitOnFlagUntilTimeout huart {b} RESET t T pre = None
   \<Longrightarrow> filter (\<lambda>x. b \<in> obs_SR x) pre = []"
proof (induction pre arbitrary: huart)
  case Nil
  then show ?case by simp
next
  case (Cons e pre)
  then show ?case
    by (auto simp: Let_def HAL_UART_GET_FLAG_def split: if_splits)
qed

lemma wait_OK_flag_seen:
  "UART_WaitOnFlagUntilTimeout huart {b} RESET t T pre = Some (HAL_OK, h1, pre1)
   \<Longrightarrow> length (filter (\<lambda>x. b \<in> obs_SR x) pre)
       = Suc (length (filter (\<lambda>x. b \<in> obs_SR x) pre1))
     \<and> TxXferCount h1 = TxXferCount huart"
proof (induction pre arbitrary: huart)
  case Nil
  then show ?case by simp
next
  case (Cons e pre)
  show ?case
  proof (cases "b \<in> obs_SR e")
    case True
    with Cons.prems show ?thesis
      by (auto simp: Let_def HAL_UART_GET_FLAG_def split: if_splits)
  next
    case False
    with Cons.prems have
      "UART_WaitOnFlagUntilTimeout (hw_step e huart) {b} RESET t T pre = Some (HAL_OK, h1, pre1)"
      by (auto simp: Let_def HAL_UART_GET_FLAG_def split: if_splits)
    from Cons.IH [OF this] False show ?thesis by simp
  qed
qed

lemma awaited_next:
  assumes "TxXferCount huart > 0"
    and "length (filter (\<lambda>x. SR_TXE \<in> obs_SR x) pre)
           = Suc (length (filter (\<lambda>x. SR_TXE \<in> obs_SR x) pre1))"
  shows "awaited (TxXferCount huart - 1) pre1 = awaited (TxXferCount huart) pre"
proof -
  from assms(1) have "TxXferCount huart \<noteq> 0" by auto
  then have "unat (TxXferCount huart - 1) = unat (TxXferCount huart) - 1"
    and "0 < unat (TxXferCount huart)"
    by (simp_all add: unat_minus_one unat_gt_0)
  with assms(2) show ?thesis
    by (auto simp: awaited_def)
qed

lemma transmit_loop_expired:
  "expired T t e \<Longrightarrow> awaited (TxXferCount huart) pre \<notin> obs_SR e
   \<Longrightarrow> HAL_UART_Transmit_loop huart p8 p16 t T pre = None
   \<Longrightarrow> \<exists>huart'. HAL_UART_Transmit_loop huart p8 p16 t T (pre @ e # rest)
                  = Some (HAL_TIMEOUT, huart', rest)"
proof (induction huart p8 p16 t T pre rule: HAL_UART_Transmit_loop.induct)
  case (1 huart p8 p16 t T pre)
  note eq = HAL_UART_Transmit_loop.simps [of huart p8 p16 t T pre]
  note eq' = HAL_UART_Transmit_loop.simps [of huart p8 p16 t T "pre @ e # rest"]
  from "1.prems" have ex: "expired T t e"
    and aw: "awaited (TxXferCount huart) pre \<notin> obs_SR e"
    and none: "HAL_UART_Transmit_loop huart p8 p16 t T pre = None"
    by simp_all
  show ?case
  proof (cases "TxXferCount huart > 0")
    case sending: True
    show ?thesis
    proof (cases "UART_WaitOnFlagUntilTimeout huart UART_FLAG_TXE RESET t T pre")
      case None
      from wait_None_flag_clear [OF None] sending
      have "awaited (TxXferCount huart) pre = SR_TXE"
        by (simp add: awaited_def unat_gt_0 word_gt_0)
      with aw have txe: "SR_TXE \<notin> obs_SR e" by simp
      from wait_None_append [OF None] wait_expired [OF ex, of UART_FLAG_TXE RESET huart rest] txe
      obtain h' where
        "UART_WaitOnFlagUntilTimeout huart UART_FLAG_TXE RESET t T (pre @ e # rest)
           = Some (HAL_TIMEOUT, h', rest)"
        by auto
      with sending eq' show ?thesis by simp
    next
      case (Some r)
      then obtain st h1 pre1 where
        w: "UART_WaitOnFlagUntilTimeout huart UART_FLAG_TXE RESET t T pre = Some (st, h1, pre1)"
        by (cases r) auto
      with none eq sending have ok: "st = HAL_OK"
        by (auto split: if_splits)
      from wait_OK_flag_seen [OF w [unfolded ok]] have
        cnt: "length (filter (\<lambda>x. SR_TXE \<in> obs_SR x) pre)
               = Suc (length (filter (\<lambda>x. SR_TXE \<in> obs_SR x) pre1))"
        and same: "TxXferCount h1 = TxXferCount huart"
        by simp_all
      from awaited_next [OF sending cnt] aw same
      have aw1: "awaited (TxXferCount h1 - 1) pre1 \<notin> obs_SR e" by simp
      from wait_Some_append [OF w] have w':
        "UART_WaitOnFlagUntilTimeout huart UART_FLAG_TXE RESET t T (pre @ e # rest)
           = Some (st, h1, pre1 @ e # rest)" .
      show ?thesis
      proof (cases "p8 = 0")
        case True
        with none eq sending w ok have
          "HAL_UART_Transmit_loop
             ((write_DR h1 (ucast (load16 (mem h1) p16 AND 0x01FF)))
                \<lparr>TxXferCount := TxXferCount h1 - 1\<rparr>) p8 (p16 + 2) t T pre1 = None"
          by simp
        moreover from ok have "\<not> st \<noteq> HAL_OK" by simp
        moreover from aw1 have
          "awaited (TxXferCount ((write_DR h1 (ucast (load16 (mem h1) p16 AND 0x01FF)))
                \<lparr>TxXferCount := TxXferCount h1 - 1\<rparr>)) pre1 \<notin> obs_SR e"
          by simp
        ultimately obtain h' where
          "HAL_UART_Transmit_loop
             ((write_DR h1 (ucast (load16 (mem h1) p16 AND 0x01FF)))
                \<lparr>TxXferCount := TxXferCount h1 - 1\<rparr>) p8 (p16 + 2) t T (pre1 @ e # rest)
           = Some (HAL_TIMEOUT, h', rest)"
          using "1.IH"(1) [OF sending w refl refl _ True ex] by blast
        with eq' sending w' ok True show ?thesis by simp
      next
        case False
        with none eq sending w ok have
          "HAL_UART_Transmit_loop
             ((write_DR h1 (ucast (mem h1 p8 AND 0xFF)))
                \<lparr>TxXferCount := TxXferCount h1 - 1\<rparr>) (p8 + 1) p16 t T pre1 = None"
          by simp
        moreover from ok have "\<not> st \<noteq> HAL_OK" by simp
        moreover from aw1 have
          "awaited (TxXferCount ((write_DR h1 (ucast (mem h1 p8 AND 0xFF)))
                \<lparr>TxXferCount := TxXferCount h1 - 1\<rparr>)) pre1 \<notin> obs_SR e"
          by simp
        ultimately obtain h' where
          "HAL_UART_Transmit_loop
             ((write_DR h1 (ucast (mem h1 p8 AND 0xFF)))
                \<lparr>TxXferCount := TxXferCount h1 - 1\<rparr>) (p8 + 1) p16 t T (pre1 @ e # rest)
           = Some (HAL_TIMEOUT, h', rest)"
          using "1.IH"(2) [OF sending w refl refl _ False ex] by blast
        with eq' sending w' ok False show ?thesis by simp
      qed
    qed
  next
    case drained: False
    then have "awaited (TxXferCount huart) pre = SR_TC"
      by (simp add: awaited_def word_gt_0)
    with aw have tc: "SR_TC \<notin> obs_SR e" by simp
    show ?thesis
    proof (cases "UART_WaitOnFlagUntilTimeout huart UART_FLAG_TC RESET t T pre")
      case None
      from wait_None_append [OF None] wait_expired [OF ex, of UART_FLAG_TC RESET huart rest] tc
      obtain h' where
        "UART_WaitOnFlagUntilTimeout huart UART_FLAG_TC RESET t T (pre @ e # rest)
           = Some (HAL_TIMEOUT, h', rest)"
        by auto
      with drained eq' show ?thesis by simp
    next
      case (Some r)
      with none eq drained show ?thesis
        by (auto simp: Let_def split: if_splits prod.splits)
    qed
  qed
qed

lemma receive_loop_timed_out:
  "HAL_UART_Receive_loop huart p8 p16 t T polls = Some (HAL_TIMEOUT, huart', polls')
   \<Longrightarrow> timed_out huart huart'"
proof (induction huart p8 p16 t T polls rule: HAL_UART_Receive_loop.induct)
  case (1 huart p8 p16 t T polls)
  note eq = HAL_UART_Receive_loop.simps [of huart p8 p16 t T polls]
  show ?case
  proof (cases "RxXferCount huart > 0")
    case receiving: True
    with "1.prems" eq obtain st h1 polls1 where
      w: "UART_WaitOnFlagUntilTimeout huart UART_FLAG_RXNE RESET t T polls = Some (st, h1, polls1)"
      by (auto split: option.splits)
    from wait_result [OF w] show ?thesis
    proof
      assume ok: "st = HAL_OK \<and> (\<exists>e. h1 = hw_step e huart)"
      then obtain e where h1: "h1 = hw_step e huart" by blast
      show ?thesis
      proof (cases "p8 = 0")
        case True
        with "1.prems" eq receiving w ok have
          "HAL_UART_Receive_loop
             (h1\<lparr>mem := store16 (mem h1) p16 (ucast (DR (Instance h1) AND 0x1FF)),
                  RxXferCount := RxXferCount h1 - 1\<rparr>) p8 (p16 + 2) t T polls1
           = Some (HAL_TIMEOUT, huart', polls')"
          by simp
        with "1.IH"(1) receiving w ok True have
          "timed_out (h1\<lparr>mem := store16 (mem h1) p16 (ucast (DR (Instance h1) AND 0x1FF)),
                  RxXferCount := RxXferCount h1 - 1\<rparr>) huart'"
          by simp
        then show ?thesis
          by (rule timed_out_after_step [rotated 2]) (simp_all add: h1)
      next
        case False
        with "1.prems" eq receiving w ok have
          "HAL_UART_Receive_loop
             (h1\<lparr>mem := (mem h1)(p8 := ucast (DR (Instance h1) AND 0xFF)),
                  RxXferCount := RxXferCount h1 - 1\<rparr>) (p8 + 1) p16 t T polls1
           = Some (HAL_TIMEOUT, huart', polls')"
          by simp
        with "1.IH"(2) receiving w ok False have
          "timed_out (h1\<lparr>mem := (mem h1)(p8 := ucast (DR (Instance h1) AND 0xFF)),
                  RxXferCount := RxXferCount h1 - 1\<rparr>) huart'"
          by simp
        then show ?thesis
          by (rule timed_out_after_step [rotated 2]) (simp_all add: h1)
      qed
    next
      assume to: "st = HAL_TIMEOUT \<and> timed_out huart h1"
      with "1.prems" eq receiving w show ?thesis by simp
    qed
  next
    case drained: False
    with "1.prems" eq show ?thesis
      by (simp add: Let_def)
  qed
qed

lemma receive_loop_expired:
  "expired T t e \<Longrightarrow> SR_RXNE \<notin> obs_SR e
   \<Longrightarrow> HAL_UART_Receive_loop huart p8 p16 t T pre = None
   \<Longrightarrow> \<exists>huart'. HAL_UART_Receive_loop huart p8 p16 t T (pre @ e # rest)
                  = Some (HAL_TIMEOUT, huart', rest)"
proof (induction huart p8 p16 t T pre rule: HAL_UART_Receive_loop.induct)
  case (1 huart p8 p16 t T pre)
  note eq = HAL_UART_Receive_loop.simps [of huart p8 p16 t T pre]
  note eq' = HAL_UART_Receive_loop.simps [of huart p8 p16 t T "pre @ e # rest"]
  from "1.prems" have ex: "expired T t e" and rxne: "SR_RXNE \<notin> obs_SR e"
    and none: "HAL_UART_Receive_loop huart p8 p16 t T pre = None"
    by simp_all
  from none eq have receiving: "RxXferCount huart > 0"
    by (auto simp: Let_def split: if_splits)
  show ?case
  proof (cases "UART_WaitOnFlagUntilTimeout huart UART_FLAG_RXNE RESET t T pre")
    case None
    from wait_None_append [OF None] wait_expired [OF ex, of UART_FLAG_RXNE RESET huart rest] rxne
    obtain h' where
      "UART_WaitOnFlagUntilTimeout huart UART_FLAG_RXNE RESET t T (pre @ e # rest)
         = Some (HAL_TIMEOUT, h', rest)"
      by auto
    with receiving eq' show ?thesis by simp
  next
    case (Some r)
    then obtain st h1 pre1 where
      w: "UART_WaitOnFlagUntilTimeout huart UART_FLAG_RXNE RESET t T pre = Some (st, h1, pre1)"
      by (cases r) auto
    with none eq receiving have ok: "st = HAL_OK"
      by (auto split: if_splits)
    from wait_Some_append [OF w] have w':
      "UART_WaitOnFlagUntilTimeout huart UART_FLAG_RXNE RESET t T (pre @ e # rest)
         = Some (st, h1, pre1 @ e # rest)" .
    show ?thesis
    proof (cases "p8 = 0")
      case True
      with none eq receiving w ok have
        "HAL_UART_Receive_loop
           (h1\<lparr>mem := store16 (mem h1) p16 (ucast (DR (Instance h1) AND 0x1FF)),
                RxXferCount := RxXferCount h1 - 1\<rparr>) p8 (p16 + 2) t T pre1 = None"
        by simp
      moreover from ok have "\<not> st \<noteq> HAL_OK" by simp
      ultimately obtain h' where
        "HAL_UART_Receive_loop
           (h1\<lparr>mem := store16 (mem h1) p16 (ucast (DR (Instance h1) AND 0x1FF)),
                RxXferCount := RxXferCount h1 - 1\<rparr>) p8 (p16 + 2) t T (pre1 @ e # rest)
         = Some (HAL_TIMEOUT, h', rest)"
        using "1.IH"(1) [OF receiving w refl refl _ True ex rxne] by blast
      with eq' receiving w' ok True show ?thesis by simp
    next
      case False
      with none eq receiving w ok have
        "HAL_UART_Receive_loop
           (h1\<lparr>mem := (mem h1)(p8 := ucast (DR (Instance h1) AND 0xFF)),
                RxXferCount := RxXferCount h1 - 1\<rparr>) (p8 + 1) p16 t T pre1 = None"
        by simp
      moreover from ok have "\<not> st \<noteq> HAL_OK" by simp
      ultimately obtain h' where
        "HAL_UART_Receive_loop
           (h1\<lparr>mem := (mem h1)(p8 := ucast (DR (Instance h1) AND 0xFF)),
                RxXferCount := RxXferCount h1 - 1\<rparr>) (p8 + 1) p16 t T (pre1 @ e # rest)
         = Some (HAL_TIMEOUT, h', rest)"
        using "1.IH"(2) [OF receiving w refl refl _ False ex rxne] by blast
      with eq' receiving w' ok False show ?thesis by simp
    qed
  qed
qed

lemma transmit_timed_out:
  assumes "HAL_UART_Transmit huart pData Size Timeout tick polls = Some (HAL_TIMEOUT, huart', polls')"
  shows "timed_out huart huart'"
proof -
  from assms obtain p8 p16 where
    "HAL_UART_Transmit_loop
       (huart\<lparr>Lock := HAL_LOCKED, ErrorCode := HAL_UART_ERROR_NONE,
              gState := HAL_UART_STATE_BUSY_TX, TxXferSize := Size, TxXferCount := Size\<rparr>)
       p8 p16 tick Timeout polls = Some (HAL_TIMEOUT, huart', polls')"
    by (auto simp: HAL_UART_Transmit_def Let_def split: if_splits)
  from transmit_loop_timed_out [OF this] show ?thesis
    by (rule timed_out_after_step [rotated 2]) simp_all
qed

lemma receive_timed_out:
  assumes "HAL_UART_Receive huart pData Size Timeout tick polls = Some (HAL_TIMEOUT, huart', polls')"
  shows "timed_out huart huart'"
proof -
  from assms obtain p8 p16 where
    "HAL_UART_Receive_loop
       (huart\<lparr>Lock := HAL_LOCKED, ErrorCode := HAL_UART_ERROR_NONE,
              RxState := HAL_UART_STATE_BUSY_RX, RxXferSize := Size, RxXferCount := Size\<rparr>)
       p8 p16 tick Timeout polls = Some (HAL_TIMEOUT, huart', polls')"
    by (auto simp: HAL_UART_Receive_def Let_def split: if_splits)
  from receive_loop_timed_out [OF this] show ?thesis
    by (rule timed_out_after_step [rotated 2]) simp_all
qed

lemma transmit_expired:
  assumes ex: "expired Timeout tick e" and aw: "awaited Size pre \<notin> obs_SR e"
    and none: "HAL_UART_Transmit huart pData Size Timeout tick pre = None"
  shows "\<exists>huart'. HAL_UART_Transmit huart pData Size Timeout tick (pre @ e # rest)
            = Some (HAL_TIMEOUT, huart', rest) \<and> timed_out huart huart'"
proof -
  let ?h0 = "huart\<lparr>Lock := HAL_LOCKED, ErrorCode := HAL_UART_ERROR_NONE,
              gState := HAL_UART_STATE_BUSY_TX, TxXferSize := Size, TxXferCount := Size\<rparr>"
  from none obtain p8 p16 where
    loop: "HAL_UART_Transmit_loop ?h0 p8 p16 tick Timeout pre = None"
    and unfold: "\<And>polls. HAL_UART_Transmit huart pData Size Timeout tick polls
                  = HAL_UART_Transmit_loop ?h0 p8 p16 tick Timeout polls"
    by (auto simp: HAL_UART_Transmit_def Let_def split: if_splits)
  from aw have aw0: "awaited (TxXferCount ?h0) pre \<notin> obs_SR e" by simp
  from transmit_loop_expired [OF ex aw0 loop, of rest] obtain huart' where
    "HAL_UART_Transmit_loop ?h0 p8 p16 tick Timeout (pre @ e # rest) = Some (HAL_TIMEOUT, huart', rest)"
    by blast
  with unfold have r: "HAL_UART_Transmit huart pData Size Timeout tick (pre @ e # rest)
      = Some (HAL_TIMEOUT, huart', rest)" by simp
  with transmit_timed_out show ?thesis by blast
qed

lemma receive_expired:
  assumes ex: "expired Timeout tick e" and rxne: "SR_RXNE \<notin> obs_SR e"
    and none: "HAL_UART_Receive huart pData Size Timeout tick pre = None"
  shows "\<exists>huart'. HAL_UART_Receive huart pData Size Timeout tick (pre @ e # rest)
            = Some (HAL_TIMEOUT, huart', rest) \<and> timed_out huart huart'"
proof -
  let ?h0 = "huart\<lparr>Lock := HAL_LOCKED, ErrorCode := HAL_UART_ERROR_NONE,
              RxState := HAL_UART_STATE_BUSY_RX, RxXferSize := Size, RxXferCount := Size\<rparr>"
  from none obtain p8 p16 where
    loop: "HAL_UART_Receive_loop ?h0 p8 p16 tick Timeout pre = None"
    and unfold: "\<And>polls. HAL_UART_Receive huart pData Size Timeout tick polls
                  = HAL_UART_Receive_loop ?h0 p8 p16 tick Timeout polls"
    by (auto simp: HAL_UART_Receive_def Let_def split: if_splits)
  from receive_loop_expired [OF ex rxne loop, of rest] obtain huart' where
    "HAL_UART_Receive_loop ?h0 p8 p16 tick Timeout (pre @ e # rest) = Some (HAL_TIMEOUT, huart', rest)"
    by blast
  with unfold have r: "HAL_UART_Receive huart pData Size Timeout tick (pre @ e # rest)
      = Some (HAL_TIMEOUT, huart', rest)" by simp
  with receive_timed_out show ?thesis by blast
qed

text \<open>
  C5, as amended.  Take a blocking Transmit or Receive with a finite timeout that has
  been started and is still polling after the observations \<open>pre\<close>.  If the next poll
  finds the flag the function waits for still clear and the deadline exceeded, the call
  returns Timeout at that poll; both states are Ready, and the TXE, RXNE and PE interrupt
  enables and the error interrupt enable are cleared.  The other interrupt enables, among
  them those of the transmission-complete and idle-line sources, are left as they were.
  The flag Receive waits for is RXNE.  The flag Transmit waits for is TXE while units
  remain to be written and TC after the last unit, whatever the other of the two shows:
  the wait for TC times out also when TXE is set.
\<close>

theorem blocking_timeout:
  assumes fin: "Timeout \<noteq> HAL_MAX_DELAY"
    and late: "Timeout = 0 \<or> obs_tick e - tick > Timeout"
  shows
   "(awaited Size pre \<notin> obs_SR e
       \<and> HAL_UART_Transmit huart pData Size Timeout tick pre = None \<longrightarrow>
      (\<exists>huart'. HAL_UART_Transmit huart pData Size Timeout tick (pre @ e # rest)
                   = Some (HAL_TIMEOUT, huart', rest)
         \<and> gState huart' = HAL_UART_STATE_READY \<and> RxState huart' = HAL_UART_STATE_READY
         \<and> CR1 (Instance huart') = CR1 (Instance huart) - {CR1_RXNEIE, CR1_PEIE, CR1_TXEIE}
         \<and> CR3 (Instance huart') = CR3 (Instance huart) - {CR3_EIE}))
  \<and> (SR_RXNE \<notin> obs_SR e
       \<and> HAL_UART_Receive huart pData Size Timeout tick pre = None \<longrightarrow>
      (\<exists>huart'. HAL_UART_Receive huart pData Size Timeout tick (pre @ e # rest)
                   = Some (HAL_TIMEOUT, huart', rest)
         \<and> gState huart' = HAL_UART_STATE_READY \<and> RxState huart' = HAL_UART_STATE_READY
         \<and> CR1 (Instance huart') = CR1 (Instance huart) - {CR1_RXNEIE, CR1_PEIE, CR1_TXEIE}
         \<and> CR3 (Instance huart') = CR3 (Instance huart) - {CR3_EIE}))"
proof -
  from fin late have ex: "expired Timeout tick e" by (simp add: expired_def)
  have tx: "awaited Size pre \<notin> obs_SR e
       \<and> HAL_UART_Transmit huart pData Size Timeout tick pre = None \<longrightarrow>
      (\<exists>huart'. HAL_UART_Transmit huart pData Size Timeout tick (pre @ e # rest)
                   = Some (HAL_TIMEOUT, huart', rest)
         \<and> gState huart' = HAL_UART_STATE_READY \<and> RxState huart' = HAL_UART_STATE_READY
         \<and> CR1 (Instance huart') = CR1 (Instance huart) - {CR1_RXNEIE, CR1_PEIE, CR1_TXEIE}
         \<and> CR3 (Instance huart') = CR3 (Instance huart) - {CR3_EIE})"
  proof
    assume a: "awaited Size pre \<notin> obs_SR e
       \<and> HAL_UART_Transmit huart pData Size Timeout tick pre = None"
    then have "\<exists>huart'. HAL_UART_Transmit huart pData Size Timeout tick (pre @ e # rest)
            = Some (HAL_TIMEOUT, huart', rest) \<and> timed_out huart huart'"
      by (intro transmit_expired [OF ex]) simp_all
    then show "\<exists>huart'. HAL_UART_Transmit huart pData Size Timeout tick (pre @ e # rest)
                   = Some (HAL_TIMEOUT, huart', rest)
         \<and> gState huart' = HAL_UART_STATE_READY \<and> RxState huart' = HAL_UART_STATE_READY
         \<and> CR1 (Instance huart') = CR1 (Instance huart) - {CR1_RXNEIE, CR1_PEIE, CR1_TXEIE}
         \<and> CR3 (Instance huart') = CR3 (Instance huart) - {CR3_EIE}"
      unfolding timed_out_def by blast
  qed
  have rx: "SR_RXNE \<notin> obs_SR e
       \<and> HAL_UART_Receive huart pData Size Timeout tick pre = None \<longrightarrow>
      (\<exists>huart'. HAL_UART_Receive huart pData Size Timeout tick (pre @ e # rest)
                   = Some (HAL_TIMEOUT, huart', rest)
         \<and> gState huart' = HAL_UART_STATE_READY \<and> RxState huart' = HAL_UART_STATE_READY
         \<and> CR1 (Instance huart') = CR1 (Instance huart) - {CR1_RXNEIE, CR1_PEIE, CR1_TXEIE}
         \<and> CR3 (Instance huart') = CR3 (Instance huart) - {CR3_EIE})"
  proof
    assume a: "SR_RXNE \<notin> obs_SR e
       \<and> HAL_UART_Receive huart pData Size Timeout tick pre = None"
    then have "\<exists>huart'. HAL_UART_Receive huart pData Size Timeout tick (pre @ e # rest)
            = Some (HAL_TIMEOUT, huart', rest) \<and> timed_out huart huart'"
      by (intro receive_expired [OF ex]) simp_all
    then show "\<exists>huart'. HAL_UART_Receive huart pData Size Timeout tick (pre @ e # rest)
                   = Some (HAL_TIMEOUT, huart', rest)
         \<and> gState huart' = HAL_UART_STATE_READY \<and> RxState huart' = HAL_UART_STATE_READY
         \<and> CR1 (Instance huart') = CR1 (Instance huart) - {CR1_RXNEIE, CR1_PEIE, CR1_TXEIE}
         \<and> CR3 (Instance huart') = CR3 (Instance huart) - {CR3_EIE}"
      unfolding timed_out_def by blast
  qed
  from tx rx show ?thesis ..
qed

text \<open>
  The theorem at work on a Transmit of one unit started at tick 100 with a timeout of 10
  ticks.  The first poll, in time, finds TXE set, so the unit is written and the function
  goes on to wait for TC.  The next poll comes after the deadline and finds TXE set and
  TC clear: the call returns Timeout.  A Receive that has made the same polls times out
  as well, and so do a Transmit and a Receive whose first poll comes after the deadline
  with no flag set.
\<close>

theorem blocking_timeout_witness:
  "HAL_UART_Transmit huart_ready 0x20000000 1 10 100 [in_time] = None
   \<and> awaited 1 [in_time] = SR_TC \<and> SR_TXE \<in> obs_SR late_TXE
   \<and> map_option fst (HAL_UART_Transmit huart_ready 0x20000000 1 10 100 [in_time, late_TXE])
        = Some HAL_TIMEOUT
   \<and> HAL_UART_Receive huart_ready 0x20000000 1 10 100 [in_time] = None
   \<and> map_option fst (HAL_UART_Receive huart_ready 0x20000000 1 10 100 [in_time, late_TXE])
        = Some HAL_TIMEOUT
   \<and> HAL_UART_Transmit huart_ready 0x20000000 4 10 100 [] = None
   \<and> map_option fst (HAL_UART_Transmit huart_ready 0x20000000 4 10 100 [late]) = Some HAL_TIMEOUT
   \<and> HAL_UART_Receive huart_ready 0x20000000 4 10 100 [] = None
   \<and> map_option fst (HAL_UART_Receive huart_ready 0x20000000 4 10 100 [late]) = Some HAL_TIMEOUT"
proof -
  have t1: "HAL_UART_Transmit huart_ready 0x20000000 1 10 100 [in_time] = None"
    by (simp add: HAL_UART_Transmit_def huart_ready_def HAL_UART_Transmit_loop.simps Let_def
        in_time_def HAL_UART_GET_FLAG_def HAL_MAX_DELAY_def hw_step_def write_DR_def)
  have r1: "HAL_UART_Receive huart_ready 0x20000000 1 10 100 [in_time] = None"
    by (simp add: HAL_UART_Receive_def huart_ready_def HAL_UART_Receive_loop.simps Let_def
        in_time_def HAL_UART_GET_FLAG_def HAL_MAX_DELAY_def hw_step_def)
  have aw1: "awaited 1 [in_time] = SR_TC"
    by (simp add: awaited_def in_time_def)
  have t: "HAL_UART_Transmit huart_ready 0x20000000 4 10 100 [] = None"
    by (simp add: HAL_UART_Transmit_def huart_ready_def HAL_UART_Transmit_loop.simps Let_def)
  have r: "HAL_UART_Receive huart_ready 0x20000000 4 10 100 [] = None"
    by (simp add: HAL_UART_Receive_def huart_ready_def HAL_UART_Receive_loop.simps Let_def)
  have aw: "awaited 4 [] = SR_TXE"
    by (simp add: awaited_def)
  have fin: "(10 :: 32 word) \<noteq> HAL_MAX_DELAY" by (simp add: HAL_MAX_DELAY_def)
  have exc1: "(10 :: 32 word) = 0 \<or> obs_tick late_TXE - 100 > 10" by (simp add: late_TXE_def)
  have exc: "(10 :: 32 word) = 0 \<or> obs_tick late - 100 > 10" by (simp add: late_def)
  from blocking_timeout [OF fin exc1, of 1 "[in_time]" huart_ready "0x20000000" "[]"] t1 r1 aw1
  have one: "map_option fst (HAL_UART_Transmit huart_ready 0x20000000 1 10 100 [in_time, late_TXE])
        = Some HAL_TIMEOUT
     \<and> map_option fst (HAL_UART_Receive huart_ready 0x20000000 1 10 100 [in_time, late_TXE])
        = Some HAL_TIMEOUT"
    by (auto simp: late_TXE_def)
  from blocking_timeout [OF fin exc, of 4 "[]" huart_ready "0x20000000" "[]"] t r aw
  have four: "map_option fst (HAL_UART_Transmit huart_ready 0x20000000 4 10 100 [late])
        = Some HAL_TIMEOUT
     \<and> map_option fst (HAL_UART_Receive huart_ready 0x20000000 4 10 100 [late])
        = Some HAL_TIMEOUT"
    by (auto simp: late_def)
  from t1 aw1 one r1 t four r show ?thesis
    by (simp add: late_TXE_def)
qed

text \<open>
  The claim as stated says that after a timeout no interrupt source remains enabled.  On
  a handle whose interrupt-mode transmission waits for the transmission-complete
  interrupt, a blocking Receive that times out leaves that interrupt source enabled.
\<close>

theorem blocking_timeout_counterexample:
  "map_option fst (HAL_UART_Receive huart_tc_pending 0x20000000 4 10 100 [late]) = Some HAL_TIMEOUT
   \<and> CR1_TCIE \<in> CR1 (Instance (fst (snd (the
         (HAL_UART_Receive huart_tc_pending 0x20000000 4 10 100 [late])))))"
  by (simp add: HAL_UART_Receive_def huart_tc_pending_def huart_ready_def
      HAL_UART_Receive_loop.simps Let_def late_def HAL_MAX_DELAY_def HAL_UART_GET_FLAG_def
      hw_step_def HAL_UNLOCK_def)

text \<open>
  C10, as amended.  The timeout branch of \<^verbatim>\<open>UART_WaitOnFlagUntilTimeout\<close> does not look
  at the direction it serves: it sets both \<open>gState\<close> and \<open>RxState\<close> to Ready and
  clears the TXE, RXNE, PE and error interrupt enables, and nothing else of CR1 and CR3.
  So whenever a blocking Transmit returns Timeout the receive state is Ready and the
  RXNE, PE and error interrupt sources of a reception in progress are disabled, and
  whenever a blocking Receive returns Timeout the transmit state is Ready and the TXE
  interrupt source of a transmission in progress is disabled; the transmission-complete
  interrupt source of a transmission that has written its last unit stays as it was.
\<close>

theorem timeout_resets_both_directions:
  "(Timeout \<noteq> HAL_MAX_DELAY \<and> (Timeout = 0 \<or> obs_tick e - Tickstart > Timeout)
      \<and> (if Flag \<subseteq> obs_SR e then SET else RESET) = Status \<longrightarrow>
      (\<exists>huart'. UART_WaitOnFlagUntilTimeout huart Flag Status Tickstart Timeout (e # polls)
                   = Some (HAL_TIMEOUT, huart', polls)
         \<and> gState huart' = HAL_UART_STATE_READY \<and> RxState huart' = HAL_UART_STATE_READY
         \<and> CR1 (Instance huart') = CR1 (Instance huart) - {CR1_RXNEIE, CR1_PEIE, CR1_TXEIE}
         \<and> CR3 (Instance huart') = CR3 (Instance huart) - {CR3_EIE}))
  \<and> (HAL_UART_Transmit huart pData Size Timeout tick polls = Some (HAL_TIMEOUT, huart', polls')
       \<longrightarrow> gState huart' = HAL_UART_STATE_READY \<and> RxState huart' = HAL_UART_STATE_READY
         \<and> CR1_RXNEIE \<notin> CR1 (Instance huart') \<and> CR1_PEIE \<notin> CR1 (Instance huart')
         \<and> CR3_EIE \<notin> CR3 (Instance huart')
         \<and> CR1 (Instance huart') = CR1 (Instance huart) - {CR1_RXNEIE, CR1_PEIE, CR1_TXEIE}
         \<and> CR3 (Instance huart') = CR3 (Instance huart) - {CR3_EIE})
  \<and> (HAL_UART_Receive huart pData Size Timeout tick polls = Some (HAL_TIMEOUT, huart', polls')
       \<longrightarrow> gState huart' = HAL_UART_STATE_READY \<and> RxState huart' = HAL_UART_STATE_READY
         \<and> CR1_TXEIE \<notin> CR1 (Instance huart')
         \<and> (CR1_TCIE \<in> CR1 (Instance huart')) = (CR1_TCIE \<in> CR1 (Instance huart))
         \<and> CR1 (Instance huart') = CR1 (Instance huart) - {CR1_RXNEIE, CR1_PEIE, CR1_TXEIE}
         \<and> CR3 (Instance huart') = CR3 (Instance huart) - {CR3_EIE})"
proof -
  have helper: "Timeout \<noteq> HAL_MAX_DELAY \<and> (Timeout = 0 \<or> obs_tick e - Tickstart > Timeout)
      \<and> (if Flag \<subseteq> obs_SR e then SET else RESET) = Status \<longrightarrow>
      (\<exists>huart'. UART_WaitOnFlagUntilTimeout huart Flag Status Tickstart Timeout (e # polls)
                   = Some (HAL_TIMEOUT, huart', polls)
         \<and> gState huart' = HAL_UART_STATE_READY \<and> RxState huart' = HAL_UART_STATE_READY
         \<and> CR1 (Instance huart') = CR1 (Instance huart) - {CR1_RXNEIE, CR1_PEIE, CR1_TXEIE}
         \<and> CR3 (Instance huart') = CR3 (Instance huart) - {CR3_EIE})"
  proof
    assume a: "Timeout \<noteq> HAL_MAX_DELAY \<and> (Timeout = 0 \<or> obs_tick e - Tickstart > Timeout)
      \<and> (if Flag \<subseteq> obs_SR e then SET else RESET) = Status"
    then have "expired Timeout Tickstart e" by (simp add: expired_def)
    from wait_expired [OF this, of Flag Status huart polls] a obtain h where
      "UART_WaitOnFlagUntilTimeout huart Flag Status Tickstart Timeout (e # polls)
         = Some (HAL_TIMEOUT, h, polls)" and "timed_out huart h"
      by blast
    then show "\<exists>huart'. UART_WaitOnFlagUntilTimeout huart Flag Status Tickstart Timeout (e # polls)
                   = Some (HAL_TIMEOUT, huart', polls)
         \<and> gState huart' = HAL_UART_STATE_READY \<and> RxState huart' = HAL_UART_STATE_READY
         \<and> CR1 (Instance huart') = CR1 (Instance huart) - {CR1_RXNEIE, CR1_PEIE, CR1_TXEIE}
         \<and> CR3 (Instance huart') = CR3 (Instance huart) - {CR3_EIE}"
      by (intro exI [of _ h]) (simp add: timed_out_def)
  qed
  have tx: "HAL_UART_Transmit huart pData Size Timeout tick polls = Some (HAL_TIMEOUT, huart', polls')
       \<longrightarrow> gState huart' = HAL_UART_STATE_READY \<and> RxState huart' = HAL_UART_STATE_READY
         \<and> CR1_RXNEIE \<notin> CR1 (Instance huart') \<and> CR1_PEIE \<notin> CR1 (Instance huart')
         \<and> CR3_EIE \<notin> CR3 (Instance huart')
         \<and> CR1 (Instance huart') = CR1 (Instance huart) - {CR1_RXNEIE, CR1_PEIE, CR1_TXEIE}
         \<and> CR3 (Instance huart') = CR3 (Instance huart) - {CR3_EIE}"
    using transmit_timed_out [of huart pData Size Timeout tick polls huart' polls']
    by (simp add: timed_out_def)
  have rx: "HAL_UART_Receive huart pData Size Timeout tick polls = Some (HAL_TIMEOUT, huart', polls')
       \<longrightarrow> gState huart' = HAL_UART_STATE_READY \<and> RxState huart' = HAL_UART_STATE_READY
         \<and> CR1_TXEIE \<notin> CR1 (Instance huart')
         \<and> (CR1_TCIE \<in> CR1 (Instance huart')) = (CR1_TCIE \<in> CR1 (Instance huart))
         \<and> CR1 (Instance huart') = CR1 (Instance huart) - {CR1_RXNEIE, CR1_PEIE, CR1_TXEIE}
         \<and> CR3 (Instance huart') = CR3 (Instance huart) - {CR3_EIE}"
    using receive_timed_out [of huart pData Size Timeout tick polls huart' polls']
    by (simp add: timed_out_def)
  from helper tx rx show ?thesis by blast
qed

theorem timeout_resets_both_directions_witness:
  "RxState huart_rx_it = HAL_UART_STATE_BUSY_RX
   \<and> CR1_RXNEIE \<in> CR1 (Instance huart_rx_it) \<and> CR1_PEIE \<in> CR1 (Instance huart_rx_it)
   \<and> CR3_EIE \<in> CR3 (Instance huart_rx_it)
   \<and> map_option fst (HAL_UART_Transmit huart_rx_it 0x20000000 4 10 100 [late]) = Some HAL_TIMEOUT
   \<and> RxState (fst (snd (the (HAL_UART_Transmit huart_rx_it 0x20000000 4 10 100 [late]))))
        = HAL_UART_STATE_READY
   \<and> CR1_RXNEIE \<notin> CR1 (Instance (fst (snd (the
         (HAL_UART_Transmit huart_rx_it 0x20000000 4 10 100 [late])))))
   \<and> CR3_EIE \<notin> CR3 (Instance (fst (snd (the
         (HAL_UART_Transmit huart_rx_it 0x20000000 4 10 100 [late])))))"
proof -
  have none: "HAL_UART_Transmit huart_rx_it 0x20000000 4 10 100 [] = None"
    by (simp add: HAL_UART_Transmit_def huart_rx_it_def huart_ready_def
        HAL_UART_Transmit_loop.simps Let_def)
  have ex: "expired 10 100 late"
    by (simp add: expired_def late_def HAL_MAX_DELAY_def)
  from transmit_expired [OF ex _ none, of "[]"] obtain h where
    run: "HAL_UART_Transmit huart_rx_it 0x20000000 4 10 100 [late] = Some (HAL_TIMEOUT, h, [])"
    by (auto simp: late_def awaited_def)
  from timeout_resets_both_directions
         [where Timeout = 10 and huart = huart_rx_it and pData = "0x20000000" and Size = 4
            and tick = 100 and polls = "[late]" and huart' = h and polls' = "[]"]
       run
  show ?thesis
    by (simp add: huart_rx_it_def huart_ready_def)
qed

text \<open>
  The claim as stated says that the timeout disables the interrupt sources of a transfer
  in progress in the other direction.  On a handle whose interrupt-mode transmission
  waits for the transmission-complete interrupt, a blocking Receive that times out sets
  \<open>gState\<close> to Ready and leaves that interrupt source enabled: the next
  transmission-complete interrupt still ends the transmission and invokes the
  transmit-complete callback.
\<close>

theorem timeout_resets_both_directions_counterexample:
  "gState huart_tc_pending = HAL_UART_STATE_BUSY_TX
   \<and> CR1_TCIE \<in> CR1 (Instance huart_tc_pending)
   \<and> map_option fst (HAL_UART_Receive huart_tc_pending 0x20000000 4 0 100 [late]) = Some HAL_TIMEOUT
   \<and> gState (fst (snd (the (HAL_UART_Receive huart_tc_pending 0x20000000 4 0 100 [late]))))
        = HAL_UART_STATE_READY
   \<and> CR1_TCIE \<in> CR1 (Instance (fst (snd (the
         (HAL_UART_Receive huart_tc_pending 0x20000000 4 0 100 [late])))))
   \<and> map fst (trace (HAL_UART_IRQHandler
         ((fst (snd (the (HAL_UART_Receive huart_tc_pending 0x20000000 4 0 100 [late]))))
            \<lparr>Instance := (Instance (fst (snd (the
                 (HAL_UART_Receive huart_tc_pending 0x20000000 4 0 100 [late])))))
               \<lparr>SR := {SR_TC}\<rparr>\<rparr>)))
        = [HAL_UART_TxCpltCallback]"
  by (simp add: HAL_UART_Receive_def huart_tc_pending_def huart_ready_def
      HAL_UART_Receive_loop.simps Let_def late_def HAL_MAX_DELAY_def HAL_UART_GET_FLAG_def
      hw_step_def HAL_UNLOCK_def HAL_UART_IRQHandler_def UART_EndTransmit_IT_def invoke_def)

subsection \<open>The abort join\<close>

lemma Diff_Diff_Un: "A - B - C = A - (B \<union> C)"
  by blast

lemma abort_it_arms_both:
  assumes "hdmatx huart = Some tx" and "hdmarx huart = Some rx"
    and "DMA_State tx = HAL_DMA_STATE_BUSY" and "DMA_State rx = HAL_DMA_STATE_BUSY"
    and "CR3_DMAT \<in> CR3 (Instance huart)" and "CR3_DMAR \<in> CR3 (Instance huart)"
  shows "HAL_UART_Abort_IT huart =
    (HAL_OK, huart\<lparr>Instance := (Instance huart)
                 \<lparr>CR1 := CR1 (Instance huart) - {CR1_RXNEIE, CR1_PEIE, CR1_TXEIE, CR1_TCIE},
                  CR3 := CR3 (Instance huart) - {CR3_EIE, CR3_DMAT, CR3_DMAR}\<rparr>,
               hdmatx := Some (tx\<lparr>XferAbortCallback := Some CB_UART_DMATxAbortCallback,
                                   AbortScheduled := True\<rparr>),
               hdmarx := Some (rx\<lparr>XferAbortCallback := Some CB_UART_DMARxAbortCallback,
                                   AbortScheduled := True\<rparr>)\<rparr>)"
  using assms
  by (simp add: HAL_UART_Abort_IT_def HAL_DMA_Abort_IT_def Let_def insert_commute
      Diff_Diff_Un)

lemma tx_abort_first:
  assumes "hdmatx h = Some tx" and "hdmarx h = Some rx"
    and "XferAbortCallback tx = Some CB_UART_DMATxAbortCallback"
    and "XferAbortCallback rx = Some CB_UART_DMARxAbortCallback"
    and "AbortScheduled tx"
  shows "DMA_AbortCplt TxChannel h =
           Some (h\<lparr>hdmatx := Some (tx\<lparr>AbortScheduled := False,
                      DMA_State := HAL_DMA_STATE_READY, XferAbortCallback := None\<rparr>)\<rparr>)"
  using assms by (simp add: DMA_AbortCplt_def UART_DMATxAbortCallback_def Let_def)

lemma rx_abort_first:
  assumes "hdmatx h = Some tx" and "hdmarx h = Some rx"
    and "XferAbortCallback tx = Some CB_UART_DMATxAbortCallback"
    and "XferAbortCallback rx = Some CB_UART_DMARxAbortCallback"
    and "AbortScheduled rx"
  shows "DMA_AbortCplt RxChannel h =
           Some (h\<lparr>hdmarx := Some (rx\<lparr>AbortScheduled := False,
                      DMA_State := HAL_DMA_STATE_READY, XferAbortCallback := None\<rparr>)\<rparr>)"
  using assms by (simp add: DMA_AbortCplt_def UART_DMARxAbortCallback_def Let_def)

lemma tx_abort_last:
  assumes "hdmatx h = Some tx" and "hdmarx h = Some rx"
    and "XferAbortCallback tx = Some CB_UART_DMATxAbortCallback"
    and "XferAbortCallback rx = None"
    and "AbortScheduled tx"
  shows "\<exists>h'. DMA_AbortCplt TxChannel h = Some h'
           \<and> trace h' = trace h @ [(HAL_UART_AbortCpltCallback, joined)]
           \<and> gState h' = HAL_UART_STATE_READY \<and> RxState h' = HAL_UART_STATE_READY
           \<and> ErrorCode h' = HAL_UART_ERROR_NONE \<and> TxXferCount h' = 0 \<and> RxXferCount h' = 0
           \<and> hdmatx h' = Some (tx\<lparr>AbortScheduled := False,
                      DMA_State := HAL_DMA_STATE_READY, XferAbortCallback := None\<rparr>)
           \<and> hdmarx h' = Some rx"
  using assms
  by (simp add: DMA_AbortCplt_def UART_DMATxAbortCallback_def Let_def invoke_def snap_def
      joined_def)

lemma rx_abort_last:
  assumes "hdmatx h = Some tx" and "hdmarx h = Some rx"
    and "XferAbortCallback rx = Some CB_UART_DMARxAbortCallback"
    and "XferAbortCallback tx = None"
    and "AbortScheduled rx"
  shows "\<exists>h'. DMA_AbortCplt RxChannel h = Some h'
           \<and> trace h' = trace h @ [(HAL_UART_AbortCpltCallback, joined)]
           \<and> gState h' = HAL_UART_STATE_READY \<and> RxState h' = HAL_UART_STATE_READY
           \<and> ErrorCode h' = HAL_UART_ERROR_NONE \<and> TxXferCount h' = 0 \<and> RxXferCount h' = 0
           \<and> hdmarx h' = Some (rx\<lparr>AbortScheduled := False,
                      DMA_State := HAL_DMA_STATE_READY, XferAbortCallback := None\<rparr>)
           \<and> hdmatx h' = Some tx"
  using assms
  by (simp add: DMA_AbortCplt_def UART_DMARxAbortCallback_def Let_def invoke_def snap_def
      joined_def)

lemma no_abort_scheduled:
  assumes "hdmatx h = Some tx" and "hdmarx h = Some rx"
    and "\<not> AbortScheduled tx" and "\<not> AbortScheduled rx"
  shows "DMA_AbortCplt ch h = Some h"
  using assms by (cases ch) (simp_all add: DMA_AbortCplt_def)

text \<open>
  C1.  Take a handle with a Tx DMA channel and an Rx DMA channel that both serve a
  transfer (both request bits set, both channels busy).  \<^verbatim>\<open>HAL_UART_Abort_IT\<close> returns
  Ok, arms \<^verbatim>\<open>UART_DMATxAbortCallback\<close> and \<^verbatim>\<open>UART_DMARxAbortCallback\<close> on the two
  channels and invokes no user callback.  When the abort of one channel completes, and
  however often that channel reports again, still no user callback has been invoked.
  When the abort of the other channel completes too, in either order, the abort-complete
  callback is invoked, once, on a handle whose two states are Ready, whose error code is
  None and whose two counters are zero; nothing that the channels report afterwards
  changes the handle or invokes a callback again.
\<close>

theorem abort_join:
  assumes tx: "hdmatx huart = Some tx" and rx: "hdmarx huart = Some rx"
    and txb: "DMA_State tx = HAL_DMA_STATE_BUSY" and rxb: "DMA_State rx = HAL_DMA_STATE_BUSY"
    and dmat: "CR3_DMAT \<in> CR3 (Instance huart)" and dmar: "CR3_DMAR \<in> CR3 (Instance huart)"
  shows "\<exists>h0 h1 h2 h1' h2'.
      HAL_UART_Abort_IT huart = (HAL_OK, h0) \<and> trace h0 = trace huart
    \<and> map_option XferAbortCallback (hdmatx h0) = Some (Some CB_UART_DMATxAbortCallback)
    \<and> map_option XferAbortCallback (hdmarx h0) = Some (Some CB_UART_DMARxAbortCallback)
    \<and> DMA_AbortCplt TxChannel h0 = Some h1 \<and> trace h1 = trace huart
    \<and> DMA_AbortCplt TxChannel h1 = Some h1
    \<and> DMA_AbortCplt RxChannel h1 = Some h2
    \<and> trace h2 = trace huart @ [(HAL_UART_AbortCpltCallback, joined)]
    \<and> DMA_AbortCplt RxChannel h0 = Some h1' \<and> trace h1' = trace huart
    \<and> DMA_AbortCplt RxChannel h1' = Some h1'
    \<and> DMA_AbortCplt TxChannel h1' = Some h2'
    \<and> trace h2' = trace huart @ [(HAL_UART_AbortCpltCallback, joined)]
    \<and> (\<forall>ch. DMA_AbortCplt ch h2 = Some h2) \<and> (\<forall>ch. DMA_AbortCplt ch h2' = Some h2')"
proof -
  let ?tx0 = "tx\<lparr>XferAbortCallback := Some CB_UART_DMATxAbortCallback, AbortScheduled := True\<rparr>"
  let ?rx0 = "rx\<lparr>XferAbortCallback := Some CB_UART_DMARxAbortCallback, AbortScheduled := True\<rparr>"
  let ?tx1 = "?tx0\<lparr>AbortScheduled := False, DMA_State := HAL_DMA_STATE_READY,
                     XferAbortCallback := None\<rparr>"
  let ?rx1 = "?rx0\<lparr>AbortScheduled := False, DMA_State := HAL_DMA_STATE_READY,
                     XferAbortCallback := None\<rparr>"
  obtain h0 where h0: "HAL_UART_Abort_IT huart = (HAL_OK, h0)"
    and t0: "trace h0 = trace huart"
    and tx0: "hdmatx h0 = Some ?tx0" and rx0: "hdmarx h0 = Some ?rx0"
    using abort_it_arms_both [OF tx rx txb rxb dmat dmar] by simp
  define h1 where "h1 = h0\<lparr>hdmatx := Some ?tx1\<rparr>"
  define h1' where "h1' = h0\<lparr>hdmarx := Some ?rx1\<rparr>"
  have s1: "DMA_AbortCplt TxChannel h0 = Some h1"
    unfolding h1_def by (rule tx_abort_first [OF tx0 rx0]) simp_all
  have s1': "DMA_AbortCplt RxChannel h0 = Some h1'"
    unfolding h1'_def by (rule rx_abort_first [OF tx0 rx0]) simp_all
  have tx1: "hdmatx h1 = Some ?tx1" and rx1: "hdmarx h1 = Some ?rx0"
    and t1: "trace h1 = trace huart"
    using rx0 t0 by (simp_all add: h1_def)
  have tx1': "hdmatx h1' = Some ?tx0" and rx1': "hdmarx h1' = Some ?rx1"
    and t1': "trace h1' = trace huart"
    using tx0 t0 by (simp_all add: h1'_def)
  have again: "DMA_AbortCplt TxChannel h1 = Some h1"
    using tx1 by (simp add: DMA_AbortCplt_def)
  have again': "DMA_AbortCplt RxChannel h1' = Some h1'"
    using rx1' by (simp add: DMA_AbortCplt_def)
  from rx_abort_last [OF tx1 rx1] obtain h2 where
    s2: "DMA_AbortCplt RxChannel h1 = Some h2"
    and t2: "trace h2 = trace h1 @ [(HAL_UART_AbortCpltCallback, joined)]"
    and tx2: "hdmatx h2 = Some ?tx1" and rx2: "hdmarx h2 = Some ?rx1"
    by auto
  from tx_abort_last [OF tx1' rx1'] obtain h2' where
    s2': "DMA_AbortCplt TxChannel h1' = Some h2'"
    and t2': "trace h2' = trace h1' @ [(HAL_UART_AbortCpltCallback, joined)]"
    and tx2': "hdmatx h2' = Some ?tx1" and rx2': "hdmarx h2' = Some ?rx1"
    by auto
  have idle: "\<forall>ch. DMA_AbortCplt ch h2 = Some h2"
    using no_abort_scheduled [OF tx2 rx2] by simp
  have idle': "\<forall>ch. DMA_AbortCplt ch h2' = Some h2'"
    using no_abort_scheduled [OF tx2' rx2'] by simp
  from h0 t0 tx0 rx0 s1 t1 again s2 t2 s1' t1' again' s2' t2' idle idle'
  show ?thesis
    by (intro exI [of _ h0] exI [of _ h1] exI [of _ h2] exI [of _ h1'] exI [of _ h2']) simp
qed

theorem abort_join_witness:
  "fst (HAL_UART_Abort_IT huart_dma_both) = HAL_OK
   \<and> trace (snd (HAL_UART_Abort_IT huart_dma_both)) = []
   \<and> map_option trace (DMA_AbortCplt TxChannel (snd (HAL_UART_Abort_IT huart_dma_both))) = Some []
   \<and> map_option trace (DMA_AbortCplt RxChannel (snd (HAL_UART_Abort_IT huart_dma_both))) = Some []
   \<and> map_option trace
        (Option.bind (DMA_AbortCplt TxChannel (snd (HAL_UART_Abort_IT huart_dma_both)))
           (DMA_AbortCplt RxChannel))
      = Some [(HAL_UART_AbortCpltCallback, joined)]
   \<and> map_option trace
        (Option.bind (DMA_AbortCplt RxChannel (snd (HAL_UART_Abort_IT huart_dma_both)))
           (DMA_AbortCplt TxChannel))
      = Some [(HAL_UART_AbortCpltCallback, joined)]"
proof -
  have "hdmatx huart_dma_both = Some dma_busy" and "hdmarx huart_dma_both = Some dma_busy"
    and "DMA_State dma_busy = HAL_DMA_STATE_BUSY"
    and "CR3_DMAT \<in> CR3 (Instance huart_dma_both)"
    and "CR3_DMAR \<in> CR3 (Instance huart_dma_both)"
    and "trace huart_dma_both = []"
    by (simp_all add: huart_dma_both_def huart_ready_def dma_busy_def)
  with abort_join [of huart_dma_both dma_busy dma_busy] show ?thesis
    by auto
qed

subsection \<open>Line errors in the interrupt handler\<close>

lemma irq_error_branch:
  assumes "line_errors_detected huart \<noteq> {}"
  shows "HAL_UART_IRQHandler huart = error_tail (after_drain huart)"
  using assms
  by (cases "SR_PE \<in> SR (Instance huart)"; cases "CR1_PEIE \<in> CR1 (Instance huart)";
      cases "SR_NE \<in> SR (Instance huart)"; cases "SR_FE \<in> SR (Instance huart)";
      cases "SR_ORE \<in> SR (Instance huart)"; cases "CR3_EIE \<in> CR3 (Instance huart)";
      cases "SR_RXNE \<in> SR (Instance huart)"; cases "CR1_RXNEIE \<in> CR1 (Instance huart)")
     (simp_all add: HAL_UART_IRQHandler_def line_errors_detected_def after_drain_def
          error_tail_def Let_def)

lemma after_drain_keeps:
  "ErrorCode (after_drain huart) = ErrorCode huart \<union> line_errors_detected huart"
  "hdmarx (after_drain huart) = hdmarx huart"
  "(CR3_DMAR \<in> CR3 (Instance (after_drain huart))) = (CR3_DMAR \<in> CR3 (Instance huart))"
  by (simp_all add: after_drain_def UART_Receive_IT_def Let_def invoke_def)

lemma after_drain_continues:
  assumes "\<not> (SR_RXNE \<in> SR (Instance huart) \<and> CR1_RXNEIE \<in> CR1 (Instance huart)
              \<and> RxState huart = HAL_UART_STATE_BUSY_RX \<and> RxXferCount huart = 1)"
  shows "RxState (after_drain huart) = RxState huart"
    and "CR1 (Instance (after_drain huart)) = CR1 (Instance huart)"
    and "CR3 (Instance (after_drain huart)) = CR3 (Instance huart)"
    and "trace (after_drain huart) = trace huart"
  using assms
  by (auto simp add: after_drain_def UART_Receive_IT_def Let_def)

lemma after_drain_completes:
  assumes "SR_RXNE \<in> SR (Instance huart)" and "CR1_RXNEIE \<in> CR1 (Instance huart)"
    and "RxState huart = HAL_UART_STATE_BUSY_RX" and "RxXferCount huart = 1"
  shows "RxState (after_drain huart) = HAL_UART_STATE_READY"
    and "CR1 (Instance (after_drain huart)) = CR1 (Instance huart) - {CR1_RXNEIE, CR1_PEIE}"
    and "CR3 (Instance (after_drain huart)) = CR3 (Instance huart) - {CR3_EIE}"
    and "map fst (trace (after_drain huart)) = map fst (trace huart) @ [HAL_UART_RxCpltCallback]"
  using assms
  by (auto simp add: after_drain_def UART_Receive_IT_def Let_def invoke_def)

text \<open>
  C2, as amended.  At an interrupt where a line error is detected (its flag set, its
  interrupt source enabled) and either the accumulated error code includes Overrun or
  the DMA receive request bit is set, the error is blocking.  A received unit that is
  flagged and enabled is drained first; then the receive transfer is ended: the RXNE, PE
  and error interrupt enables and the DMA receive request are cleared and \<open>RxState\<close>
  is Ready.  If the DMA receive request bit was set and an Rx DMA channel is bound, the
  asynchronous abort of the channel is requested with \<^verbatim>\<open>UART_DMAAbortOnError\<close> as its
  callback, and the user error callback is invoked only when that abort completes (at
  once, through the same callback, if the request fails because the channel serves no
  transfer).  Otherwise, that is if the request bit was clear or no channel is bound, the
  user error callback is invoked directly.
\<close>

theorem blocking_line_error:
  assumes det: "line_errors_detected huart \<noteq> {}"
    and blk: "ERR_ORE \<in> ErrorCode huart \<union> line_errors_detected huart
              \<or> CR3_DMAR \<in> CR3 (Instance huart)"
  shows "RxState (HAL_UART_IRQHandler huart) = HAL_UART_STATE_READY
     \<and> CR1 (Instance (HAL_UART_IRQHandler huart))
          = CR1 (Instance (after_drain huart)) - {CR1_RXNEIE, CR1_PEIE}
     \<and> CR3 (Instance (HAL_UART_IRQHandler huart))
          = CR3 (Instance (after_drain huart)) - {CR3_EIE, CR3_DMAR}
     \<and> mem (HAL_UART_IRQHandler huart) = mem (after_drain huart)
     \<and> pRxBuffPtr (HAL_UART_IRQHandler huart) = pRxBuffPtr (after_drain huart)
     \<and> (\<forall>rx. CR3_DMAR \<in> CR3 (Instance huart) \<and> hdmarx huart = Some rx
              \<and> DMA_State rx = HAL_DMA_STATE_BUSY \<longrightarrow>
            hdmarx (HAL_UART_IRQHandler huart)
              = Some (rx\<lparr>XferAbortCallback := Some CB_UART_DMAAbortOnError,
                        AbortScheduled := True\<rparr>)
          \<and> trace (HAL_UART_IRQHandler huart) = trace (after_drain huart)
          \<and> (\<exists>h'' s. DMA_AbortCplt RxChannel (HAL_UART_IRQHandler huart) = Some h''
                \<and> trace h'' = trace (after_drain huart) @ [(HAL_UART_ErrorCallback, s)]
                \<and> at_RxState s = HAL_UART_STATE_READY
                \<and> at_ErrorCode s = ErrorCode huart \<union> line_errors_detected huart
                \<and> at_RxXferCount s = 0 \<and> at_TxXferCount s = 0))
     \<and> (\<forall>rx. CR3_DMAR \<in> CR3 (Instance huart) \<and> hdmarx huart = Some rx
              \<and> DMA_State rx \<noteq> HAL_DMA_STATE_BUSY \<longrightarrow>
            hdmarx (HAL_UART_IRQHandler huart)
              = Some (rx\<lparr>XferAbortCallback := Some CB_UART_DMAAbortOnError,
                        DMA_ErrorCode := HAL_DMA_ERROR_NO_XFER\<rparr>)
          \<and> (\<exists>s. trace (HAL_UART_IRQHandler huart)
                      = trace (after_drain huart) @ [(HAL_UART_ErrorCallback, s)]
                \<and> at_RxState s = HAL_UART_STATE_READY
                \<and> at_ErrorCode s = ErrorCode huart \<union> line_errors_detected huart
                \<and> at_RxXferCount s = 0 \<and> at_TxXferCount s = 0))
     \<and> (CR3_DMAR \<notin> CR3 (Instance huart) \<or> hdmarx huart = None \<longrightarrow>
            hdmarx (HAL_UART_IRQHandler huart) = hdmarx huart
          \<and> (\<exists>s. trace (HAL_UART_IRQHandler huart)
                      = trace (after_drain huart) @ [(HAL_UART_ErrorCallback, s)]
                \<and> at_RxState s = HAL_UART_STATE_READY
                \<and> at_ErrorCode s = ErrorCode huart \<union> line_errors_detected huart))"
proof -
  let ?d = "after_drain huart"
  let ?h = "HAL_UART_IRQHandler huart"
  have eq: "?h = error_tail ?d" by (rule irq_error_branch [OF det])
  from blk have blk': "ERR_ORE \<in> ErrorCode ?d \<or> CR3_DMAR \<in> CR3 (Instance ?d)"
    by (simp add: after_drain_keeps)
  have common: "RxState ?h = HAL_UART_STATE_READY
     \<and> CR1 (Instance ?h) = CR1 (Instance ?d) - {CR1_RXNEIE, CR1_PEIE}
     \<and> CR3 (Instance ?h) = CR3 (Instance ?d) - {CR3_EIE, CR3_DMAR}
     \<and> mem ?h = mem ?d \<and> pRxBuffPtr ?h = pRxBuffPtr ?d"
    using blk'
    by (auto simp: eq error_tail_def UART_EndRxTransfer_def Let_def invoke_def
        UART_DMAAbortOnError_def HAL_DMA_Abort_IT_def insert_commute
        split: option.splits)
  have requested: "hdmarx ?h = Some (rx\<lparr>XferAbortCallback := Some CB_UART_DMAAbortOnError,
                        AbortScheduled := True\<rparr>)
          \<and> trace ?h = trace ?d
          \<and> (\<exists>h'' s. DMA_AbortCplt RxChannel ?h = Some h''
                \<and> trace h'' = trace ?d @ [(HAL_UART_ErrorCallback, s)]
                \<and> at_RxState s = HAL_UART_STATE_READY
                \<and> at_ErrorCode s = ErrorCode huart \<union> line_errors_detected huart
                \<and> at_RxXferCount s = 0 \<and> at_TxXferCount s = 0)"
    if "CR3_DMAR \<in> CR3 (Instance huart)" "hdmarx huart = Some rx"
       "DMA_State rx = HAL_DMA_STATE_BUSY" for rx
    using that
    by (simp add: eq error_tail_def after_drain_keeps UART_EndRxTransfer_def Let_def
        HAL_DMA_Abort_IT_def DMA_AbortCplt_def UART_DMAAbortOnError_def invoke_def snap_def)
  have failed: "hdmarx ?h = Some (rx\<lparr>XferAbortCallback := Some CB_UART_DMAAbortOnError,
                        DMA_ErrorCode := HAL_DMA_ERROR_NO_XFER\<rparr>)
          \<and> (\<exists>s. trace ?h = trace ?d @ [(HAL_UART_ErrorCallback, s)]
                \<and> at_RxState s = HAL_UART_STATE_READY
                \<and> at_ErrorCode s = ErrorCode huart \<union> line_errors_detected huart
                \<and> at_RxXferCount s = 0 \<and> at_TxXferCount s = 0)"
    if "CR3_DMAR \<in> CR3 (Instance huart)" "hdmarx huart = Some rx"
       "DMA_State rx \<noteq> HAL_DMA_STATE_BUSY" for rx
    using that
    by (simp add: eq error_tail_def after_drain_keeps UART_EndRxTransfer_def Let_def
        HAL_DMA_Abort_IT_def UART_DMAAbortOnError_def invoke_def snap_def)
  have direct: "hdmarx ?h = hdmarx huart
          \<and> (\<exists>s. trace ?h = trace ?d @ [(HAL_UART_ErrorCallback, s)]
                \<and> at_RxState s = HAL_UART_STATE_READY
                \<and> at_ErrorCode s = ErrorCode huart \<union> line_errors_detected huart)"
    if "CR3_DMAR \<notin> CR3 (Instance huart) \<or> hdmarx huart = None"
    using that blk
    by (auto simp: eq error_tail_def after_drain_keeps UART_EndRxTransfer_def Let_def
        invoke_def snap_def)
  from common requested failed direct show ?thesis by blast
qed

theorem blocking_line_error_witness:
  "line_errors_detected huart_rx_dma = HAL_UART_ERROR_FE
   \<and> CR3_DMAR \<in> CR3 (Instance huart_rx_dma)
   \<and> RxState (HAL_UART_IRQHandler huart_rx_dma) = HAL_UART_STATE_READY
   \<and> hdmarx (HAL_UART_IRQHandler huart_rx_dma)
        = Some (dma_busy\<lparr>XferAbortCallback := Some CB_UART_DMAAbortOnError,
                         AbortScheduled := True\<rparr>)
   \<and> trace (HAL_UART_IRQHandler huart_rx_dma) = []
   \<and> map_option (\<lambda>h. map fst (trace h))
        (DMA_AbortCplt RxChannel (HAL_UART_IRQHandler huart_rx_dma))
        = Some [HAL_UART_ErrorCallback]"
proof -
  have det: "line_errors_detected huart_rx_dma = HAL_UART_ERROR_FE"
    by (simp add: line_errors_detected_def huart_rx_dma_def huart_ready_def)
  then have det': "line_errors_detected huart_rx_dma \<noteq> {}" by simp
  have dmar: "CR3_DMAR \<in> CR3 (Instance huart_rx_dma)"
    and rx: "hdmarx huart_rx_dma = Some dma_busy"
    and busy: "DMA_State dma_busy = HAL_DMA_STATE_BUSY"
    by (simp_all add: huart_rx_dma_def huart_ready_def dma_busy_def)
  have d: "trace (after_drain huart_rx_dma) = []"
    by (simp add: after_drain_def huart_rx_dma_def huart_ready_def)
  note inst = blocking_line_error [of huart_rx_dma, OF det' disjI2 [OF dmar]]
  from inst have ready: "RxState (HAL_UART_IRQHandler huart_rx_dma) = HAL_UART_STATE_READY"
    by (elim conjE)
  from inst have
    "\<forall>rx. CR3_DMAR \<in> CR3 (Instance huart_rx_dma) \<and> hdmarx huart_rx_dma = Some rx
              \<and> DMA_State rx = HAL_DMA_STATE_BUSY \<longrightarrow>
            hdmarx (HAL_UART_IRQHandler huart_rx_dma)
              = Some (rx\<lparr>XferAbortCallback := Some CB_UART_DMAAbortOnError,
                        AbortScheduled := True\<rparr>)
          \<and> trace (HAL_UART_IRQHandler huart_rx_dma) = trace (after_drain huart_rx_dma)
          \<and> (\<exists>h'' s. DMA_AbortCplt RxChannel (HAL_UART_IRQHandler huart_rx_dma) = Some h''
                \<and> trace h'' = trace (after_drain huart_rx_dma) @ [(HAL_UART_ErrorCallback, s)]
                \<and> at_RxState s = HAL_UART_STATE_READY
                \<and> at_ErrorCode s = ErrorCode huart_rx_dma \<union> line_errors_detected huart_rx_dma
                \<and> at_RxXferCount s = 0 \<and> at_TxXferCount s = 0)"
    by (elim conjE)
  from this [rule_format, of dma_busy] dmar rx busy obtain h'' s where
    "hdmarx (HAL_UART_IRQHandler huart_rx_dma)
       = Some (dma_busy\<lparr>XferAbortCallback := Some CB_UART_DMAAbortOnError,
                        AbortScheduled := True\<rparr>)"
    and "trace (HAL_UART_IRQHandler huart_rx_dma) = trace (after_drain huart_rx_dma)"
    and "DMA_AbortCplt RxChannel (HAL_UART_IRQHandler huart_rx_dma) = Some h''"
    and "trace h'' = trace (after_drain huart_rx_dma) @ [(HAL_UART_ErrorCallback, s)]"
    by blast
  with det dmar d ready show ?thesis
    by simp
qed

text \<open>
  The claim as stated requests the abort whenever an Rx DMA channel is bound.  At an
  overrun in an interrupt-mode reception, with the DMA receive request bit clear and an
  idle Rx DMA channel bound, the handler requests no abort (the channel is left as it
  was) and invokes the user error callback directly.
\<close>

theorem blocking_line_error_counterexample:
  "SR_ORE \<in> SR (Instance huart_overrun_it) \<and> CR3_EIE \<in> CR3 (Instance huart_overrun_it)
   \<and> CR3_DMAR \<notin> CR3 (Instance huart_overrun_it)
   \<and> hdmarx huart_overrun_it = Some dma_idle
   \<and> XferAbortCallback dma_idle = None \<and> AbortScheduled dma_idle = False
   \<and> RxState (HAL_UART_IRQHandler huart_overrun_it) = HAL_UART_STATE_READY
   \<and> hdmarx (HAL_UART_IRQHandler huart_overrun_it) = Some dma_idle
   \<and> map fst (trace (HAL_UART_IRQHandler huart_overrun_it)) = [HAL_UART_ErrorCallback]
   \<and> at_ErrorCode (snd (hd (trace (HAL_UART_IRQHandler huart_overrun_it)))) = HAL_UART_ERROR_ORE"
  by (simp add: HAL_UART_IRQHandler_def UART_EndRxTransfer_def Let_def invoke_def snap_def
      huart_overrun_it_def huart_rx_it_def huart_ready_def dma_idle_def dma_busy_def)

text \<open>
  C3, as amended.  At an interrupt where a parity, noise or frame error is detected, with
  no overrun in the accumulated error code and the DMA receive request bit clear, the
  handler invokes the user error callback with the accumulated error code and clears the
  error code to None right after; it changes nothing else of what the drain has left.
  So the receive transfer continues, with \<open>RxState\<close> and the interrupt enables as they
  were, unless the unit drained at this interrupt was the last one of the transfer: then
  the reception completes before the error is reported (the receive interrupt sources are
  disabled, \<open>RxState\<close> is Ready and the receive-complete callback comes first).
\<close>

theorem nonblocking_line_error:
  assumes det: "line_errors_detected huart \<noteq> {}"
    and noore: "ERR_ORE \<notin> ErrorCode huart \<union> line_errors_detected huart"
    and nodma: "CR3_DMAR \<notin> CR3 (Instance huart)"
  shows "HAL_UART_IRQHandler huart =
           (after_drain huart)
             \<lparr>trace := trace (after_drain huart)
                        @ [(HAL_UART_ErrorCallback, snap (after_drain huart))],
              ErrorCode := HAL_UART_ERROR_NONE\<rparr>
     \<and> at_ErrorCode (snap (after_drain huart)) = ErrorCode huart \<union> line_errors_detected huart
     \<and> ErrorCode (HAL_UART_IRQHandler huart) = HAL_UART_ERROR_NONE
     \<and> (\<not> (SR_RXNE \<in> SR (Instance huart) \<and> CR1_RXNEIE \<in> CR1 (Instance huart)
              \<and> RxState huart = HAL_UART_STATE_BUSY_RX \<and> RxXferCount huart = 1) \<longrightarrow>
          RxState (HAL_UART_IRQHandler huart) = RxState huart
        \<and> CR1 (Instance (HAL_UART_IRQHandler huart)) = CR1 (Instance huart)
        \<and> CR3 (Instance (HAL_UART_IRQHandler huart)) = CR3 (Instance huart)
        \<and> map fst (trace (HAL_UART_IRQHandler huart))
            = map fst (trace huart) @ [HAL_UART_ErrorCallback])
     \<and> (SR_RXNE \<in> SR (Instance huart) \<and> CR1_RXNEIE \<in> CR1 (Instance huart)
              \<and> RxState huart = HAL_UART_STATE_BUSY_RX \<and> RxXferCount huart = 1 \<longrightarrow>
          RxState (HAL_UART_IRQHandler huart) = HAL_UART_STATE_READY
        \<and> CR1 (Instance (HAL_UART_IRQHandler huart))
            = CR1 (Instance huart) - {CR1_RXNEIE, CR1_PEIE}
        \<and> CR3 (Instance (HAL_UART_IRQHandler huart)) = CR3 (Instance huart) - {CR3_EIE}
        \<and> map fst (trace (HAL_UART_IRQHandler huart))
            = map fst (trace huart) @ [HAL_UART_RxCpltCallback, HAL_UART_ErrorCallback])"
proof -
  let ?d = "after_drain huart"
  have tail: "HAL_UART_IRQHandler huart =
      ?d\<lparr>trace := trace ?d @ [(HAL_UART_ErrorCallback, snap ?d)],
         ErrorCode := HAL_UART_ERROR_NONE\<rparr>"
    using noore nodma
    by (simp add: irq_error_branch [OF det] error_tail_def after_drain_keeps invoke_def)
  have code: "at_ErrorCode (snap ?d) = ErrorCode huart \<union> line_errors_detected huart"
    by (simp add: snap_def after_drain_keeps)
  have cont: "RxState (HAL_UART_IRQHandler huart) = RxState huart
        \<and> CR1 (Instance (HAL_UART_IRQHandler huart)) = CR1 (Instance huart)
        \<and> CR3 (Instance (HAL_UART_IRQHandler huart)) = CR3 (Instance huart)
        \<and> map fst (trace (HAL_UART_IRQHandler huart))
            = map fst (trace huart) @ [HAL_UART_ErrorCallback]"
    if "\<not> (SR_RXNE \<in> SR (Instance huart) \<and> CR1_RXNEIE \<in> CR1 (Instance huart)
              \<and> RxState huart = HAL_UART_STATE_BUSY_RX \<and> RxXferCount huart = 1)"
    using after_drain_continues [OF that] by (simp add: tail)
  have last: "RxState (HAL_UART_IRQHandler huart) = HAL_UART_STATE_READY
        \<and> CR1 (Instance (HAL_UART_IRQHandler huart))
            = CR1 (Instance huart) - {CR1_RXNEIE, CR1_PEIE}
        \<and> CR3 (Instance (HAL_UART_IRQHandler huart)) = CR3 (Instance huart) - {CR3_EIE}
        \<and> map fst (trace (HAL_UART_IRQHandler huart))
            = map fst (trace huart) @ [HAL_UART_RxCpltCallback, HAL_UART_ErrorCallback]"
    if "SR_RXNE \<in> SR (Instance huart) \<and> CR1_RXNEIE \<in> CR1 (Instance huart)
              \<and> RxState huart = HAL_UART_STATE_BUSY_RX \<and> RxXferCount huart = 1"
    using after_drain_completes [of huart] that by (simp add: tail)
  from tail code cont last show ?thesis by simp
qed

theorem nonblocking_line_error_witness:
  "line_errors_detected huart_parity_mid = HAL_UART_ERROR_PE
   \<and> RxState huart_parity_mid = HAL_UART_STATE_BUSY_RX
   \<and> RxState (HAL_UART_IRQHandler huart_parity_mid) = HAL_UART_STATE_BUSY_RX
   \<and> CR1 (Instance (HAL_UART_IRQHandler huart_parity_mid)) = CR1 (Instance huart_parity_mid)
   \<and> CR3 (Instance (HAL_UART_IRQHandler huart_parity_mid)) = CR3 (Instance huart_parity_mid)
   \<and> ErrorCode (HAL_UART_IRQHandler huart_parity_mid) = HAL_UART_ERROR_NONE
   \<and> map fst (trace (HAL_UART_IRQHandler huart_parity_mid)) = [HAL_UART_ErrorCallback]"
proof -
  have det: "line_errors_detected huart_parity_mid = HAL_UART_ERROR_PE"
    by (simp add: line_errors_detected_def huart_parity_mid_def huart_rx_it_def huart_ready_def)
  have facts: "ErrorCode huart_parity_mid = {}" "CR3_DMAR \<notin> CR3 (Instance huart_parity_mid)"
    "RxXferCount huart_parity_mid = 8" "RxState huart_parity_mid = HAL_UART_STATE_BUSY_RX"
    "trace huart_parity_mid = []"
    by (simp_all add: huart_parity_mid_def huart_rx_it_def huart_ready_def)
  have cont: "\<not> (SR_RXNE \<in> SR (Instance huart_parity_mid)
                 \<and> CR1_RXNEIE \<in> CR1 (Instance huart_parity_mid)
                 \<and> RxState huart_parity_mid = HAL_UART_STATE_BUSY_RX
                 \<and> RxXferCount huart_parity_mid = 1)"
    by (simp add: facts)
  have "ErrorCode (HAL_UART_IRQHandler huart_parity_mid) = HAL_UART_ERROR_NONE
     \<and> RxState (HAL_UART_IRQHandler huart_parity_mid) = RxState huart_parity_mid
     \<and> CR1 (Instance (HAL_UART_IRQHandler huart_parity_mid)) = CR1 (Instance huart_parity_mid)
     \<and> CR3 (Instance (HAL_UART_IRQHandler huart_parity_mid)) = CR3 (Instance huart_parity_mid)
     \<and> map fst (trace (HAL_UART_IRQHandler huart_parity_mid))
          = map fst (trace huart_parity_mid) @ [HAL_UART_ErrorCallback]"
    using nonblocking_line_error [of huart_parity_mid] det facts(1,2) cont
    by blast
  with det facts show ?thesis
    by simp
qed

text \<open>
  The claim as stated says that \<open>RxState\<close> remains BusyRx and the receive interrupt
  enables remain set.  At a parity error that comes with the last unit of an
  interrupt-mode reception, the handler leaves \<open>RxState\<close> Ready and the RXNE interrupt
  source disabled.
\<close>

theorem nonblocking_line_error_counterexample:
  "SR_PE \<in> SR (Instance huart_parity_last) \<and> CR1_PEIE \<in> CR1 (Instance huart_parity_last)
   \<and> SR_ORE \<notin> SR (Instance huart_parity_last) \<and> ErrorCode huart_parity_last = HAL_UART_ERROR_NONE
   \<and> CR3_DMAR \<notin> CR3 (Instance huart_parity_last)
   \<and> RxState huart_parity_last = HAL_UART_STATE_BUSY_RX
   \<and> CR1_RXNEIE \<in> CR1 (Instance huart_parity_last)
   \<and> map fst (trace (HAL_UART_IRQHandler huart_parity_last))
        = [HAL_UART_RxCpltCallback, HAL_UART_ErrorCallback]
   \<and> ErrorCode (HAL_UART_IRQHandler huart_parity_last) = HAL_UART_ERROR_NONE
   \<and> RxState (HAL_UART_IRQHandler huart_parity_last) = HAL_UART_STATE_READY
   \<and> CR1_RXNEIE \<notin> CR1 (Instance (HAL_UART_IRQHandler huart_parity_last))"
  by (simp add: HAL_UART_IRQHandler_def UART_Receive_IT_def Let_def invoke_def
      huart_parity_last_def huart_rx_it_def huart_ready_def)

end
